(* ===== verification/OSP_Prelude.thy ===== *)
theory OSP_Prelude
  imports Complex_Main
begin

text \<open>
  Shared vocabulary of the Open Sonar development (\<^verbatim>\<open>src/OpenSonarSoftware\<close>).
  The Python program manipulates dynamically typed values held in lists (CSV rows,
  soundings) and signals failures by exceptions that its callers catch or let escape.
  This theory fixes how both are represented:
  \<^item> \<open>py_error\<close> names the Python exceptions the code can raise (and \<open>NonFinite\<close>,
    the point where a numpy computation leaves the finite floats), and \<open>'a res\<close>
    (\<open>py_error + 'a\<close>, \<open>Inl\<close> the exception) is the result of a statement that may raise;
  \<^item> \<open>pyval\<close> is a Python value as it occurs in a row: a float, an int, a string, \<open>None\<close>
    or a \<^verbatim>\<open>datetime.time\<close>;
  \<^item> \<open>py_get\<close> is Python list indexing, negative indices counting from the end;
  \<^item> \<open>py_add\<close>, \<open>py_sub\<close>, \<open>py_neg\<close>, \<open>py_div\<close>, \<open>py_round\<close> are the operators the code applies
    to row fields, raising \<open>TypeError\<close> on operands of the wrong type.
  Python floats are idealised as exact reals; \<^verbatim>\<open>round\<close> is exact decimal rounding with
  ties to even, as Python's \<^verbatim>\<open>round\<close> specifies for exactly representable values.
\<close>

section \<open>Exceptions and results\<close>

datatype py_error =
    IndexError
  | TypeError
  | ValueError
  | ZeroDivisionError
  | UnboundLocalError
  | AttributeError
  | EOFError
  | NameError
  | FileNotFoundError
  | NonFinite  \<comment> \<open>numpy returned \<^verbatim>\<open>nan\<close> or \<^verbatim>\<open>inf\<close> (a warning, not an exception)\<close>

type_synonym 'a res = "py_error + 'a"

definition rbind :: "'a res \<Rightarrow> ('a \<Rightarrow> 'b res) \<Rightarrow> 'b res" where
  "rbind r f = (case r of Inl e \<Rightarrow> Inl e | Inr x \<Rightarrow> f x)"

lemma rbind_Inl [simp]: "rbind (Inl e) f = Inl e"
  and rbind_Inr [simp]: "rbind (Inr x) f = f x"
  by (simp_all add: rbind_def)

lemma rbind_eq_Inr:
  "rbind r f = Inr y \<longleftrightarrow> (\<exists>x. r = Inr x \<and> f x = Inr y)"
  by (cases r) simp_all

lemma rbind_eq_Inl:
  "rbind r f = Inl e \<longleftrightarrow> r = Inl e \<or> (\<exists>x. r = Inr x \<and> f x = Inl e)"
  by (cases r) simp_all

section \<open>Clock times\<close>

text \<open>A \<^verbatim>\<open>datetime.time\<close> value: hour, minute, second, microsecond.\<close>

record clock =
  hour :: nat
  minute :: nat
  second :: nat
  microsecond :: nat

definition valid_clock :: "clock \<Rightarrow> bool" where
  "valid_clock c \<longleftrightarrow> hour c < 24 \<and> minute c < 60 \<and> second c < 60 \<and> microsecond c < 1000000"

section \<open>Python values\<close>

datatype pyval =
    PFloat real
  | PInt int
  | PStr string
  | PNone
  | PTime clock

text \<open>Python list indexing \<^verbatim>\<open>xs[i]\<close>: a negative index counts from the end.\<close>

definition py_get :: "'a list \<Rightarrow> int \<Rightarrow> 'a res" where
  "py_get xs i =
     (if i < - int (length xs) \<or> int (length xs) \<le> i then Inl IndexError
      else if i < 0 then Inr (xs ! nat (int (length xs) + i))
      else Inr (xs ! nat i))"

lemma py_get_nonneg [simp]:
  "py_get xs (int k) = (if k < length xs then Inr (xs ! k) else Inl IndexError)"
  by (simp add: py_get_def)

lemma py_get_numeral [simp]:
  "py_get xs (numeral k) =
     (if numeral k < length xs then Inr (xs ! numeral k) else Inl IndexError)"
  using py_get_nonneg [of xs "numeral k"] by simp

lemma py_get_one [simp]:
  "py_get xs 1 = (if 1 < length xs then Inr (xs ! 1) else Inl IndexError)"
  using py_get_nonneg [of xs 1] by simp

lemma py_get_zero [simp]:
  "py_get xs 0 = (case xs of [] \<Rightarrow> Inl IndexError | x # _ \<Rightarrow> Inr x)"
  by (simp add: py_get_def split: list.split)

lemma py_get_neg_numeral [simp]:
  "py_get xs (- numeral k) =
     (if numeral k \<le> length xs then Inr (xs ! (length xs - numeral k)) else Inl IndexError)"
proof (cases "numeral k \<le> length xs")
  case True
  then have "(numeral k :: int) \<le> int (length xs)" by (metis of_nat_le_iff of_nat_numeral)
  moreover have "0 < (numeral k :: int)" by simp
  ultimately have "\<not> int (length xs) \<le> - numeral k" by linarith
  with True show ?thesis by (auto simp add: py_get_def nat_diff_distrib)
next
  case False
  then show ?thesis by (auto simp add: py_get_def)
qed

lemma py_get_minus_one_append [simp]: "py_get (xs @ [x]) (-1) = Inr x"
  by (simp add: py_get_def)

text \<open>\<^verbatim>\<open>xs.index(v)\<close>: the position of the first occurrence, \<open>ValueError\<close> if none.\<close>

fun py_index :: "'a list \<Rightarrow> 'a \<Rightarrow> int res" where
  "py_index [] v = Inl ValueError"
| "py_index (x # xs) v =
     (if x = v then Inr 0 else (case py_index xs v of Inl e \<Rightarrow> Inl e | Inr i \<Rightarrow> Inr (i + 1)))"

section \<open>Operators on row fields\<close>

text \<open>Python's \<^verbatim>\<open>+\<close>: numbers add, strings concatenate, anything else raises.\<close>

fun py_add :: "pyval \<Rightarrow> pyval \<Rightarrow> pyval res" where
  "py_add (PFloat x) (PFloat y) = Inr (PFloat (x + y))"
| "py_add (PFloat x) (PInt y) = Inr (PFloat (x + of_int y))"
| "py_add (PInt x) (PFloat y) = Inr (PFloat (of_int x + y))"
| "py_add (PInt x) (PInt y) = Inr (PInt (x + y))"
| "py_add (PStr s) (PStr t) = Inr (PStr (s @ t))"
| "py_add _ _ = Inl TypeError"

fun py_sub :: "pyval \<Rightarrow> pyval \<Rightarrow> pyval res" where
  "py_sub (PFloat x) (PFloat y) = Inr (PFloat (x - y))"
| "py_sub (PFloat x) (PInt y) = Inr (PFloat (x - of_int y))"
| "py_sub (PInt x) (PFloat y) = Inr (PFloat (of_int x - y))"
| "py_sub (PInt x) (PInt y) = Inr (PInt (x - y))"
| "py_sub _ _ = Inl TypeError"

fun py_neg :: "pyval \<Rightarrow> pyval res" where
  "py_neg (PFloat x) = Inr (PFloat (- x))"
| "py_neg (PInt x) = Inr (PInt (- x))"
| "py_neg _ = Inl TypeError"

text \<open>True division \<^verbatim>\<open>/\<close> always yields a float and raises on a zero divisor.\<close>

fun py_num :: "pyval \<Rightarrow> real res" where
  "py_num (PFloat x) = Inr x"
| "py_num (PInt x) = Inr (of_int x)"
| "py_num _ = Inl TypeError"

definition py_div :: "pyval \<Rightarrow> pyval \<Rightarrow> pyval res" where
  "py_div a b =
     rbind (py_num a) (\<lambda>x. rbind (py_num b) (\<lambda>y.
       if y = 0 then Inl ZeroDivisionError else Inr (PFloat (x / y))))"

text \<open>
  Rounding to \<open>n\<close> decimal places with ties to even (\<^verbatim>\<open>round(x, n)\<close>), and to an
  integer (\<^verbatim>\<open>round(x)\<close>).
\<close>

definition round_even :: "real \<Rightarrow> int" where
  "round_even y =
     (let f = \<lfloor>y\<rfloor>; r = y - of_int f
      in if r < 1/2 then f else if 1/2 < r then f + 1 else if even f then f else f + 1)"

definition round_nd :: "nat \<Rightarrow> real \<Rightarrow> real" where
  "round_nd n x = of_int (round_even (x * 10 ^ n)) / 10 ^ n"

fun py_round :: "nat \<Rightarrow> pyval \<Rightarrow> pyval res" where
  "py_round n (PFloat x) = Inr (PFloat (round_nd n x))"
| "py_round n (PInt x) = Inr (PInt x)"
| "py_round n _ = Inl TypeError"

lemma round_even_of_int [simp]: "round_even (of_int k) = k"
  by (simp add: round_even_def)

lemma round_even_bounds: "\<bar>of_int (round_even y) - y\<bar> \<le> 1/2"
  unfolding round_even_def Let_def
  using of_int_floor_le [of y] real_of_int_floor_add_one_gt [of y]
  by (auto split: if_splits)

lemma round_nd_of_int [simp]: "round_nd n (of_int k / 10 ^ n) = of_int k / 10 ^ n"
proof -
  have "of_int k / 10 ^ n * 10 ^ n = (of_int k :: real)" by simp
  then show ?thesis by (simp add: round_nd_def)
qed

lemma round_nd_int [simp]: "round_nd n (of_int k) = of_int k"
proof -
  have "(of_int k * 10 ^ n :: real) = of_int (k * 10 ^ n)" by simp
  then have "round_nd n (of_int k) = of_int k * 10 ^ n / 10 ^ n"
    by (simp only: round_nd_def round_even_of_int)
  then show ?thesis by simp
qed

lemma round_nd_numeral [simp]: "round_nd n (numeral k) = numeral k"
  using round_nd_int [of n "numeral k"] by simp

section \<open>Python truthiness of comparisons on row fields\<close>

text \<open>\<^verbatim>\<open>row[1] == '$GNGGA'\<close>: a field equals a string literal only if it is that string.\<close>

definition is_kind :: "pyval list \<Rightarrow> string \<Rightarrow> bool" where
  "is_kind row k \<longleftrightarrow> py_get row 1 = Inr (PStr k)"

lemma is_kind_Cons2 [simp]: "is_kind (t # v # vs) k \<longleftrightarrow> v = PStr k"
  by (simp add: is_kind_def)

lemma not_is_kind_short [simp]: "length row \<le> 1 \<Longrightarrow> \<not> is_kind row k"
  by (simp add: is_kind_def py_get_def)

section \<open>Indexing lemmas\<close>

lemma py_get_minus_one:
  "xs \<noteq> [] \<Longrightarrow> py_get xs (-1) = Inr (last xs)"
  by (cases xs) (simp_all add: py_get_def last_conv_nth)

lemma py_get_minus_one_Cons [simp]: "py_get (x # xs) (-1) = Inr (last (x # xs))"
  by (rule py_get_minus_one) simp

lemma py_get_prev:
  "0 < i \<Longrightarrow> i < length xs \<Longrightarrow> py_get xs (int i - 1) = Inr (xs ! (i - 1))"
  using py_get_nonneg [of xs "i - 1"] by (simp add: of_nat_diff)

lemma py_get_ok:
  "- int (length xs) \<le> i \<Longrightarrow> i < int (length xs) \<Longrightarrow> \<exists>x. py_get xs i = Inr x \<and> x \<in> set xs"
  by (auto simp: py_get_def Let_def)

lemma py_get_Inr_in_set: "py_get xs i = Inr x \<Longrightarrow> x \<in> set xs"
  by (auto simp: py_get_def Let_def split: if_splits)

lemma py_index_Inr:
  "py_index xs v = Inr i \<Longrightarrow> 0 \<le> i \<and> i < int (length xs)"
  by (induction xs arbitrary: i) (auto split: if_splits sum.splits)

lemma py_index_in_set: "v \<in> set xs \<Longrightarrow> \<exists>i. py_index xs v = Inr i"
  by (induction xs) (auto split: sum.splits)

lemma py_index_first:
  "i < length xs \<Longrightarrow> (\<forall>j < i. xs ! j \<noteq> xs ! i) \<Longrightarrow> py_index xs (xs ! i) = Inr (int i)"
proof (induction xs arbitrary: i)
  case Nil then show ?case by simp
next
  case (Cons x xs)
  show ?case
  proof (cases i)
    case 0 then show ?thesis by simp
  next
    case (Suc k)
    with Cons.prems have "x \<noteq> xs ! k" by (metis nth_Cons_0 nth_Cons_Suc zero_less_Suc)
    moreover have "k < length xs" using Cons.prems Suc by simp
    moreover have "\<forall>j < k. xs ! j \<noteq> xs ! k"
    proof (intro allI impI)
      fix j assume "j < k"
      then have "Suc j < i" using Suc by simp
      with Cons.prems(2) Suc show "xs ! j \<noteq> xs ! k" by auto
    qed
    ultimately have "py_index xs (xs ! k) = Inr (int k)" and "x \<noteq> xs ! k"
      using Cons.IH by auto
    then show ?thesis using Suc by simp
  qed
qed

end
