(* ===== verification/Py_Text.thy ===== *)
theory Py_Text
  imports OSP_Prelude "HOL-Library.Char_ord"
begin

text \<open>
  The text layer the pipeline relies on: the CSV logs hold every value as text, so the
  readers parse it back with Python's \<^verbatim>\<open>float()\<close> and \<^verbatim>\<open>datetime.strptime\<close>, and the
  writers produce it with \<^verbatim>\<open>str()\<close>. This theory models those library calls at the
  points where \<^verbatim>\<open>osplib.py\<close> uses them: decimal digits, \<^verbatim>\<open>strptime\<close> for the two formats
  the code uses (with the regular-expression backtracking of CPython's \<^verbatim>\<open>_strptime\<close>),
  \<^verbatim>\<open>str\<close> of a time, of a float and of an int, and \<^verbatim>\<open>float\<close> of a string. The lemmas show
  that a time written by \<^verbatim>\<open>str\<close> parses back with \<^verbatim>\<open>'%H:%M:%S.%f'\<close> exactly when its
  microsecond is not zero.
\<close>

section \<open>Digits\<close>

definition is_digit :: "char \<Rightarrow> bool" where
  "is_digit c \<longleftrightarrow> CHR ''0'' \<le> c \<and> c \<le> CHR ''9''"

definition digit_val :: "char \<Rightarrow> nat" where
  "digit_val c = of_char c - of_char CHR ''0''"

definition digit_chr :: "nat \<Rightarrow> char" where
  "digit_chr n = ''0123456789'' ! n"

fun digits_val :: "string \<Rightarrow> nat" where
  "digits_val [] = 0"
| "digits_val (c # cs) = digit_val c * 10 ^ length cs + digits_val cs"

fun nat_str :: "nat \<Rightarrow> string" where
  "nat_str n = (if n < 10 then [digit_chr n] else nat_str (n div 10) @ [digit_chr (n mod 10)])"

declare nat_str.simps [simp del]

section \<open>strptime\<close>

datatype directive = DirH | DirM | DirS | Dirf | Lit char

record tfields =
  f_hour :: nat
  f_minute :: nat
  f_second :: nat
  f_micro :: nat

fun directive_cands :: "directive \<Rightarrow> string \<Rightarrow> (string \<times> string) list" where
  "directive_cands DirH s =
     (case s of
        a # b # r \<Rightarrow> (if a = CHR ''2'' \<and> CHR ''0'' \<le> b \<and> b \<le> CHR ''3'' then [([a, b], r)] else [])
                     @ (if (a = CHR ''0'' \<or> a = CHR ''1'') \<and> is_digit b then [([a, b], r)] else [])
                     @ (if is_digit a then [([a], b # r)] else [])
      | [a] \<Rightarrow> (if is_digit a then [([a], [])] else [])
      | [] \<Rightarrow> [])"
| "directive_cands DirM s =
     (case s of
        a # b # r \<Rightarrow> (if CHR ''0'' \<le> a \<and> a \<le> CHR ''5'' \<and> is_digit b then [([a, b], r)] else [])
                     @ (if is_digit a then [([a], b # r)] else [])
      | [a] \<Rightarrow> (if is_digit a then [([a], [])] else [])
      | [] \<Rightarrow> [])"
| "directive_cands DirS s =
     (case s of
        a # b # r \<Rightarrow> (if a = CHR ''6'' \<and> (b = CHR ''0'' \<or> b = CHR ''1'') then [([a, b], r)] else [])
                     @ (if CHR ''0'' \<le> a \<and> a \<le> CHR ''5'' \<and> is_digit b then [([a, b], r)] else [])
                     @ (if is_digit a then [([a], b # r)] else [])
      | [a] \<Rightarrow> (if is_digit a then [([a], [])] else [])
      | [] \<Rightarrow> [])"
| "directive_cands Dirf s =
     (let n = min 6 (length (takeWhile is_digit s))
      in map (\<lambda>k. (take k s, drop k s)) (rev [1..<Suc n]))"
| "directive_cands (Lit c) s =
     (case s of a # r \<Rightarrow> (if a = c then [([a], r)] else []) | [] \<Rightarrow> [])"

fun set_field :: "directive \<Rightarrow> string \<Rightarrow> tfields \<Rightarrow> tfields" where
  "set_field DirH v f = f\<lparr>f_hour := digits_val v\<rparr>"
| "set_field DirM v f = f\<lparr>f_minute := digits_val v\<rparr>"
| "set_field DirS v f = f\<lparr>f_second := digits_val v\<rparr>"
| "set_field Dirf v f = f\<lparr>f_micro := digits_val (v @ replicate (6 - length v) CHR ''0'')\<rparr>"
| "set_field (Lit c) v f = f"

fun first_some :: "'a option list \<Rightarrow> 'a option" where
  "first_some [] = None"
| "first_some (Some x # _) = Some x"
| "first_some (None # xs) = first_some xs"

fun fmt_match :: "directive list \<Rightarrow> string \<Rightarrow> (tfields \<times> string) option" where
  "fmt_match [] s = Some (\<lparr>f_hour = 0, f_minute = 0, f_second = 0, f_micro = 0\<rparr>, s)"
| "fmt_match (d # ds) s =
     first_some (map (\<lambda>(v, r). map_option (\<lambda>(f, rest). (set_field d v f, rest)) (fmt_match ds r))
                     (directive_cands d s))"

definition py_strptime :: "directive list \<Rightarrow> string \<Rightarrow> clock res" where
  "py_strptime fmt s =
     (case fmt_match fmt s of
        None \<Rightarrow> Inl ValueError
      | Some (f, rest) \<Rightarrow>
          if rest \<noteq> [] then Inl ValueError
          else if 59 < f_second f then Inl ValueError
          else Inr \<lparr>hour = f_hour f, minute = f_minute f, second = f_second f, microsecond = f_micro f\<rparr>)"

abbreviation fmt_colon :: "directive list" where
  "fmt_colon \<equiv> [DirH, Lit CHR '':'', DirM, Lit CHR '':'', DirS, Lit CHR ''.'', Dirf]"

abbreviation fmt_compact :: "directive list" where
  "fmt_compact \<equiv> [DirH, DirM, DirS, Lit CHR ''.'', Dirf]"


section \<open>Fixed-width decimals\<close>

text \<open>The last \<open>k\<close> decimal digits of \<open>n\<close>, zero-padded: Python's \<^verbatim>\<open>f'{n:0kd}'\<close> for
  \<open>n < 10 ^ k\<close>.\<close>

fun pad_digits :: "nat \<Rightarrow> nat \<Rightarrow> string" where
  "pad_digits 0 n = []"
| "pad_digits (Suc k) n = pad_digits k (n div 10) @ [digit_chr (n mod 10)]"

section \<open>str of a time\<close>

text \<open>\<^verbatim>\<open>str(t)\<close> of a \<^verbatim>\<open>datetime.time\<close> is \<^verbatim>\<open>t.isoformat()\<close>: \<^verbatim>\<open>HH:MM:SS\<close>, followed by
  \<^verbatim>\<open>.ffffff\<close> only when the microsecond is not zero.\<close>

definition time_str :: "clock \<Rightarrow> string" where
  "time_str t =
     pad_digits 2 (hour t) @ '':'' @ pad_digits 2 (minute t) @ '':'' @ pad_digits 2 (second t)
     @ (if microsecond t = 0 then [] else CHR ''.'' # pad_digits 6 (microsecond t))"

section \<open>repr of a float\<close>

text \<open>
  \<^verbatim>\<open>str(x)\<close> of a float is its shortest round-tripping decimal: fixed notation with at
  least one fractional digit when the decimal exponent lies in \<open>[-4, 16)\<close>, scientific
  notation with a signed two-digit exponent otherwise. The model's floats are exact
  reals; a value with a decimal expansion of at most 17 fractional digits prints as that
  expansion, any other value as its rounding to 17 fractional digits.
\<close>

function dec_scale_from :: "nat \<Rightarrow> real \<Rightarrow> nat" where
  "dec_scale_from k x =
     (if 17 \<le> k \<or> x * 10 ^ k = of_int \<lfloor>x * 10 ^ k\<rfloor> then k else dec_scale_from (Suc k) x)"
  by pat_completeness auto
termination
  by (relation "measure (\<lambda>(k, x). 17 - k)") auto

declare dec_scale_from.simps [simp del]

definition dec_scale :: "real \<Rightarrow> nat" where
  "dec_scale x = dec_scale_from 0 x"

definition strip_zeros :: "string \<Rightarrow> string" where
  "strip_zeros cs = rev (dropWhile (\<lambda>c. c = CHR ''0'') (rev cs))"

definition fixed_str :: "nat \<Rightarrow> nat \<Rightarrow> string" where
  "fixed_str n k =
     (if k = 0 then nat_str n @ ''.0''
      else let ds = nat_str n; ds' = replicate (Suc k - length ds) CHR ''0'' @ ds
           in take (length ds' - k) ds' @ CHR ''.'' # drop (length ds' - k) ds')"

definition sci_str :: "nat \<Rightarrow> int \<Rightarrow> string" where
  "sci_str n e =
     (let ds = strip_zeros (nat_str n)
      in hd ds # (if tl ds = [] then [] else CHR ''.'' # tl ds) @ CHR ''e'' #
         (if e < 0 then CHR ''-'' else CHR ''+'') # pad_digits (max 2 (length (nat_str (nat \<bar>e\<bar>)))) (nat \<bar>e\<bar>))"

definition float_repr_pos :: "real \<Rightarrow> string" where
  "float_repr_pos x =
     (let k = dec_scale x; n = nat (round_even (x * 10 ^ k));
          e = int (length (nat_str n)) - 1 - int k
      in if - 4 \<le> e \<and> e < 16 then fixed_str n k else sci_str n e)"

definition float_repr :: "real \<Rightarrow> string" where
  "float_repr x =
     (if x = 0 then ''0.0'' else if x < 0 then CHR ''-'' # float_repr_pos (- x) else float_repr_pos x)"

section \<open>float of a string\<close>

text \<open>
  \<^verbatim>\<open>float(s)\<close> of a string: surrounding whitespace is ignored, then an optional sign, a
  decimal mantissa with at least one digit and an optional exponent. Python also accepts
  \<^verbatim>\<open>inf\<close>, \<^verbatim>\<open>nan\<close> and digit separators \<^verbatim>\<open>_\<close>; the model has no non-finite values and
  rejects those spellings (\<open>None\<close>).
\<close>

definition is_space :: "char \<Rightarrow> bool" where
  "is_space c \<longleftrightarrow> c \<in> {CHR '' '', CHR 0x09, CHR 0x0A, CHR 0x0B, CHR 0x0C, CHR 0x0D}"

definition strip_space :: "string \<Rightarrow> string" where
  "strip_space s = rev (dropWhile is_space (rev (dropWhile is_space s)))"

definition split_sign :: "string \<Rightarrow> bool \<times> string" where
  "split_sign s =
     (if s \<noteq> [] \<and> hd s = CHR ''-'' then (True, tl s)
      else if s \<noteq> [] \<and> hd s = CHR ''+'' then (False, tl s) else (False, s))"

definition parse_exponent :: "string \<Rightarrow> int option" where
  "parse_exponent s =
     (if s = [] then Some 0
      else if hd s = CHR ''e'' \<or> hd s = CHR ''E'' then
        (let (neg, ds) = split_sign (tl s)
         in if ds \<noteq> [] \<and> list_all is_digit ds
            then Some (if neg then - int (digits_val ds) else int (digits_val ds)) else None)
      else None)"

definition parse_unsigned :: "string \<Rightarrow> real option" where
  "parse_unsigned s =
     (let d1 = takeWhile is_digit s; r1 = dropWhile is_digit s;
          d2 = (if r1 \<noteq> [] \<and> hd r1 = CHR ''.'' then takeWhile is_digit (tl r1) else []);
          r2 = (if r1 \<noteq> [] \<and> hd r1 = CHR ''.'' then dropWhile is_digit (tl r1) else r1)
      in if d1 @ d2 = [] then None
         else (case parse_exponent r2 of
                 None \<Rightarrow> None
               | Some e \<Rightarrow>
                   let m = real (digits_val (d1 @ d2)) / 10 ^ length d2
                   in Some (if 0 \<le> e then m * 10 ^ nat e else m / 10 ^ nat (- e))))"

definition parse_float :: "string \<Rightarrow> real option" where
  "parse_float s =
     (let (neg, r) = split_sign (strip_space s)
      in if neg then map_option uminus (parse_unsigned r) else parse_unsigned r)"

text \<open>\<^verbatim>\<open>int(s)\<close> of a string: surrounding whitespace, an optional sign and at least one
  decimal digit (digit separators \<^verbatim>\<open>_\<close> are not modelled).\<close>

definition parse_int :: "string \<Rightarrow> int option" where
  "parse_int s =
     (let (neg, ds) = split_sign (strip_space s)
      in if ds \<noteq> [] \<and> list_all is_digit ds
         then Some (if neg then - int (digits_val ds) else int (digits_val ds)) else None)"

section \<open>Python's float() and str() on row values\<close>

fun py_float :: "pyval \<Rightarrow> pyval res" where
  "py_float (PFloat x) = Inr (PFloat x)"
| "py_float (PInt i) = Inr (PFloat (of_int i))"
| "py_float (PStr s) = (case parse_float s of None \<Rightarrow> Inl ValueError | Some x \<Rightarrow> Inr (PFloat x))"
| "py_float _ = Inl TypeError"

definition int_str :: "int \<Rightarrow> string" where
  "int_str i = (if i < 0 then CHR ''-'' # nat_str (nat (- i)) else nat_str (nat i))"

fun py_str :: "pyval \<Rightarrow> string" where
  "py_str (PFloat x) = float_repr x"
| "py_str (PInt i) = int_str i"
| "py_str (PStr s) = s"
| "py_str PNone = ''None''"
| "py_str (PTime t) = time_str t"

text \<open>A real with at most 17 fractional decimal digits: the floats \<^verbatim>\<open>str\<close> prints exactly.\<close>

definition short_decimal :: "real \<Rightarrow> bool" where
  "short_decimal x \<longleftrightarrow> x * 10 ^ 17 = of_int \<lfloor>x * 10 ^ 17\<rfloor>"

text \<open>The characters \<^verbatim>\<open>str\<close> of a number may contain.\<close>

definition num_char :: "char \<Rightarrow> bool" where
  "num_char c \<longleftrightarrow> is_digit c \<or> c = CHR ''.'' \<or> c = CHR ''e'' \<or> c = CHR ''+'' \<or> c = CHR ''-''"

text \<open>A numeral as \<^verbatim>\<open>str\<close> writes it: digits, with no sign or surrounding space.\<close>

definition plain_num :: "string \<Rightarrow> bool" where
  "plain_num s \<longleftrightarrow> s \<noteq> [] \<and> is_digit (hd s) \<and> list_all (\<lambda>c. \<not> is_space c) s"

section \<open>Digits, padding and candidates\<close>

lemma nat_str_numeral [simp]:
  "nat_str (numeral k) =
     (if numeral k < (10::nat) then [digit_chr (numeral k)]
      else nat_str (numeral k div 10) @ [digit_chr (numeral k mod 10)])"
  by (rule nat_str.simps)

lemma nat_str_0 [simp]: "nat_str 0 = [digit_chr 0]"
  by (simp add: nat_str.simps)

lemma nat_str_1 [simp]: "nat_str (Suc 0) = [digit_chr 1]"
  by (simp add: nat_str.simps)

lemma pad_digits_numeral [simp]:
  "pad_digits (numeral k) n = pad_digits (pred_numeral k) (n div 10) @ [digit_chr (n mod 10)]"
  by (subst numeral_eq_Suc) (rule pad_digits.simps(2))

lemma digits_val_replicate_zero [simp]: "digits_val (replicate n CHR ''0'') = 0"
  by (induction n) (simp_all add: digit_val_def)


lemma nat_less_10_cases:
  "n < 10 \<Longrightarrow> n = 0 \<or> n = 1 \<or> n = 2 \<or> n = 3 \<or> n = 4 \<or> n = 5 \<or> n = 6 \<or> n = 7 \<or> n = 8 \<or> n = 9"
  for n :: nat by auto
lemma of_char_digit_chr: "n < 10 \<Longrightarrow> of_char (digit_chr n) = 48 + n"
  by (drule nat_less_10_cases) (auto simp: digit_chr_def)

lemma char_le_iff_of_char: "c \<le> d \<longleftrightarrow> of_char c \<le> (of_char d :: nat)"
  by (simp add: less_eq_char_def)

lemma digit_chr_is_digit [simp]: "n < 10 \<Longrightarrow> is_digit (digit_chr n)"
  by (simp add: is_digit_def char_le_iff_of_char of_char_digit_chr)

lemma digit_val_digit_chr [simp]: "n < 10 \<Longrightarrow> digit_val (digit_chr n) = n"
  by (simp add: digit_val_def of_char_digit_chr)

lemma digit_chr_small [simp]:
  "digit_chr 0 = CHR ''0''" "digit_chr 1 = CHR ''1''" "digit_chr 2 = CHR ''2''"
  "digit_chr 3 = CHR ''3''" "digit_chr 5 = CHR ''5''" "digit_chr 6 = CHR ''6''"
  by (simp_all add: digit_chr_def)

lemma digits_val_snoc: "digits_val (cs @ [c]) = 10 * digits_val cs + digit_val c"
  by (induction cs) (simp_all add: algebra_simps)

lemma length_pad_digits [simp]: "length (pad_digits k n) = k"
  by (induction k arbitrary: n) simp_all

lemma pad_digits_all_digits: "list_all is_digit (pad_digits k n)"
  by (induction k arbitrary: n) simp_all

lemma digits_val_pad_digits: "digits_val (pad_digits k n) = n mod 10 ^ k"
  by (induction k arbitrary: n) (simp_all add: digits_val_snoc mod_mult2_eq)

lemma pad_digits_2: "pad_digits 2 n = [digit_chr (n div 10 mod 10), digit_chr (n mod 10)]"
  by (simp add: numeral_2_eq_2)

lemma digit_chr_le_char: "n < 10 \<Longrightarrow> digit_chr n \<le> c \<longleftrightarrow> 48 + n \<le> of_char c"
  by (simp add: char_le_iff_of_char of_char_digit_chr)

lemma char_le_digit_chr: "n < 10 \<Longrightarrow> c \<le> digit_chr n \<longleftrightarrow> of_char c \<le> 48 + n"
  by (simp add: char_le_iff_of_char of_char_digit_chr)

lemma digit_chr_eq_char: "n < 10 \<Longrightarrow> digit_chr n = c \<longleftrightarrow> of_char c = 48 + n"
  by (metis of_char_digit_chr of_char_eq_iff)

lemmas digit_chr_cmp = digit_chr_le_char char_le_digit_chr digit_chr_eq_char

lemma cands_hour:
  assumes "h < 24"
  shows "\<exists>cs. directive_cands DirH (pad_digits 2 h @ r) = (pad_digits 2 h, r) # cs"
proof -
  have t: "h div 10 < 10" "h mod 10 < 10" "h div 10 \<le> 2" using assms by simp_all
  have "h div 10 = 2 \<Longrightarrow> h mod 10 \<le> 3" using assms div_mult_mod_eq[of h 10] by linarith
  then show ?thesis using t by (auto simp: pad_digits_2 digit_chr_cmp)
qed

lemma cands_minute:
  assumes "m < 60"
  shows "\<exists>cs. directive_cands DirM (pad_digits 2 m @ r) = (pad_digits 2 m, r) # cs"
proof -
  have "m div 10 < 10" "m mod 10 < 10" "m div 10 \<le> 5" using assms by simp_all
  then show ?thesis by (auto simp: pad_digits_2 digit_chr_cmp)
qed

lemma cands_second:
  assumes "s < 60"
  shows "\<exists>cs. directive_cands DirS (pad_digits 2 s @ r) = (pad_digits 2 s, r) # cs"
proof -
  have "s div 10 < 10" "s mod 10 < 10" "s div 10 \<le> 5" using assms by simp_all
  then show ?thesis by (auto simp: pad_digits_2 digit_chr_cmp)
qed

lemma cands_fraction:
  assumes "list_all is_digit s" "s \<noteq> []" "length s \<le> 6"
  shows "\<exists>cs. directive_cands Dirf s = (s, []) # cs"
proof -
  have t: "takeWhile is_digit s = s" using assms(1) by (simp add: list_all_iff)
  have "1 \<le> length s" using assms(2) by (cases s) auto
  then show ?thesis using assms(3) unfolding directive_cands.simps Let_def t by (simp add: min_def)
qed

lemma fmt_match_lit [simp]: "fmt_match (Lit c # ds) (c # r) = fmt_match ds r"
  by (cases "fmt_match ds r") auto

lemma fmt_match_cand:
  "\<exists>cs. directive_cands d s = (v, r) # cs \<Longrightarrow> fmt_match ds r = Some (f, rest) \<Longrightarrow>
   fmt_match (d # ds) s = Some (set_field d v f, rest)"
  by auto

lemma first_some_Some: "first_some xs = Some y \<Longrightarrow> Some y \<in> set xs"
  by (induction xs rule: first_some.induct) auto

lemma cands_split: "(v, r) \<in> set (directive_cands d s) \<Longrightarrow> v @ r = s"
  by (cases s rule: remdups_adj.cases; cases d) (auto split: if_split_asm simp: Let_def)

lemma fmt_match_Cons_Some:
  assumes "fmt_match (d # ds) s = Some (f, rest)"
  shows "\<exists>v r f'. (v, r) \<in> set (directive_cands d s) \<and> fmt_match ds r = Some (f', rest)"
proof -
  obtain v r where "(v, r) \<in> set (directive_cands d s)"
    and "Some (f, rest) = map_option (\<lambda>(f, y). (set_field d v f, y)) (fmt_match ds r)"
    using first_some_Some [OF assms [unfolded fmt_match.simps(2)]] by auto
  then show ?thesis by (cases "fmt_match ds r") auto
qed

lemma fmt_match_lit_in:
  "fmt_match ds s = Some (f, rest) \<Longrightarrow> Lit c \<in> set ds \<Longrightarrow> c \<in> set s"
proof (induction ds arbitrary: s f rest)
  case Nil
  then show ?case by simp
next
  case (Cons d ds)
  from fmt_match_Cons_Some [OF Cons.prems(1)] obtain v r f' where
    vr: "(v, r) \<in> set (directive_cands d s)" and m: "fmt_match ds r = Some (f', rest)"
    by blast
  have s: "s = v @ r" using cands_split [OF vr] by simp
  show ?case
  proof (cases "d = Lit c")
    case True
    then show ?thesis using vr by (auto split: list.splits if_splits)
  next
    case False
    then show ?thesis using Cons.IH [OF m] Cons.prems(2) s by auto
  qed
qed

lemma dot_notin_pad_digits: "CHR ''.'' \<notin> set (pad_digits k n)"
  using pad_digits_all_digits [of k n] by (auto simp: list_all_iff is_digit_def)

section \<open>Numbers written by str and read back by float and int\<close>

lemma digits_val_append: "digits_val (xs @ ys) = digits_val xs * 10 ^ length ys + digits_val ys"
  by (induction xs) (simp_all add: algebra_simps power_add)

lemma digits_val_zeros_prefix [simp]: "digits_val (replicate z CHR ''0'' @ ds) = digits_val ds"
  by (simp add: digits_val_append)

lemma nat_str_small: "n < 10 \<Longrightarrow> nat_str n = [digit_chr n]"
  by (simp add: nat_str.simps)

lemma nat_str_big: "\<not> n < 10 \<Longrightarrow> nat_str n = nat_str (n div 10) @ [digit_chr (n mod 10)]"
  by (subst nat_str.simps) simp

lemmas nat_str_cases = nat_str_small nat_str_big

lemma digits_val_nat_str [simp]: "digits_val (nat_str n) = n"
  by (induction n rule: nat_str.induct) (case_tac "n < 10"; simp add: nat_str_cases digits_val_snoc)

lemma nat_str_digits: "list_all is_digit (nat_str n)"
  by (induction n rule: nat_str.induct) (case_tac "n < 10"; simp add: nat_str_cases)

lemma nat_str_ne [simp]: "nat_str n \<noteq> []"
  by (cases "n < 10") (simp_all add: nat_str_cases)

lemma nat_str_bound: "n < 10 ^ length (nat_str n)"
proof (induction n rule: nat_str.induct)
  case (1 n)
  show ?case
  proof (cases "n < 10")
    case True
    then show ?thesis by (simp add: nat_str_cases)
  next
    case False
    then have "n div 10 < 10 ^ length (nat_str (n div 10))" using 1 by simp
    then show ?thesis using False by (simp add: nat_str_cases)
  qed
qed

lemma nat_str_hd: "0 < n \<Longrightarrow> hd (nat_str n) \<noteq> CHR ''0''"
proof (induction n rule: nat_str.induct)
  case (1 n)
  show ?case
  proof (cases "n < 10")
    case True
    then show ?thesis using 1(2) digit_chr_eq_char [of n "CHR ''0''"] by (simp add: nat_str_cases)
  next
    case False
    then show ?thesis using 1 by (simp add: nat_str_cases)
  qed
qed

lemma not_digit_chars [simp]: "\<not> is_digit CHR ''.''" "\<not> is_digit CHR ''e''"
  by (simp_all add: is_digit_def)

lemma takeWhile_digits_stop:
  "list_all is_digit I \<Longrightarrow> \<not> is_digit c \<Longrightarrow> takeWhile is_digit (I @ c # r) = I"
  by (induction I) auto

lemma dropWhile_digits_stop:
  "list_all is_digit I \<Longrightarrow> \<not> is_digit c \<Longrightarrow> dropWhile is_digit (I @ c # r) = c # r"
  by (induction I) auto

lemma parse_unsigned_point:
  assumes "list_all is_digit I" "list_all is_digit F" "I @ F \<noteq> []"
  shows "parse_unsigned (I @ CHR ''.'' # F) = Some (real (digits_val (I @ F)) / 10 ^ length F)"
proof -
  have tw: "takeWhile is_digit F = F" "dropWhile is_digit F = []"
    using assms(2) by (simp_all add: list_all_iff)
  show ?thesis
    using assms by (simp add: parse_unsigned_def takeWhile_digits_stop dropWhile_digits_stop
                              parse_exponent_def tw Let_def)
qed

lemma parse_exponent_digits:
  assumes "list_all is_digit E" "E \<noteq> []"
  shows "parse_exponent (CHR ''e'' # (if neg then CHR ''-'' else CHR ''+'') # E) =
         Some (if neg then - int (digits_val E) else int (digits_val E))"
  using assms by (simp add: parse_exponent_def split_sign_def)

lemma parse_unsigned_exp:
  assumes "list_all is_digit I" "list_all is_digit F" "I \<noteq> []" "list_all is_digit E" "E \<noteq> []"
  shows "parse_unsigned (I @ (if F = [] then [] else CHR ''.'' # F) @ CHR ''e'' #
                          (if neg then CHR ''-'' else CHR ''+'') # E) =
         Some (let m = real (digits_val (I @ F)) / 10 ^ length F; e = digits_val E
               in if neg \<and> 0 < e then m / 10 ^ e else m * 10 ^ e)"
proof (cases "F = []")
  case True
  then show ?thesis
    using assms by (simp add: parse_unsigned_def takeWhile_digits_stop dropWhile_digits_stop
                              parse_exponent_digits Let_def)
next
  case False
  have "takeWhile is_digit (F @ CHR ''e'' # r) = F" "dropWhile is_digit (F @ CHR ''e'' # r) = CHR ''e'' # r" for r
    using assms(2) by (simp_all add: takeWhile_digits_stop dropWhile_digits_stop)
  then show ?thesis
    using assms False by (simp add: parse_unsigned_def takeWhile_digits_stop dropWhile_digits_stop
                              parse_exponent_digits Let_def)
qed

lemma digits_append_iff: "list_all is_digit (xs @ ys) \<longleftrightarrow> list_all is_digit xs \<and> list_all is_digit ys"
  by simp

lemma zeros_digits [simp]: "list_all is_digit (replicate z CHR ''0'')"
  by (induction z) (simp_all add: is_digit_def)

lemma parse_fixed: "parse_unsigned (fixed_str n k) = Some (real n / 10 ^ k)"
proof (cases "k = 0")
  case True
  have "parse_unsigned (nat_str n @ CHR ''.'' # ''0'') = Some (real (digits_val (nat_str n @ ''0'')) / 10)"
    using parse_unsigned_point [of "nat_str n" "''0''"] nat_str_digits by (simp add: is_digit_def)
  then show ?thesis using True by (simp add: fixed_str_def digits_val_snoc digit_val_def)
next
  case False
  define ds' where "ds' = replicate (Suc k - length (nat_str n)) CHR ''0'' @ nat_str n"
  have d: "list_all is_digit ds'" using nat_str_digits [of n] by (simp add: ds'_def)
  have l: "Suc k \<le> length ds'" by (simp add: ds'_def)
  have "parse_unsigned (take (length ds' - k) ds' @ CHR ''.'' # drop (length ds' - k) ds') =
        Some (real (digits_val ds') / 10 ^ k)"
  proof (rule trans [OF parse_unsigned_point])
    show "list_all is_digit (take (length ds' - k) ds')" "list_all is_digit (drop (length ds' - k) ds')"
      by (metis append_take_drop_id d list_all_append)+
  qed (use l in auto)
  then show ?thesis using False by (simp add: fixed_str_def ds'_def Let_def)
qed

lemma takeWhile_eq_replicate: "takeWhile (\<lambda>c. c = a) ys = replicate (length (takeWhile (\<lambda>c. c = a) ys)) a"
  by (induction ys) auto

lemma strip_zeros_split: "\<exists>j. cs = strip_zeros cs @ replicate j CHR ''0''"
proof -
  let ?P = "\<lambda>c. c = CHR ''0''"
  have "rev cs = takeWhile ?P (rev cs) @ dropWhile ?P (rev cs)" by simp
  then have "cs = strip_zeros cs @ rev (takeWhile ?P (rev cs))"
    unfolding strip_zeros_def by (metis rev_append rev_rev_ident)
  then show ?thesis by (metis rev_replicate takeWhile_eq_replicate)
qed

lemma strip_zeros_ne: "cs \<noteq> [] \<Longrightarrow> hd cs \<noteq> CHR ''0'' \<Longrightarrow> strip_zeros cs \<noteq> []"
  using strip_zeros_split [of cs] by (metis append_Nil hd_replicate replicate_empty)

lemma sci_value:
  assumes "n = dv * 10 ^ j" "0 < lds" "e = int (lds + j) - 1 - int k"
  shows "(if e < 0 \<and> 0 < nat \<bar>e\<bar> then real dv / 10 ^ (lds - 1) / 10 ^ nat \<bar>e\<bar>
          else real dv / 10 ^ (lds - 1) * 10 ^ nat \<bar>e\<bar>) = real n / 10 ^ k"
proof (cases "e < 0")
  case True
  then have k: "k = (lds - 1) + j + nat \<bar>e\<bar>" using assms(2,3) by linarith
  have "real dv / 10 ^ (lds - 1) / 10 ^ nat \<bar>e\<bar> = real dv * 10 ^ j / 10 ^ k"
    unfolding k by (simp add: power_add field_simps)
  then show ?thesis using True assms(1) by simp
next
  case False
  then have k: "(lds - 1) + j = k + nat \<bar>e\<bar>" using assms(2,3) by linarith
  have "real dv / 10 ^ (lds - 1) * 10 ^ nat \<bar>e\<bar> = real dv * 10 ^ j / 10 ^ k"
  proof -
    have "(10::real) ^ nat \<bar>e\<bar> * 10 ^ k = 10 ^ (lds - 1) * 10 ^ j"
      by (metis k power_add mult.commute)
    then show ?thesis by (simp add: field_simps)
  qed
  then show ?thesis using False assms(1) by simp
qed

lemma parse_sci:
  assumes "0 < n" "e = int (length (nat_str n)) - 1 - int k"
  shows "parse_unsigned (sci_str n e) = Some (real n / 10 ^ k)"
proof -
  define ds where "ds = strip_zeros (nat_str n)"
  obtain j where sp: "nat_str n = ds @ replicate j CHR ''0''"
    using strip_zeros_split ds_def by blast
  have ne: "ds \<noteq> []" unfolding ds_def using nat_str_hd [OF assms(1)] by (simp add: strip_zeros_ne)
  have nv: "n = digits_val ds * 10 ^ j"
    using arg_cong [OF sp, of digits_val] by (simp add: digits_val_append)
  have dd: "list_all is_digit ds" using nat_str_digits [of n] sp by simp
  define w where "w = max 2 (length (nat_str (nat \<bar>e\<bar>)))"
  have ev: "digits_val (pad_digits w (nat \<bar>e\<bar>)) = nat \<bar>e\<bar>"
  proof -
    have "nat \<bar>e\<bar> < 10 ^ length (nat_str (nat \<bar>e\<bar>))" by (rule nat_str_bound)
    also have "\<dots> \<le> 10 ^ w" unfolding w_def by (rule power_increasing) simp_all
    finally show ?thesis by (simp add: digits_val_pad_digits)
  qed
  have "2 \<le> length (pad_digits w (nat \<bar>e\<bar>))" by (simp add: w_def)
  then have w: "pad_digits w (nat \<bar>e\<bar>) \<noteq> []" "list_all is_digit (pad_digits w (nat \<bar>e\<bar>))"
    by (metis list.size(3) not_numeral_le_zero) (rule pad_digits_all_digits)
  obtain d F where dF: "ds = d # F" using ne by (cases ds) auto
  have dd': "list_all is_digit [d]" "list_all is_digit F" "[d] \<noteq> []" using dd dF by simp_all
  have pe: "parse_unsigned (d # (if F = [] then [] else CHR ''.'' # F) @ CHR ''e'' #
                            (if e < 0 then CHR ''-'' else CHR ''+'') # pad_digits w (nat \<bar>e\<bar>)) =
        Some (let m = real (digits_val ([d] @ F)) / 10 ^ length F; ee = digits_val (pad_digits w (nat \<bar>e\<bar>))
              in if e < 0 \<and> 0 < ee then m / 10 ^ ee else m * 10 ^ ee)"
    using parse_unsigned_exp [OF dd' w(2) w(1), of "e < 0"] by (simp only: append_Cons append_Nil)
  have "parse_unsigned (sci_str n e) =
        Some (let m = real (digits_val ([d] @ F)) / 10 ^ length F; ee = digits_val (pad_digits w (nat \<bar>e\<bar>))
              in if e < 0 \<and> 0 < ee then m / 10 ^ ee else m * 10 ^ ee)"
    unfolding sci_str_def Let_def ds_def [symmetric] w_def [symmetric] dF list.sel
    using pe by (simp only: Let_def)
  also have "\<dots> = Some (real n / 10 ^ k)"
  proof -
    have eqs: "[d] @ F = ds" "length F = length ds - 1" using dF by simp_all
    have "length (nat_str n) = length ds + j" using sp by simp
    then have sv: "(if e < 0 \<and> 0 < nat \<bar>e\<bar> then real (digits_val ds) / 10 ^ (length ds - 1) / 10 ^ nat \<bar>e\<bar>
                   else real (digits_val ds) / 10 ^ (length ds - 1) * 10 ^ nat \<bar>e\<bar>) = real n / 10 ^ k"
      using sci_value [OF nv] ne assms(2) by simp
    show ?thesis unfolding Let_def ev eqs sv by (rule refl)
  qed
  finally show ?thesis .
qed

lemma dec_scale_from_exact:
  "i \<le> k \<Longrightarrow> k \<le> 17 \<Longrightarrow> x * 10 ^ k = of_int \<lfloor>x * 10 ^ k\<rfloor> \<Longrightarrow>
   x * 10 ^ dec_scale_from i x = of_int \<lfloor>x * 10 ^ dec_scale_from i x\<rfloor>"
proof (induction i x rule: dec_scale_from.induct)
  case (1 i x)
  show ?case
  proof (cases "17 \<le> i \<or> x * 10 ^ i = of_int \<lfloor>x * 10 ^ i\<rfloor>")
    case True
    then have "x * 10 ^ i = of_int \<lfloor>x * 10 ^ i\<rfloor>" using "1.prems" by (metis le_antisym order_trans)
    moreover have "dec_scale_from i x = i" using True by (subst dec_scale_from.simps) simp
    ultimately show ?thesis by simp
  next
    case False
    then have "Suc i \<le> k" using "1.prems" by (metis le_neq_implies_less Suc_leI)
    moreover have "dec_scale_from i x = dec_scale_from (Suc i) x" using False by (subst dec_scale_from.simps) simp
    ultimately show ?thesis using False "1.IH" "1.prems" by simp
  qed
qed

lemma dec_scale_exact:
  "x * 10 ^ 17 = of_int \<lfloor>x * 10 ^ 17\<rfloor> \<Longrightarrow> x * 10 ^ dec_scale x = of_int \<lfloor>x * 10 ^ dec_scale x\<rfloor>"
  unfolding dec_scale_def using dec_scale_from_exact [of 0 17 x] by simp

lemma digit_not_space: "is_digit c \<Longrightarrow> \<not> is_space c"
  by (auto simp: is_digit_def is_space_def)

lemma strip_space_plain: "list_all (\<lambda>c. \<not> is_space c) s \<Longrightarrow> strip_space s = s"
proof -
  have dw: "list_all (\<lambda>c. \<not> is_space c) xs \<Longrightarrow> dropWhile is_space xs = xs" for xs
    by (cases xs) simp_all
  assume "list_all (\<lambda>c. \<not> is_space c) s"
  then show ?thesis by (simp add: strip_space_def dw)
qed

lemma not_space_chars [simp]:
  "\<not> is_space CHR ''.''" "\<not> is_space CHR ''e''" "\<not> is_space CHR ''-''" "\<not> is_space CHR ''+''"
  by (simp_all add: is_space_def)

lemma is_digit_zero_chr [simp]: "is_digit CHR ''0''"
  by (simp add: is_digit_def)

lemma digits_no_space: "list_all is_digit xs \<Longrightarrow> list_all (\<lambda>c. \<not> is_space c) xs"
  by (induction xs) (simp_all add: digit_not_space)

lemma parse_float_plain: "plain_num s \<Longrightarrow> parse_float s = parse_unsigned s"
  by (cases s) (auto simp: plain_num_def parse_float_def split_sign_def strip_space_plain is_digit_def)

lemma parse_float_minus_plain:
  "plain_num s \<Longrightarrow> parse_float (CHR ''-'' # s) = map_option uminus (parse_unsigned s)"
  by (auto simp: plain_num_def parse_float_def split_sign_def strip_space_plain)

lemma plain_fixed: "plain_num (fixed_str n k)"
proof (cases "k = 0")
  case True
  then show ?thesis using nat_str_digits [of n]
    by (cases "nat_str n") (auto simp: plain_num_def fixed_str_def digits_no_space digit_not_space)
next
  case False
  define ds' where "ds' = replicate (Suc k - length (nat_str n)) CHR ''0'' @ nat_str n"
  have d: "list_all is_digit ds'" using nat_str_digits [of n] by (simp add: ds'_def)
  have l: "Suc k \<le> length ds'" by (simp add: ds'_def)
  have t: "list_all is_digit (take (length ds' - k) ds')" "list_all is_digit (drop (length ds' - k) ds')"
    by (metis append_take_drop_id d list_all_append)+
  obtain c cs where c: "take (length ds' - k) ds' = c # cs"
    using l by (cases "take (length ds' - k) ds'") auto
  have fs: "fixed_str n k = take (length ds' - k) ds' @ CHR ''.'' # drop (length ds' - k) ds'"
    using False by (simp add: fixed_str_def ds'_def Let_def)
  show ?thesis using t unfolding fs c
    by (simp add: plain_num_def digits_no_space digit_not_space)
qed

lemma plain_sci: "0 < n \<Longrightarrow> plain_num (sci_str n e)"
proof -
  assume n: "0 < n"
  define ds where "ds = strip_zeros (nat_str n)"
  obtain j where sp: "nat_str n = ds @ replicate j CHR ''0''"
    using strip_zeros_split ds_def by blast
  have ne: "ds \<noteq> []" unfolding ds_def using nat_str_hd [OF n] by (simp add: strip_zeros_ne)
  have dd: "list_all is_digit ds" using nat_str_digits [of n] sp by simp
  obtain d F where dF: "ds = d # F" using ne by (cases ds) auto
  show ?thesis using dd pad_digits_all_digits
    by (simp add: plain_num_def sci_str_def ds_def [symmetric] dF Let_def digits_no_space digit_not_space)
qed

lemma float_repr_pos_scaled:
  assumes "0 < x" "x * 10 ^ 17 = of_int \<lfloor>x * 10 ^ 17\<rfloor>"
  shows "real (nat (round_even (x * 10 ^ dec_scale x))) = x * 10 ^ dec_scale x \<and>
         0 < nat (round_even (x * 10 ^ dec_scale x))"
proof -
  define k where "k = dec_scale x"
  define z where "z = \<lfloor>x * 10 ^ k\<rfloor>"
  have z: "x * 10 ^ k = of_int z" using dec_scale_exact [OF assms(2)] by (simp add: k_def z_def)
  moreover have "0 < x * 10 ^ k" using assms(1) by simp
  ultimately have "0 < z" by simp
  then show ?thesis using z by (simp add: k_def [symmetric])
qed

lemma float_repr_pos_parse:
  assumes "0 < x" "x * 10 ^ 17 = of_int \<lfloor>x * 10 ^ 17\<rfloor>"
  shows "plain_num (float_repr_pos x) \<and> parse_unsigned (float_repr_pos x) = Some x"
proof -
  define k where "k = dec_scale x"
  define n where "n = nat (round_even (x * 10 ^ k))"
  have n: "real n = x * 10 ^ k" "0 < n" using float_repr_pos_scaled [OF assms] by (simp_all add: n_def k_def)
  then have x: "x = real n / 10 ^ k" by simp
  show ?thesis
    using parse_fixed [of n k] parse_sci [OF n(2) refl, of k] plain_fixed [of n k] plain_sci [OF n(2)]
    unfolding float_repr_pos_def Let_def k_def [symmetric] n_def [symmetric] x [symmetric]
    by simp
qed

lemma float_repr_parse:
  assumes "short_decimal x"
  shows "parse_float (float_repr x) = Some x"
proof -
  have ex: "x * 10 ^ 17 = of_int \<lfloor>x * 10 ^ 17\<rfloor>" using assms by (simp add: short_decimal_def)
  have neg: "- x * 10 ^ 17 = of_int \<lfloor>- x * 10 ^ 17\<rfloor>"
    using ex by (metis floor_of_int mult_minus_left of_int_minus)
  consider "x = 0" | "0 < x" | "x < 0" by linarith
  then show ?thesis
  proof cases
    case 1
    then show ?thesis by (simp add: float_repr_def parse_float_def strip_space_def is_space_def
                                    split_sign_def parse_unsigned_def is_digit_def parse_exponent_def digit_val_def)
  next
    case 2
    then show ?thesis using float_repr_pos_parse [OF 2 ex] by (simp add: float_repr_def parse_float_plain)
  next
    case 3
    then have "0 < - x" by simp
    then show ?thesis using float_repr_pos_parse [OF _ neg] 3
      by (simp add: float_repr_def parse_float_minus_plain)
  qed
qed

lemma plain_nat_str: "plain_num (nat_str n)"
  using nat_str_digits [of n] nat_str_ne [of n]
  by (cases "nat_str n") (auto simp: plain_num_def digits_no_space digit_not_space)

lemma split_sign_plain: "plain_num s \<Longrightarrow> split_sign s = (False, s)"
  by (auto simp: plain_num_def split_sign_def is_digit_def)

lemma int_str_parse: "parse_int (int_str i) = Some i"
proof -
  have p: "plain_num (nat_str n)" "list_all is_digit (nat_str n)" for n
    by (rule plain_nat_str) (rule nat_str_digits)
  have s: "strip_space (nat_str n) = nat_str n" "strip_space (CHR ''-'' # nat_str n) = CHR ''-'' # nat_str n" for n
    using p(1) [of n] by (simp_all add: plain_num_def strip_space_plain)
  have ss: "split_sign (nat_str n) = (False, nat_str n)" "split_sign (CHR ''-'' # nat_str n) = (True, nat_str n)" for n
    using split_sign_plain [OF p(1)] by (simp_all add: split_sign_def)
  show ?thesis
    using p(2) [of "nat i"] p(2) [of "nat (- i)"] by (simp add: parse_int_def int_str_def s ss)
qed

lemma parse_unsigned_digits:
  "list_all is_digit s \<Longrightarrow> s \<noteq> [] \<Longrightarrow> parse_unsigned s = Some (real (digits_val s))"
proof -
  assume d: "list_all is_digit s" and "s \<noteq> []"
  have tw: "takeWhile is_digit s = s" "dropWhile is_digit s = []" using d by (simp_all add: list_all_iff)
  show ?thesis using \<open>s \<noteq> []\<close> by (simp add: parse_unsigned_def tw parse_exponent_def)
qed

lemma int_str_parse_float: "parse_float (int_str i) = Some (of_int i)"
proof (cases "i < 0")
  case True
  then show ?thesis
    using parse_float_minus_plain [OF plain_nat_str] parse_unsigned_digits [OF nat_str_digits nat_str_ne]
    by (simp add: int_str_def)
next
  case False
  then show ?thesis
    using parse_float_plain [OF plain_nat_str] parse_unsigned_digits [OF nat_str_digits nat_str_ne]
    by (simp add: int_str_def)
qed

lemma digits_num_chars: "list_all is_digit xs \<Longrightarrow> list_all num_char xs"
  by (induction xs) (auto simp: num_char_def)

lemma strip_zeros_digits: "list_all is_digit cs \<Longrightarrow> list_all is_digit (strip_zeros cs)"
  using strip_zeros_split [of cs] by (metis list_all_append)

lemma fixed_str_chars: "list_all num_char (fixed_str n k)"
proof (cases "k = 0")
  case True
  then show ?thesis using digits_num_chars [OF nat_str_digits [of n]]
    by (simp add: fixed_str_def num_char_def is_digit_def)
next
  case False
  define ds' where "ds' = replicate (Suc k - length (nat_str n)) CHR ''0'' @ nat_str n"
  have d: "list_all is_digit ds'" using nat_str_digits [of n] by (simp add: ds'_def)
  have t: "list_all is_digit (take (length ds' - k) ds')" "list_all is_digit (drop (length ds' - k) ds')"
    by (metis append_take_drop_id d list_all_append)+
  have fs: "fixed_str n k = take (length ds' - k) ds' @ CHR ''.'' # drop (length ds' - k) ds'"
    using False by (simp add: fixed_str_def ds'_def Let_def)
  show ?thesis using digits_num_chars [OF t(1)] digits_num_chars [OF t(2)] unfolding fs
    by (simp add: num_char_def)
qed

lemma sci_str_chars: "0 < n \<Longrightarrow> list_all num_char (sci_str n e)"
proof -
  assume n: "0 < n"
  have d: "list_all is_digit (strip_zeros (nat_str n))" by (rule strip_zeros_digits [OF nat_str_digits])
  have p: "list_all num_char (pad_digits w k)" for w k by (rule digits_num_chars [OF pad_digits_all_digits])
  show ?thesis
  proof (cases "strip_zeros (nat_str n)")
    case Nil
    then show ?thesis using strip_zeros_ne [OF nat_str_ne nat_str_hd [OF n]] by simp
  next
    case (Cons c cs)
    then have "num_char c" "list_all num_char cs" using digits_num_chars [OF d] by simp_all
    then show ?thesis using p Cons by (simp add: sci_str_def Let_def num_char_def)
  qed
qed

lemma float_repr_pos_chars:
  "0 < x \<Longrightarrow> x * 10 ^ 17 = of_int \<lfloor>x * 10 ^ 17\<rfloor> \<Longrightarrow> list_all num_char (float_repr_pos x)"
  using fixed_str_chars sci_str_chars float_repr_pos_scaled by (simp add: float_repr_pos_def Let_def)

lemma float_repr_chars: "short_decimal x \<Longrightarrow> list_all num_char (float_repr x)"
proof -
  assume "short_decimal x"
  then have e: "x * 10 ^ 17 = of_int \<lfloor>x * 10 ^ 17\<rfloor>" "- x * 10 ^ 17 = of_int \<lfloor>- x * 10 ^ 17\<rfloor>"
    by (simp_all add: short_decimal_def) (metis floor_of_int mult_minus_left of_int_minus)
  show ?thesis
    using float_repr_pos_chars [OF _ e(1)] float_repr_pos_chars [of "- x", OF _ e(2)]
    by (simp add: float_repr_def num_char_def is_digit_def)
qed

lemma int_str_chars: "list_all num_char (int_str i)"
  using digits_num_chars [OF nat_str_digits] by (simp add: int_str_def num_char_def)

lemma comma_not_num_char: "\<not> num_char CHR '',''"
  by (simp add: num_char_def is_digit_def)

section \<open>Times written by str and read back by strptime\<close>

lemma time_str_parse:
  assumes "valid_clock t" "microsecond t \<noteq> 0"
  shows "py_strptime fmt_colon (time_str t) = Inr t"
proof -
  let ?u = "pad_digits 6 (microsecond t)"
  let ?z = "\<lparr>f_hour = 0, f_minute = 0, f_second = 0, f_micro = 0\<rparr>"
  have b: "hour t < 24" "minute t < 60" "second t < 60" "microsecond t < 10 ^ 6"
    using assms(1) by (simp_all add: valid_clock_def)
  have "fmt_match [Dirf] ?u = Some (set_field Dirf ?u ?z, [])"
    by (rule fmt_match_cand [OF cands_fraction]) (simp_all add: pad_digits_all_digits)
  then have "fmt_match [DirS, Lit CHR ''.'', Dirf] (pad_digits 2 (second t) @ CHR ''.'' # ?u) =
             Some (set_field DirS (pad_digits 2 (second t)) (set_field Dirf ?u ?z), [])"
    by (intro fmt_match_cand [OF cands_second]) (simp_all add: b)
  then have "fmt_match [DirM, Lit CHR '':'', DirS, Lit CHR ''.'', Dirf]
               (pad_digits 2 (minute t) @ CHR '':'' # pad_digits 2 (second t) @ CHR ''.'' # ?u) =
             Some (set_field DirM (pad_digits 2 (minute t))
                     (set_field DirS (pad_digits 2 (second t)) (set_field Dirf ?u ?z)), [])"
    by (intro fmt_match_cand [OF cands_minute]) (simp_all add: b)
  then have "fmt_match fmt_colon (time_str t) =
             Some (set_field DirH (pad_digits 2 (hour t)) (set_field DirM (pad_digits 2 (minute t))
                     (set_field DirS (pad_digits 2 (second t)) (set_field Dirf ?u ?z))), [])"
    unfolding time_str_def using assms(2)
    by (intro fmt_match_cand [OF cands_hour]) (simp_all add: b)
  then show ?thesis
    using b unfolding py_strptime_def by (simp del: fmt_match.simps pad_digits_numeral add: digits_val_pad_digits)
qed

lemma time_str_whole_second:
  assumes "microsecond t = 0"
  shows "py_strptime fmt_colon (time_str t) = Inl ValueError"
proof -
  have "CHR ''.'' \<notin> set (time_str t)"
    using assms dot_notin_pad_digits by (simp del: pad_digits_numeral add: time_str_def)
  then have "fmt_match fmt_colon (time_str t) = None"
    using fmt_match_lit_in [of fmt_colon "time_str t" _ _ "CHR ''.''"]
    by (cases "fmt_match fmt_colon (time_str t)") auto
  then show ?thesis by (simp add: py_strptime_def)
qed

end
