(* ===== verification/Raw_Log.thy ===== *)
theory Raw_Log
  imports Py_Text
begin

text \<open>
  The log files of the pipeline (\<^verbatim>\<open>osplib.py\<close>, section Readers and Writers, and
  \<^verbatim>\<open>Raw_Log.read_raw_log\<close>, \<^verbatim>\<open>Profile.read_simple_svp\<close>). A CSV file is modelled as the list
  of rows the \<^verbatim>\<open>csv\<close> module yields, each a list of text cells; the quoting of the
  \<^verbatim>\<open>csv\<close> module itself is a library and is not modelled. The metadata dictionary is a
  record with one field per key, each holding the Python list of the key.
\<close>

section \<open>generic_reader\<close>

text \<open>\<^verbatim>\<open>generic_reader\<close> scans the rows once; \<^verbatim>\<open>row[0]\<close> of an empty row (a blank line of
  the file) raises \<^verbatim>\<open>IndexError\<close>, which the reader does not catch. The end marker
  \<^verbatim>\<open>None\<close> never equals a cell, so the scan then runs to the end of the file.\<close>

fun generic_loop :: "string \<Rightarrow> string option \<Rightarrow> bool \<Rightarrow> string list list \<Rightarrow> string list list
                     \<Rightarrow> string list list res" where
  "generic_loop start stop start_found return_list [] = Inr return_list"
| "generic_loop start stop start_found return_list (row # rows) =
     rbind (py_get row 0) (\<lambda>r0.
       if r0 \<noteq> start \<and> \<not> start_found then generic_loop start stop start_found return_list rows
       else if r0 = start then generic_loop start stop True return_list rows
       else if Some r0 = stop then Inr return_list
       else generic_loop start stop start_found (return_list @ [row]) rows)"

definition generic_reader :: "string list list \<Rightarrow> string \<Rightarrow> string option \<Rightarrow> string list list res" where
  "generic_reader file start stop = generic_loop start stop False [] file"

section \<open>file_check\<close>

text \<open>\<^verbatim>\<open>file_check\<close> returns after the extension test; its existence test is unreachable.\<close>

definition file_check :: "string \<Rightarrow> string \<Rightarrow> bool" where
  "file_check filename ending \<longleftrightarrow>
     length ending \<le> length filename \<and> drop (length filename - length ending) filename = ending"

section \<open>Metadata\<close>

record metadata =
  meta_filetype :: "string list"
  meta_survey :: "pyval list"
  meta_geodetics :: "pyval list"
  meta_vessel :: "pyval list"
  meta_gnss :: "pyval list"
  meta_sonar :: "pyval list"
  meta_svp :: "pyval list"
  meta_gnss_com :: "pyval list"
  meta_sonar_com :: "pyval list"
  meta_svp_com :: "pyval list"

fun res_list :: "'a res list \<Rightarrow> 'a list res" where
  "res_list [] = Inr []"
| "res_list (r # rs) = rbind r (\<lambda>x. rbind (res_list rs) (\<lambda>xs. Inr (x # xs)))"

definition cell :: "string list list \<Rightarrow> int \<Rightarrow> int \<Rightarrow> string res" where
  "cell rr i j = rbind (py_get rr i) (\<lambda>row. py_get row j)"

definition str_cell :: "string list list \<Rightarrow> int \<Rightarrow> int \<Rightarrow> pyval res" where
  "str_cell rr i j = rbind (cell rr i j) (\<lambda>s. Inr (PStr s))"

definition float_cell :: "string list list \<Rightarrow> int \<Rightarrow> int \<Rightarrow> pyval res" where
  "float_cell rr i j = rbind (cell rr i j) (\<lambda>s. case parse_float s of
                                               None \<Rightarrow> Inl ValueError | Some x \<Rightarrow> Inr (PFloat x))"

definition int_cell :: "string list list \<Rightarrow> int \<Rightarrow> int \<Rightarrow> pyval res" where
  "int_cell rr i j = rbind (cell rr i j) (\<lambda>s. case parse_int s of
                                             None \<Rightarrow> Inl ValueError | Some k \<Rightarrow> Inr (PInt k))"

text \<open>\<^verbatim>\<open>read_config_file\<close>: a file name without the \<^verbatim>\<open>.csv\<close> ending gives \<^verbatim>\<open>None\<close>;
  otherwise the header rows between \<^verbatim>\<open>Header_Start\<close> and \<^verbatim>\<open>Header_End\<close> are converted
  key by key, in the order of the source, and the first failing index or conversion
  raises. The returned dictionary has no \<^verbatim>\<open>filetype\<close> key (the empty list here).\<close>

definition read_config_file :: "string \<Rightarrow> string list list \<Rightarrow> metadata option res" where
  "read_config_file filename file =
     (if \<not> file_check filename ''.csv'' then Inr None
      else rbind (generic_reader file ''Header_Start'' (Some ''Header_End'')) (\<lambda>rr.
        rbind (res_list [str_cell rr 0 0, str_cell rr 0 1, str_cell rr 0 2]) (\<lambda>survey.
        rbind (res_list [float_cell rr 1 0, float_cell rr 1 1]) (\<lambda>geodetics.
        rbind (res_list [str_cell rr 2 0]) (\<lambda>vessel.
        rbind (res_list [str_cell rr 3 0, str_cell rr 3 1, float_cell rr 3 2,
                         float_cell rr 3 3, float_cell rr 3 4, float_cell rr 3 5]) (\<lambda>gnss.
        rbind (res_list [str_cell rr 4 0, str_cell rr 4 1, float_cell rr 4 2,
                         float_cell rr 4 3, float_cell rr 4 4, float_cell rr 4 5]) (\<lambda>sonar.
        rbind (res_list [str_cell rr 5 0, str_cell rr 5 1, float_cell rr 5 2]) (\<lambda>svp.
        rbind (res_list [str_cell rr 6 0, str_cell rr 6 1, int_cell rr 6 2]) (\<lambda>gnss_com.
        rbind (res_list [str_cell rr 7 0, str_cell rr 7 1, int_cell rr 7 2]) (\<lambda>sonar_com.
        rbind (res_list [str_cell rr 8 0, str_cell rr 8 1, int_cell rr 8 2]) (\<lambda>svp_com.
        Inr (Some \<lparr>meta_filetype = [], meta_survey = survey, meta_geodetics = geodetics,
                   meta_vessel = vessel, meta_gnss = gnss, meta_sonar = sonar, meta_svp = svp,
                   meta_gnss_com = gnss_com, meta_sonar_com = sonar_com,
                   meta_svp_com = svp_com\<rparr>))))))))))))"

section \<open>write_meta_header\<close>

text \<open>\<^verbatim>\<open>writer.writerow\<close> writes \<^verbatim>\<open>str\<close> of every element; the first row holds \<^verbatim>\<open>str\<close> of
  the file-type list itself (quote escaping inside that repr is not modelled). An empty
  file-type list raises \<^verbatim>\<open>IndexError\<close> after the metadata rows are written.\<close>

fun join_str :: "string \<Rightarrow> string list \<Rightarrow> string" where
  "join_str sep [] = []"
| "join_str sep [x] = x"
| "join_str sep (x # xs) = x @ sep @ join_str sep xs"

definition list_repr :: "string list \<Rightarrow> string" where
  "list_repr xs = CHR ''['' # join_str '', '' (map (\<lambda>s. CHR 0x27 # s @ [CHR 0x27]) xs) @ '']''"

definition simple_columns :: string where
  "simple_columns = ''Time, Latitude, Longitude, Depth_Below_Water, Height_Ellipsoidal, Soundspeed''"

definition meta_rows :: "metadata \<Rightarrow> string list list" where
  "meta_rows m =
     [map py_str (meta_survey m), map py_str (meta_geodetics m), map py_str (meta_vessel m),
      map py_str (meta_gnss m), map py_str (meta_sonar m), map py_str (meta_svp m),
      map py_str (meta_gnss_com m), map py_str (meta_sonar_com m), map py_str (meta_svp_com m)]"

definition write_meta_header :: "metadata \<Rightarrow> string list list res" where
  "write_meta_header m =
     rbind (py_get (meta_filetype m) 0) (\<lambda>ft.
       Inr ([[list_repr (meta_filetype m)], [''Header_Start'']] @ meta_rows m
            @ (if ft = ''OSP_SIMPLE_LOG'' then [[simple_columns]] else [])
            @ [[''Header_End'']]))"

section \<open>read_raw_log\<close>

text \<open>Per-field coercion of a body row: an empty cell becomes \<^verbatim>\<open>None\<close> (and \<^verbatim>\<open>float(None)\<close>
  then fails, leaving it \<^verbatim>\<open>None\<close>), a cell \<^verbatim>\<open>float()\<close> accepts becomes a float, anything else
  (the parsed time included) is left as it is.\<close>

fun coerce_field :: "pyval \<Rightarrow> pyval" where
  "coerce_field (PStr s) =
     (if s = [] then PNone else case parse_float s of Some x \<Rightarrow> PFloat x | None \<Rightarrow> PStr s)"
| "coerce_field v = v"

definition read_row :: "string list \<Rightarrow> pyval list list" where
  "read_row row =
     (case rbind (py_get row 0) (py_strptime fmt_colon) of
        Inl _ \<Rightarrow> []
      | Inr t \<Rightarrow> [map coerce_field (PTime t # map PStr (tl row))])"

definition read_raw_log :: "string \<Rightarrow> string list list \<Rightarrow> (metadata option \<times> pyval list list) res" where
  "read_raw_log filename file =
     rbind (read_config_file filename file) (\<lambda>metadata.
       rbind (generic_reader file ''Header_End'' None) (\<lambda>raw_log.
         Inr (metadata, concat (map read_row raw_log))))"

section \<open>Shape of a metadata header\<close>

text \<open>The kinds of the cells \<^verbatim>\<open>read_config_file\<close> converts, key by key, and the metadata
  whose header it reads back: strings where it keeps strings, ints or floats with at most
  17 fractional digits where it calls \<^verbatim>\<open>float\<close>, ints where it calls \<^verbatim>\<open>int\<close>.\<close>

datatype field_kind = KStr | KFloat | KInt

fun fits :: "field_kind \<Rightarrow> pyval \<Rightarrow> bool" where
  "fits KStr (PStr s) = True"
| "fits KFloat (PFloat x) = short_decimal x"
| "fits KFloat (PInt i) = True"
| "fits KInt (PInt i) = True"
| "fits _ _ = False"

fun norm_field :: "field_kind \<Rightarrow> pyval \<Rightarrow> pyval" where
  "norm_field KFloat (PInt i) = PFloat (of_int i)"
| "norm_field _ v = v"

definition meta_kinds :: "field_kind list list" where
  "meta_kinds =
     [[KStr, KStr, KStr], [KFloat, KFloat], [KStr], [KStr, KStr, KFloat, KFloat, KFloat, KFloat],
      [KStr, KStr, KFloat, KFloat, KFloat, KFloat], [KStr, KStr, KFloat], [KStr, KStr, KInt],
      [KStr, KStr, KInt], [KStr, KStr, KInt]]"

definition meta_values :: "metadata \<Rightarrow> pyval list list" where
  "meta_values m =
     [meta_survey m, meta_geodetics m, meta_vessel m, meta_gnss m, meta_sonar m, meta_svp m,
      meta_gnss_com m, meta_sonar_com m, meta_svp_com m]"

definition wf_metadata :: "metadata \<Rightarrow> bool" where
  "wf_metadata m \<longleftrightarrow>
     list_all2 (list_all2 fits) meta_kinds (meta_values m) \<and>
     list_all (\<lambda>vs. py_str (hd vs) \<noteq> ''Header_Start'' \<and> py_str (hd vs) \<noteq> ''Header_End'') (meta_values m)"

definition norm_metadata :: "metadata \<Rightarrow> metadata" where
  "norm_metadata m =
     (let nv = map2 (map2 norm_field) meta_kinds (meta_values m)
      in \<lparr>meta_filetype = [], meta_survey = nv ! 0, meta_geodetics = nv ! 1, meta_vessel = nv ! 2,
          meta_gnss = nv ! 3, meta_sonar = nv ! 4, meta_svp = nv ! 5, meta_gnss_com = nv ! 6,
          meta_sonar_com = nv ! 7, meta_svp_com = nv ! 8\<rparr>)"

text \<open>A body cell that reads back as the value written: a float \<^verbatim>\<open>str\<close> prints exactly,
  or a non-empty text \<^verbatim>\<open>float()\<close> rejects.\<close>

fun cell_roundtrips :: "pyval \<Rightarrow> bool" where
  "cell_roundtrips (PFloat x) = short_decimal x"
| "cell_roundtrips (PStr s) = (s \<noteq> [] \<and> parse_float s = None)"
| "cell_roundtrips _ = False"

text \<open>The cell reader \<^verbatim>\<open>read_config_file\<close> applies to a cell of the given kind.\<close>

definition rd :: "field_kind \<Rightarrow> string list list \<Rightarrow> int \<Rightarrow> int \<Rightarrow> pyval res" where
  "rd k = (case k of KStr \<Rightarrow> str_cell | KFloat \<Rightarrow> float_cell | KInt \<Rightarrow> int_cell)"

section \<open>read_simple_svp\<close>

text \<open>\<^verbatim>\<open>item[0]\<close> and \<^verbatim>\<open>item[1]\<close> are read outside the \<^verbatim>\<open>try\<close>: a line with fewer than
  two cells raises \<^verbatim>\<open>IndexError\<close>. A row is kept only when both cells convert.\<close>

fun svp_loop :: "real list \<Rightarrow> real list \<Rightarrow> string list list \<Rightarrow> (real list \<times> real list) res" where
  "svp_loop depths speeds [] = Inr (depths, speeds)"
| "svp_loop depths speeds (item # lines) =
     rbind (py_get item 0) (\<lambda>depth. rbind (py_get item 1) (\<lambda>speed.
       case (parse_float depth, parse_float speed) of
         (Some d, Some s) \<Rightarrow> svp_loop (depths @ [d]) (speeds @ [s]) lines
       | _ \<Rightarrow> svp_loop depths speeds lines))"

definition read_simple_svp :: "string list list \<Rightarrow> (real list \<times> real list) res" where
  "read_simple_svp lines = svp_loop [] [] lines"

section \<open>Reading back what the writers wrote\<close>

lemma generic_loop_skip:
  "\<forall>row\<in>set pre. row \<noteq> [] \<and> hd row \<noteq> start \<Longrightarrow>
   generic_loop start stop False acc (pre @ rows) = generic_loop start stop False acc rows"
  by (induction pre) (auto simp: neq_Nil_conv)

lemma generic_loop_body:
  "\<forall>row\<in>set body. row \<noteq> [] \<and> hd row \<noteq> start \<and> Some (hd row) \<noteq> stop \<Longrightarrow>
   generic_loop start stop True acc (body @ rows) = generic_loop start stop True (acc @ body) rows"
  by (induction body arbitrary: acc) (auto simp: neq_Nil_conv)

lemma generic_reader_between:
  assumes "\<forall>row\<in>set pre. row \<noteq> [] \<and> hd row \<noteq> start"
    and "\<forall>row\<in>set body. row \<noteq> [] \<and> hd row \<noteq> start \<and> hd row \<noteq> stop" and "stop \<noteq> start"
  shows "generic_reader (pre @ (start # s1) # body @ (stop # s2) # post) start (Some stop) = Inr body"
proof -
  have "\<forall>row\<in>set body. row \<noteq> [] \<and> hd row \<noteq> start \<and> Some (hd row) \<noteq> Some stop" using assms(2) by simp
  then show ?thesis
    using assms(3) by (simp add: generic_reader_def generic_loop_skip [OF assms(1)] generic_loop_body)
qed

lemma generic_reader_to_end:
  assumes "\<forall>row\<in>set pre. row \<noteq> [] \<and> hd row \<noteq> start"
    and "\<forall>row\<in>set body. row \<noteq> [] \<and> hd row \<noteq> start"
  shows "generic_reader (pre @ (start # s1) # body) start None = Inr body"
proof -
  have "\<forall>row\<in>set body. row \<noteq> [] \<and> hd row \<noteq> start \<and> Some (hd row) \<noteq> None" using assms(2) by simp
  from generic_loop_body [OF this, of "[]" "[]"] show ?thesis
    by (simp add: generic_reader_def generic_loop_skip [OF assms(1)])
qed

lemma res_list_simps [simp]:
  "res_list [Inr a] = Inr [a]" "res_list (Inr a # rs) = rbind (res_list rs) (\<lambda>xs. Inr (a # xs))"
  by simp_all

lemma read_str [simp]: "fits KStr v \<Longrightarrow> PStr (py_str v) = norm_field KStr v"
  by (cases v) simp_all

lemma read_float [simp]:
  "fits KFloat v \<Longrightarrow>
   (case parse_float (py_str v) of None \<Rightarrow> Inl ValueError | Some x \<Rightarrow> Inr (PFloat x)) = Inr (norm_field KFloat v)"
  by (cases v) (simp_all add: float_repr_parse int_str_parse_float)

lemma read_int [simp]:
  "fits KInt v \<Longrightarrow>
   (case parse_int (py_str v) of None \<Rightarrow> Inl ValueError | Some k \<Rightarrow> Inr (PInt k)) = Inr (norm_field KInt v)"
  by (cases v) (simp_all add: int_str_parse)



lemma rd_written:
  assumes "py_get rr i = Inr (map py_str vs)" "j < length vs" "fits k (vs ! j)"
  shows "rd k rr i (int j) = Inr (norm_field k (vs ! j))"
  using assms by (cases k) (simp_all add: rd_def str_cell_def float_cell_def int_cell_def cell_def)

lemma res_list_written:
  assumes "py_get rr i = Inr (map py_str vs)" "list_all2 fits ks (map ((!) vs) js)" "\<forall>j\<in>set js. j < length vs"
  shows "res_list (map2 (\<lambda>k j. rd k rr i (int j)) ks js) = Inr (map2 norm_field ks (map ((!) vs) js))"
  using assms(2,3)
proof (induction ks "map ((!) vs) js" arbitrary: js rule: list_all2_induct)
  case Nil
  then show ?case by simp
next
  case (Cons k ks v vs')
  then obtain j js' where "js = j # js'" by (cases js) auto
  then show ?case using Cons rd_written [OF assms(1)] by auto
qed

lemma read_key:
  assumes "py_get rr i = Inr (map py_str vs)" "list_all2 fits ks vs"
  shows "res_list (map2 (\<lambda>k j. rd k rr i (int j)) ks [0..<length ks]) = Inr (map2 norm_field ks vs)"
proof -
  have l: "length ks = length vs" using assms(2) by (rule list_all2_lengthD)
  have "map ((!) vs) [0..<length vs] = vs" by (rule map_nth)
  then show ?thesis using res_list_written [OF assms(1), of ks "[0..<length vs]"] assms(2) l by simp
qed

lemma rd_simps: "rd KStr = str_cell" "rd KFloat = float_cell" "rd KInt = int_cell"
  by (simp_all add: rd_def)

lemma read_key3:
  "py_get rr i = Inr (map py_str vs) \<Longrightarrow> list_all2 fits [k1, k2, k3] vs \<Longrightarrow>
   res_list [rd k1 rr i 0, rd k2 rr i 1, rd k3 rr i 2] = Inr (map2 norm_field [k1, k2, k3] vs)"
  using read_key [of rr i vs "[k1, k2, k3]"] by (simp add: upt_rec)

lemma read_key1:
  "py_get rr i = Inr (map py_str vs) \<Longrightarrow> list_all2 fits [k1] vs \<Longrightarrow>
   res_list [rd k1 rr i 0] = Inr (map2 norm_field [k1] vs)"
  using read_key [of rr i vs "[k1]"] by simp

lemma read_key2:
  "py_get rr i = Inr (map py_str vs) \<Longrightarrow> list_all2 fits [k1, k2] vs \<Longrightarrow>
   res_list [rd k1 rr i 0, rd k2 rr i 1] = Inr (map2 norm_field [k1, k2] vs)"
  using read_key [of rr i vs "[k1, k2]"] by (simp add: upt_rec)

lemma read_key6:
  "py_get rr i = Inr (map py_str vs) \<Longrightarrow> list_all2 fits [k1, k2, k3, k4, k5, k6] vs \<Longrightarrow>
   res_list [rd k1 rr i 0, rd k2 rr i 1, rd k3 rr i 2, rd k4 rr i 3, rd k5 rr i 4, rd k6 rr i 5] =
   Inr (map2 norm_field [k1, k2, k3, k4, k5, k6] vs)"
  using read_key [of rr i vs "[k1, k2, k3, k4, k5, k6]"] by (simp add: upt_rec)

lemma wf_metadata_rows:
  "wf_metadata m \<Longrightarrow> \<forall>row\<in>set (meta_rows m). row \<noteq> [] \<and> hd row \<noteq> ''Header_Start'' \<and> hd row \<noteq> ''Header_End''"
  by (auto simp: wf_metadata_def meta_rows_def meta_values_def meta_kinds_def list_all2_Cons1 hd_map)

lemma read_config_file_header:
  assumes "wf_metadata m" "file_check filename ''.csv''"
    and "\<forall>row\<in>set pre. row \<noteq> [] \<and> hd row \<noteq> ''Header_Start''"
    and "\<forall>row\<in>set extra. row \<noteq> [] \<and> hd row \<noteq> ''Header_Start'' \<and> hd row \<noteq> ''Header_End''"
  shows "read_config_file filename
           (pre @ [''Header_Start''] # (meta_rows m @ extra) @ [''Header_End''] # post) =
         Inr (Some (norm_metadata m))"
proof -
  let ?rr = "meta_rows m @ extra"
  have gr: "generic_reader (pre @ [''Header_Start''] # ?rr @ [''Header_End''] # post)
              ''Header_Start'' (Some ''Header_End'') = Inr ?rr"
    using generic_reader_between [OF assms(3), of ?rr "''Header_End''" "[]" "[]" post]
          wf_metadata_rows [OF assms(1)] assms(4) by auto
  have f: "list_all2 fits [KStr, KStr, KStr] (meta_survey m)" "list_all2 fits [KFloat, KFloat] (meta_geodetics m)"
    "list_all2 fits [KStr] (meta_vessel m)"
    "list_all2 fits [KStr, KStr, KFloat, KFloat, KFloat, KFloat] (meta_gnss m)"
    "list_all2 fits [KStr, KStr, KFloat, KFloat, KFloat, KFloat] (meta_sonar m)"
    "list_all2 fits [KStr, KStr, KFloat] (meta_svp m)" "list_all2 fits [KStr, KStr, KInt] (meta_gnss_com m)"
    "list_all2 fits [KStr, KStr, KInt] (meta_sonar_com m)" "list_all2 fits [KStr, KStr, KInt] (meta_svp_com m)"
    using assms(1) by (simp_all add: wf_metadata_def meta_kinds_def meta_values_def)
  have g: "py_get ?rr 0 = Inr (map py_str (meta_survey m))" "py_get ?rr 1 = Inr (map py_str (meta_geodetics m))"
    "py_get ?rr 2 = Inr (map py_str (meta_vessel m))" "py_get ?rr 3 = Inr (map py_str (meta_gnss m))"
    "py_get ?rr 4 = Inr (map py_str (meta_sonar m))" "py_get ?rr 5 = Inr (map py_str (meta_svp m))"
    "py_get ?rr 6 = Inr (map py_str (meta_gnss_com m))" "py_get ?rr 7 = Inr (map py_str (meta_sonar_com m))"
    "py_get ?rr 8 = Inr (map py_str (meta_svp_com m))"
    by (simp_all add: meta_rows_def)
  show ?thesis
    using assms(2)
    unfolding read_config_file_def gr rbind_Inr rd_simps [symmetric]
      read_key1 [OF g(3) f(3)] read_key2 [OF g(2) f(2)] read_key3 [OF g(1) f(1)]
      read_key6 [OF g(4) f(4)] read_key6 [OF g(5) f(5)] read_key3 [OF g(6) f(6)]
      read_key3 [OF g(7) f(7)] read_key3 [OF g(8) f(8)] read_key3 [OF g(9) f(9)]
    by (simp add: norm_metadata_def meta_kinds_def meta_values_def)
qed

lemma float_repr_ne: "short_decimal x \<Longrightarrow> float_repr x \<noteq> []"
  using float_repr_parse [of x] by (auto simp: parse_float_def split_sign_def strip_space_def parse_unsigned_def)

lemma coerce_written: "cell_roundtrips v \<Longrightarrow> coerce_field (PStr (py_str v)) = v"
  by (cases v) (auto simp: float_repr_parse float_repr_ne)

lemma time_str_not_marker: "\<not> is_digit (hd s) \<Longrightarrow> time_str t \<noteq> s"
proof
  assume "\<not> is_digit (hd s)" "time_str t = s"
  moreover have "is_digit (hd (time_str t))"
    using pad_digits_all_digits [of 2 "hour t"] length_pad_digits [of 2 "hour t"]
    by (cases "pad_digits 2 (hour t)") (simp_all del: pad_digits_numeral add: time_str_def)
  ultimately show False by simp
qed

lemma map_coerce_written: "list_all cell_roundtrips vs \<Longrightarrow> map (\<lambda>v. coerce_field (PStr (py_str v))) vs = vs"
  by (induction vs) (simp_all del: coerce_field.simps add: coerce_written)

lemma read_row_written:
  "valid_clock t \<Longrightarrow> microsecond t \<noteq> 0 \<Longrightarrow> list_all cell_roundtrips vs \<Longrightarrow>
   read_row (time_str t # map py_str vs) = [PTime t # vs]"
  using map_coerce_written [of vs] by (simp add: read_row_def time_str_parse comp_def)

lemma write_meta_header_Inr:
  "meta_filetype m = ft # fts \<Longrightarrow>
   write_meta_header m = Inr ([[list_repr (ft # fts)], [''Header_Start'']] @ meta_rows m
                              @ (if ft = ''OSP_SIMPLE_LOG'' then [[simple_columns]] else []) @ [[''Header_End'']])"
  by (simp add: write_meta_header_def)

lemma list_repr_not_marker: "list_repr xs \<noteq> ''Header_Start''" "list_repr xs \<noteq> ''Header_End''"
  by (simp_all add: list_repr_def)

lemma simple_columns_not_marker: "simple_columns \<noteq> ''Header_Start''" "simple_columns \<noteq> ''Header_End''"
  by (simp_all add: simple_columns_def)

lemma svp_loop_prefix:
  "list_all (\<lambda>l. 2 \<le> length l) good \<Longrightarrow> \<exists>d' s'. svp_loop d s (good @ rows) = svp_loop d' s' rows"
proof (induction good arbitrary: d s)
  case Nil
  then show ?case by auto
next
  case (Cons l good)
  then obtain x y r where "l = x # y # r" by (cases l rule: remdups_adj.cases) auto
  then show ?case using Cons by (auto split: option.splits)
qed

section \<open>Properties of the readers\<close>

text \<open>C11: a raw log written by \<^verbatim>\<open>write_meta_header\<close> followed by body rows, each a
  timestamp written by \<^verbatim>\<open>str\<close> with a non-zero microsecond and cells that are floats
  \<^verbatim>\<open>str\<close> prints exactly or texts that are not numbers, is read back by
  \<^verbatim>\<open>read_raw_log\<close> as the metadata (numbers as floats) and the same rows, in order.\<close>

lemma read_raw_log_written:
  assumes "wf_metadata m" "meta_filetype m \<noteq> []" "file_check filename ''.csv''"
    and "\<forall>(t, vs)\<in>set entries. valid_clock t \<and> microsecond t \<noteq> 0 \<and> list_all cell_roundtrips vs"
  shows "rbind (write_meta_header m)
           (\<lambda>header. read_raw_log filename (header @ map (\<lambda>(t, vs). time_str t # map py_str vs) entries)) =
         Inr (Some (norm_metadata m), map (\<lambda>(t, vs). PTime t # vs) entries)"
proof -
  obtain ft fts where ft: "meta_filetype m = ft # fts" using assms(2) by (cases "meta_filetype m") auto
  define extra where "extra = (if ft = ''OSP_SIMPLE_LOG'' then [[simple_columns]] else [])"
  define body where "body = map (\<lambda>(t, vs). time_str t # map py_str vs) entries"
  have ex: "\<forall>row\<in>set extra. row \<noteq> [] \<and> hd row \<noteq> ''Header_Start'' \<and> hd row \<noteq> ''Header_End''"
    by (simp add: extra_def simple_columns_not_marker)
  have mr: "\<forall>row\<in>set (meta_rows m). row \<noteq> [] \<and> hd row \<noteq> ''Header_Start'' \<and> hd row \<noteq> ''Header_End''"
    by (rule wf_metadata_rows [OF assms(1)])
  have bd: "\<forall>row\<in>set body. row \<noteq> [] \<and> hd row \<noteq> ''Header_End''"
    using time_str_not_marker [of "''Header_End''"] by (auto simp: body_def is_digit_def)
  have cfg: "read_config_file filename ([[list_repr (ft # fts)]] @ [''Header_Start''] # (meta_rows m @ extra)
               @ [''Header_End''] # body) = Inr (Some (norm_metadata m))"
    by (rule read_config_file_header [OF assms(1) assms(3) _ ex]) (simp add: list_repr_not_marker)
  have "generic_reader (([[list_repr (ft # fts)], [''Header_Start'']] @ meta_rows m @ extra) @ [''Header_End''] # body)
          ''Header_End'' None = Inr body"
    by (rule generic_reader_to_end) (use ex mr bd in \<open>auto simp: list_repr_not_marker\<close>)
  moreover have "concat (map read_row body) = map (\<lambda>(t, vs). PTime t # vs) entries"
    using assms(4) unfolding body_def by (induction entries) (auto simp: read_row_written)
  ultimately show ?thesis
    using cfg by (simp add: write_meta_header_Inr [OF ft] read_raw_log_def extra_def [symmetric] body_def [symmetric])
qed

lemma read_raw_log_written_witness:
  "rbind (write_meta_header \<lparr>meta_filetype = [''OSP_RAW_LOG''],
      meta_survey = [PStr ''Harbour'', PStr ''Halifax'', PStr ''2022-01-15 00:00:00''],
      meta_geodetics = [PInt 6378137, PFloat 298.257223563], meta_vessel = [PStr ''Tern''],
      meta_gnss = [PStr ''F9P'', PStr ''RTK'', PFloat 1.5, PInt 0, PInt 0, PInt 0],
      meta_sonar = [PStr ''Ping'', PStr ''Echo'', PFloat (-0.5), PInt 0, PInt 0, PInt 0],
      meta_svp = [PStr ''SVP'', PStr ''Probe'', PFloat 1500],
      meta_gnss_com = [PStr ''F9P'', PStr ''COM3'', PInt 9600],
      meta_sonar_com = [PStr ''Ping'', PStr ''COM4'', PInt 115200],
      meta_svp_com = [PStr ''SVP'', PStr ''COM5'', PInt 9600]\<rparr>)
     (\<lambda>header. read_raw_log ''survey.csv''
        (header @ map (\<lambda>(t, vs). time_str t # map py_str vs) [(\<lparr>hour = 12, minute = 35, second = 19, microsecond = 250000\<rparr>, [PStr ''$GNGGA'', PFloat 4807.038])])) =
   Inr (Some \<lparr>meta_filetype = [],
      meta_survey = [PStr ''Harbour'', PStr ''Halifax'', PStr ''2022-01-15 00:00:00''],
      meta_geodetics = [PFloat 6378137, PFloat 298.257223563], meta_vessel = [PStr ''Tern''],
      meta_gnss = [PStr ''F9P'', PStr ''RTK'', PFloat 1.5, PFloat 0, PFloat 0, PFloat 0],
      meta_sonar = [PStr ''Ping'', PStr ''Echo'', PFloat (-0.5), PFloat 0, PFloat 0, PFloat 0],
      meta_svp = [PStr ''SVP'', PStr ''Probe'', PFloat 1500],
      meta_gnss_com = [PStr ''F9P'', PStr ''COM3'', PInt 9600],
      meta_sonar_com = [PStr ''Ping'', PStr ''COM4'', PInt 115200],
      meta_svp_com = [PStr ''SVP'', PStr ''COM5'', PInt 9600]\<rparr>,
        map (\<lambda>(t, vs). PTime t # vs) [(\<lparr>hour = 12, minute = 35, second = 19, microsecond = 250000\<rparr>, [PStr ''$GNGGA'', PFloat 4807.038])])"
  by (subst read_raw_log_written)
     (simp_all add: wf_metadata_def meta_kinds_def meta_values_def short_decimal_def file_check_def
                    norm_metadata_def int_str_def digit_chr_def
                    valid_clock_def parse_float_def strip_space_def is_space_def split_sign_def parse_unsigned_def
                    is_digit_def parse_exponent_def)

text \<open>C12: \<^verbatim>\<open>read_raw_log\<close> drops every body row whose timestamp was written at a whole
  second: \<^verbatim>\<open>str\<close> omits the fraction and \<^verbatim>\<open>'%H:%M:%S.%f'\<close> then does not match.\<close>

lemma read_row_whole_second:
  "microsecond t = 0 \<Longrightarrow> read_row (time_str t # cells) = []"
  by (simp add: read_row_def time_str_whole_second)

lemma read_row_whole_second_witness:
  "read_row (time_str \<lparr>hour = 12, minute = 35, second = 20, microsecond = 0\<rparr> # [''$DEPTH'', ''5.1'']) = []"
  by (rule read_row_whole_second) simp

text \<open>C13: the configuration header written by \<^verbatim>\<open>write_meta_header\<close> is read back by
  \<^verbatim>\<open>read_config_file\<close> whatever rows follow it: strings unchanged, numbers converted to
  floats or ints as the reader converts them.\<close>

lemma read_config_file_write:
  assumes "wf_metadata m" "meta_filetype m \<noteq> []" "file_check filename ''.csv''"
  shows "rbind (write_meta_header m) (\<lambda>header. read_config_file filename (header @ body)) =
         Inr (Some (norm_metadata m))"
proof -
  obtain ft fts where ft: "meta_filetype m = ft # fts" using assms(2) by (cases "meta_filetype m") auto
  define extra where "extra = (if ft = ''OSP_SIMPLE_LOG'' then [[simple_columns]] else [])"
  have ex: "\<forall>row\<in>set extra. row \<noteq> [] \<and> hd row \<noteq> ''Header_Start'' \<and> hd row \<noteq> ''Header_End''"
    by (simp add: extra_def simple_columns_not_marker)
  have "read_config_file filename ([[list_repr (ft # fts)]] @ [''Header_Start''] # (meta_rows m @ extra)
          @ [''Header_End''] # body) = Inr (Some (norm_metadata m))"
    by (rule read_config_file_header [OF assms(1) assms(3) _ ex]) (simp add: list_repr_not_marker)
  then show ?thesis by (simp add: write_meta_header_Inr [OF ft] extra_def [symmetric])
qed

lemma read_config_file_write_witness:
  "rbind (write_meta_header
     \<lparr>meta_filetype = [''OSP_RAW_LOG''],
      meta_survey = [PStr ''Harbour'', PStr ''Halifax'', PStr ''2022-01-15 00:00:00''],
      meta_geodetics = [PInt 6378137, PFloat 298.257223563], meta_vessel = [PStr ''Tern''],
      meta_gnss = [PStr ''F9P'', PStr ''RTK'', PFloat 1.5, PInt 0, PInt 0, PInt 0],
      meta_sonar = [PStr ''Ping'', PStr ''Echo'', PFloat (-0.5), PInt 0, PInt 0, PInt 0],
      meta_svp = [PStr ''SVP'', PStr ''Probe'', PFloat 1500],
      meta_gnss_com = [PStr ''F9P'', PStr ''COM3'', PInt 9600],
      meta_sonar_com = [PStr ''Ping'', PStr ''COM4'', PInt 115200],
      meta_svp_com = [PStr ''SVP'', PStr ''COM5'', PInt 9600]\<rparr>)
     (\<lambda>header. read_config_file ''survey.csv'' (header @ [])) =
   Inr (Some \<lparr>meta_filetype = [],
      meta_survey = [PStr ''Harbour'', PStr ''Halifax'', PStr ''2022-01-15 00:00:00''],
      meta_geodetics = [PFloat 6378137, PFloat 298.257223563], meta_vessel = [PStr ''Tern''],
      meta_gnss = [PStr ''F9P'', PStr ''RTK'', PFloat 1.5, PFloat 0, PFloat 0, PFloat 0],
      meta_sonar = [PStr ''Ping'', PStr ''Echo'', PFloat (-0.5), PFloat 0, PFloat 0, PFloat 0],
      meta_svp = [PStr ''SVP'', PStr ''Probe'', PFloat 1500],
      meta_gnss_com = [PStr ''F9P'', PStr ''COM3'', PInt 9600],
      meta_sonar_com = [PStr ''Ping'', PStr ''COM4'', PInt 115200],
      meta_svp_com = [PStr ''SVP'', PStr ''COM5'', PInt 9600]\<rparr>)"
  by (subst read_config_file_write)
     (simp_all add: wf_metadata_def meta_kinds_def meta_values_def short_decimal_def file_check_def
                    norm_metadata_def int_str_def digit_chr_def)

text \<open>C14: a float cell of the header that \<^verbatim>\<open>float()\<close> rejects (the default sound speed
  is typed in by the configurator without validation) makes \<^verbatim>\<open>read_config_file\<close> raise
  \<^verbatim>\<open>ValueError\<close>; the reader does not leave it as text.\<close>

lemma read_config_file_bad_float:
  assumes "wf_metadata m" "file_check filename ''.csv''"
    and "\<forall>row\<in>set pre. row \<noteq> [] \<and> hd row \<noteq> ''Header_Start''"
    and "a \<noteq> ''Header_Start''" "a \<noteq> ''Header_End''" "parse_float s = None"
  shows "read_config_file filename
           (pre @ [''Header_Start''] # (meta_rows m)[5 := [a, b, s]] @ [''Header_End''] # post) = Inl ValueError"
proof -
  let ?rr = "(meta_rows m)[5 := [a, b, s]]"
  have "\<forall>row\<in>set ?rr. row \<noteq> [] \<and> hd row \<noteq> ''Header_Start'' \<and> hd row \<noteq> ''Header_End''"
    using wf_metadata_rows [OF assms(1)] set_update_subset_insert [of "meta_rows m" 5 "[a, b, s]"] assms(4,5)
    by auto
  then have gr: "generic_reader (pre @ [''Header_Start''] # ?rr @ [''Header_End''] # post)
              ''Header_Start'' (Some ''Header_End'') = Inr ?rr"
    using generic_reader_between [OF assms(3), of ?rr "''Header_End''" "[]" "[]" post] by auto
  have f: "list_all2 fits [KStr, KStr, KStr] (meta_survey m)" "list_all2 fits [KFloat, KFloat] (meta_geodetics m)"
    "list_all2 fits [KStr] (meta_vessel m)"
    "list_all2 fits [KStr, KStr, KFloat, KFloat, KFloat, KFloat] (meta_gnss m)"
    "list_all2 fits [KStr, KStr, KFloat, KFloat, KFloat, KFloat] (meta_sonar m)"
    using assms(1) by (simp_all add: wf_metadata_def meta_kinds_def meta_values_def)
  have g: "py_get ?rr 0 = Inr (map py_str (meta_survey m))" "py_get ?rr 1 = Inr (map py_str (meta_geodetics m))"
    "py_get ?rr 2 = Inr (map py_str (meta_vessel m))" "py_get ?rr 3 = Inr (map py_str (meta_gnss m))"
    "py_get ?rr 4 = Inr (map py_str (meta_sonar m))" "py_get ?rr 5 = Inr [a, b, s]"
    by (simp_all add: meta_rows_def)
  show ?thesis
    using assms(2,6) g(6)
    unfolding read_config_file_def gr rbind_Inr rd_simps [symmetric]
      read_key1 [OF g(3) f(3)] read_key2 [OF g(2) f(2)] read_key3 [OF g(1) f(1)]
      read_key6 [OF g(4) f(4)] read_key6 [OF g(5) f(5)]
    by (simp add: rd_simps str_cell_def float_cell_def cell_def)
qed

lemma read_config_file_bad_float_witness:
  "read_config_file ''survey.csv''
     ([[''['OSP_RAW_LOG']'']] @ [''Header_Start''] # (meta_rows \<lparr>meta_filetype = [''OSP_RAW_LOG''],
      meta_survey = [PStr ''Harbour'', PStr ''Halifax'', PStr ''2022-01-15 00:00:00''],
      meta_geodetics = [PInt 6378137, PFloat 298.257223563], meta_vessel = [PStr ''Tern''],
      meta_gnss = [PStr ''F9P'', PStr ''RTK'', PFloat 1.5, PInt 0, PInt 0, PInt 0],
      meta_sonar = [PStr ''Ping'', PStr ''Echo'', PFloat (-0.5), PInt 0, PInt 0, PInt 0],
      meta_svp = [PStr ''SVP'', PStr ''Probe'', PFloat 1500],
      meta_gnss_com = [PStr ''F9P'', PStr ''COM3'', PInt 9600],
      meta_sonar_com = [PStr ''Ping'', PStr ''COM4'', PInt 115200],
      meta_svp_com = [PStr ''SVP'', PStr ''COM5'', PInt 9600]\<rparr>)[5 := [''SVP'', ''Probe'', ''fast'']]
      @ [''Header_End''] # []) = Inl ValueError"
  by (rule read_config_file_bad_float)
     (simp_all add: wf_metadata_def meta_kinds_def meta_values_def short_decimal_def file_check_def
                    norm_metadata_def int_str_def digit_chr_def
                    parse_float_def strip_space_def is_space_def split_sign_def parse_unsigned_def
                    is_digit_def parse_exponent_def)

text \<open>C15: \<^verbatim>\<open>read_simple_svp\<close> raises \<^verbatim>\<open>IndexError\<close> at the first line with fewer
  than two cells (a blank line included), whatever numeric rows precede it.\<close>

lemma read_simple_svp_short_line:
  assumes "list_all (\<lambda>l. 2 \<le> length l) good" "length line < 2"
  shows "read_simple_svp (good @ line # rest) = Inl IndexError"
proof -
  obtain d' s' where "svp_loop [] [] (good @ line # rest) = svp_loop d' s' (line # rest)"
    using svp_loop_prefix [OF assms(1), of "[]" "[]" "line # rest"] by blast
  then have "read_simple_svp (good @ line # rest) = svp_loop d' s' (line # rest)"
    by (simp only: read_simple_svp_def)
  moreover have "line = [] \<or> (\<exists>x. line = [x])" using assms(2) by (cases line) auto
  ultimately show ?thesis by auto
qed

lemma read_simple_svp_short_line_witness:
  "read_simple_svp ([[''0'', ''1500.2''], [''depth'', ''speed'']] @ [] # [[''10'', ''1505'']]) = Inl IndexError"
  by (rule read_simple_svp_short_line) simp_all

end
