(* ===== verification/Extractor.thy ===== *)
theory Extractor
  imports Raw_Log
begin

text \<open>
  The two reducers of \<^verbatim>\<open>Raw_Log\<close> in \<^verbatim>\<open>osplib.py\<close> that fold the body rows returned by
  \<^verbatim>\<open>read_raw_log\<close>: \<^verbatim>\<open>get_time_lat_long\<close> (time and coordinate decoding of one fix row),
  \<^verbatim>\<open>extract_soundings\<close> (the sounding reducer) and \<^verbatim>\<open>extract_dop\<close> (the DOP reducer).
  The reducer's local variables are the record \<open>ext_state\<close>; one iteration of its loop is
  \<open>ext_row\<close>. Inside the loop's \<^verbatim>\<open>try\<close>, every assignment made before an exception stays
  made, and \<^verbatim>\<open>prev_row = row\<close>, the last statement, only runs when the row completes:
  each handler returns its state together with whether the row completed.
\<close>

section \<open>get_time_lat_long\<close>

text \<open>The hemisphere test of one coordinate: the raw value and whether it is negated, or
  \<open>None\<close> when the letter is neither (the variable then stays unbound).\<close>

definition pick_raw :: "pyval list \<Rightarrow> int \<Rightarrow> string \<Rightarrow> string \<Rightarrow> (pyval \<times> bool) option res" where
  "pick_raw message i pos negh =
     rbind (py_get message (i + 1)) (\<lambda>h.
       if h = PStr pos then rbind (py_get message i) (\<lambda>r. Inr (Some (r, False)))
       else if h = PStr negh then rbind (py_get message i) (\<lambda>r. Inr (Some (r, True)))
       else Inr None)"

text \<open>\<^verbatim>\<open>d = math.floor(raw/100); m = (raw/100 - d) * 100; d + m/60\<close>, before the sign;
  an unbound raw value raises \<^verbatim>\<open>UnboundLocalError\<close>.\<close>

definition decode_coord :: "(pyval \<times> bool) option \<Rightarrow> real res" where
  "decode_coord raw =
     (case raw of
        None \<Rightarrow> Inl UnboundLocalError
      | Some (r, _) \<Rightarrow>
          rbind (py_div r (PInt 100)) (\<lambda>q. rbind (py_num q) (\<lambda>x.
            let d = \<lfloor>x\<rfloor>; m = (x - of_int d) * 100 in Inr (of_int d + m / 60))))"

definition neg_flag :: "(pyval \<times> bool) option \<Rightarrow> bool" where
  "neg_flag raw = (case raw of None \<Rightarrow> False | Some (_, n) \<Rightarrow> n)"

text \<open>The bare \<^verbatim>\<open>except\<close> returns the values assigned so far: nothing when the time does
  not parse, the time alone when a hemisphere cell is missing or unknown or the latitude
  does not decode, and the time with the latitude \<^emph>\<open>before its sign is applied\<close> when only
  the longitude fails.\<close>

definition get_time_lat_long :: "pyval list \<Rightarrow> int \<Rightarrow> int \<Rightarrow> int \<Rightarrow> pyval \<times> pyval \<times> pyval" where
  "get_time_lat_long message t la lo =
     (case rbind (py_get message t) (\<lambda>v. py_strptime fmt_compact (py_str v)) of
        Inl _ \<Rightarrow> (PNone, PNone, PNone)
      | Inr tm \<Rightarrow>
          (case rbind (pick_raw message la ''N'' ''S'') (\<lambda>a.
                  rbind (pick_raw message lo ''E'' ''W'') (\<lambda>b. Inr (a, b))) of
             Inl _ \<Rightarrow> (PTime tm, PNone, PNone)
           | Inr (a, b) \<Rightarrow>
               (case decode_coord a of
                  Inl _ \<Rightarrow> (PTime tm, PNone, PNone)
                | Inr lat \<Rightarrow>
                    (case decode_coord b of
                       Inl _ \<Rightarrow> (PTime tm, PFloat lat, PNone)
                     | Inr long \<Rightarrow>
                         (PTime tm, PFloat (if neg_flag a then - lat else lat),
                          PFloat (if neg_flag b then - long else long))))))"

section \<open>extract_soundings\<close>

record ext_state =
  prev_row :: "pyval list option"
  x_time :: pyval
  x_lat :: pyval
  x_long :: pyval
  x_ant_elip_height :: pyval
  x_hdg :: pyval
  x_speed :: pyval
  x_hdop :: pyval
  x_water_depth :: pyval
  x_bottom_elip_height :: pyval
  x_soundspeed :: pyval
  sounding_number :: int
  sounding_log :: "pyval list list"

definition ext_init :: ext_state where
  "ext_init = \<lparr>prev_row = None, x_time = PNone, x_lat = PNone, x_long = PNone,
     x_ant_elip_height = PNone, x_hdg = PNone, x_speed = PNone, x_hdop = PNone,
     x_water_depth = PNone, x_bottom_elip_height = PNone, x_soundspeed = PNone,
     sounding_number = 0, sounding_log = []\<rparr>"

definition rmc_step :: "pyval list \<Rightarrow> ext_state \<Rightarrow> ext_state \<times> bool" where
  "rmc_step row s =
     (let (tm, la, lo) = get_time_lat_long row 2 4 6;
          s1 = s\<lparr>x_time := tm, x_lat := la, x_long := lo\<rparr>
      in case py_get row 8 of
           Inl _ \<Rightarrow> (s1, False)
         | Inr sp \<Rightarrow>
             (case py_get row 9 of
                Inl _ \<Rightarrow> (s1\<lparr>x_speed := sp\<rparr>, False)
              | Inr h \<Rightarrow> (s1\<lparr>x_speed := sp, x_hdg := h\<rparr>, True)))"

definition gga_step :: "pyval list \<Rightarrow> ext_state \<Rightarrow> ext_state \<times> bool" where
  "gga_step row s =
     (let (tm, la, lo) = get_time_lat_long row 2 3 5;
          s1 = s\<lparr>x_time := tm, x_lat := la, x_long := lo\<rparr>
      in case py_get row 9 of
           Inl _ \<Rightarrow> (s1, False)
         | Inr hdop \<Rightarrow>
             (let s2 = s1\<lparr>x_hdop := hdop\<rparr>
              in case rbind (py_get row 10) (\<lambda>ant_height. rbind (py_get row 12) (\<lambda>sep.
                          rbind (py_add ant_height sep) (py_round 3))) of
                   Inl _ \<Rightarrow> (s2, False)
                 | Inr h \<Rightarrow> (s2\<lparr>x_ant_elip_height := h\<rparr>, True)))"

definition depth_step :: "pyval \<Rightarrow> pyval \<Rightarrow> pyval list \<Rightarrow> ext_state \<Rightarrow> ext_state \<times> bool" where
  "depth_step ant_off sonar_off row s =
     (case prev_row s of
        None \<Rightarrow> (s, False)
      | Some pr \<Rightarrow>
          (case py_get pr 1 of
             Inl _ \<Rightarrow> (s, False)
           | Inr k \<Rightarrow>
               if k = PStr ''$GNGLL'' then (s, True)
               else if k = PStr ''$GNGGA'' then
                 (case rbind (py_get row 2) (\<lambda>d. rbind (py_neg d) (\<lambda>nd.
                         rbind (py_div nd (PInt 1000)) (\<lambda>q. py_add q sonar_off))) of
                    Inl _ \<Rightarrow> (s, False)
                  | Inr wd \<Rightarrow>
                      (let s1 = s\<lparr>x_water_depth := wd\<rparr>
                       in case rbind (py_sub (x_ant_elip_height s1) ant_off) (\<lambda>a. py_add a wd) of
                            Inl _ \<Rightarrow> (s1, False)
                          | Inr b \<Rightarrow>
                              (case py_get row (- 1) of
                                 Inl _ \<Rightarrow> (s1\<lparr>x_bottom_elip_height := b\<rparr>, False)
                               | Inr ss \<Rightarrow>
                                   (s1\<lparr>x_bottom_elip_height := b, x_soundspeed := ss,
                                       sounding_log := sounding_log s1 @
                                         [[x_time s1, PInt (sounding_number s1), x_lat s1, x_long s1,
                                           x_ant_elip_height s1, x_hdg s1, x_speed s1, x_hdop s1,
                                           wd, b, ss]],
                                       sounding_number := sounding_number s1 + 1\<rparr>, True))))
               else (s, True)))"

text \<open>The \<^verbatim>\<open>if/elif\<close> chain on the row kind: the handler of the kind, or nothing for
  any other kind.\<close>

definition ext_dispatch :: "pyval \<Rightarrow> pyval \<Rightarrow> pyval list \<Rightarrow> ext_state \<Rightarrow> pyval \<Rightarrow> ext_state \<times> bool" where
  "ext_dispatch ant_off sonar_off row s k =
     (if k = PStr ''$GNRMC'' then rmc_step row s
      else if k = PStr ''$GNGGA'' then gga_step row s
      else if k = PStr ''$DEPTH'' then depth_step ant_off sonar_off row s
      else (s, True))"

definition ext_row :: "pyval \<Rightarrow> pyval \<Rightarrow> ext_state \<Rightarrow> pyval list \<Rightarrow> ext_state" where
  "ext_row ant_off sonar_off s row =
     (case py_get row 1 of
        Inl _ \<Rightarrow> s
      | Inr k \<Rightarrow>
          (let (s', ok) = ext_dispatch ant_off sonar_off row s k
           in if ok then s'\<lparr>prev_row := Some row\<rparr> else s'))"

definition extract_soundings :: "metadata option \<Rightarrow> pyval list list \<Rightarrow> pyval list list res" where
  "extract_soundings metadata raw_log_read =
     (case metadata of
        None \<Rightarrow> Inl TypeError
      | Some m \<Rightarrow>
          rbind (py_get (meta_gnss m) 2) (\<lambda>ant_off. rbind (py_get (meta_sonar m) 2) (\<lambda>sonar_off.
            Inr (sounding_log (foldl (ext_row ant_off sonar_off) ext_init raw_log_read)))))"

text \<open>One step of the reducer either leaves the log and the counter alone or appends one
  sounding numbered with the counter and increments it.\<close>

definition log_extends :: "ext_state \<Rightarrow> ext_state \<Rightarrow> bool" where
  "log_extends s s' \<longleftrightarrow>
     (sounding_log s' = sounding_log s \<and> sounding_number s' = sounding_number s) \<or>
     (\<exists>r. sounding_log s' = sounding_log s @ [r] \<and> r ! 1 = PInt (sounding_number s) \<and>
          sounding_number s' = sounding_number s + 1)"

definition numbered :: "ext_state \<Rightarrow> bool" where
  "numbered s \<longleftrightarrow>
     sounding_number s = int (length (sounding_log s)) \<and>
     map (\<lambda>r. r ! 1) (sounding_log s) = map (\<lambda>i. PInt (int i)) [0..<length (sounding_log s)]"

section \<open>extract_dop\<close>

text \<open>\<^verbatim>\<open>prev_row[1]\<close> is read outside any \<^verbatim>\<open>try\<close>: a \<^verbatim>\<open>$GNGSA\<close> first row raises
  \<^verbatim>\<open>TypeError\<close> (\<^verbatim>\<open>prev_row\<close> is \<^verbatim>\<open>None\<close>).\<close>

fun dop_loop :: "pyval list option \<Rightarrow> pyval list list \<Rightarrow> pyval list list \<Rightarrow> pyval list list res" where
  "dop_loop prev dop_log [] = Inr dop_log"
| "dop_loop prev dop_log (row # rows) =
     rbind (py_get row 1) (\<lambda>k.
       if k = PStr ''$GNGSA'' then
         (case prev of
            None \<Rightarrow> Inl TypeError
          | Some p \<Rightarrow>
              rbind (py_get p 1) (\<lambda>pk.
                if \<not> pk = PStr ''$GNGSA'' then
                  rbind (py_get row 0) (\<lambda>time. rbind (py_get row (- 2)) (\<lambda>pdop.
                    rbind (py_get row (- 3)) (\<lambda>hdop. rbind (py_get row (- 4)) (\<lambda>vdop.
                      dop_loop (Some row) (dop_log @ [[time, k, pdop, hdop, vdop]]) rows))))
                else dop_loop (Some row) dop_log rows))
       else dop_loop (Some row) dop_log rows)"

definition extract_dop :: "pyval list list \<Rightarrow> pyval list list res" where
  "extract_dop raw_log_read = dop_loop None [] raw_log_read"

text \<open>Reference: one sample per adjacent pair of rows whose second row is a \<^verbatim>\<open>$GNGSA\<close>
  row and whose first is not (rising-edge detection, spec 4.5).\<close>

definition dop_sample :: "pyval list \<Rightarrow> pyval list" where
  "dop_sample row = [row ! 0, row ! 1, row ! (length row - 2), row ! (length row - 3), row ! (length row - 4)]"

definition dop_ref :: "pyval list list \<Rightarrow> pyval list list" where
  "dop_ref rows =
     map (dop_sample \<circ> snd)
       (filter (\<lambda>(p, r). is_kind r ''$GNGSA'' \<and> \<not> is_kind p ''$GNGSA'') (zip rows (tl rows)))"

section \<open>Lemmas on the reducers\<close>

lemmas gtll_eval = get_time_lat_long_def py_strptime_def is_digit_def digit_val_def float_repr_def
  float_repr_pos_def dec_scale_def dec_scale_from.simps fixed_str_def digit_chr_def round_even_def
  pick_raw_def decode_coord_def py_div_def neg_flag_def

lemma rmc_step_log: "log_extends s (fst (rmc_step row s))"
  by (simp add: log_extends_def rmc_step_def split: prod.split sum.split)

lemma gga_step_log: "log_extends s (fst (gga_step row s))"
  by (simp add: log_extends_def gga_step_def Let_def split: prod.split sum.split)

lemma depth_step_log: "log_extends s (fst (depth_step a b row s))"
  by (simp add: log_extends_def depth_step_def Let_def split: option.split prod.split sum.split)

lemma log_extends_prev [simp]: "log_extends s (s'\<lparr>prev_row := p\<rparr>) = log_extends s s'"
  by (simp add: log_extends_def)

lemma log_extends_refl [simp]: "log_extends s s"
  by (simp add: log_extends_def)

lemma ext_dispatch_log: "log_extends s (fst (ext_dispatch a b row s k))"
  by (simp add: ext_dispatch_def rmc_step_log gga_step_log depth_step_log)

lemma ext_row_log: "log_extends s (ext_row a b s row)"
  using ext_dispatch_log [of s a b row]
  by (simp add: ext_row_def Let_def prod.case_eq_if split: sum.split)

lemma numbered_init: "numbered ext_init"
  by (simp add: numbered_def ext_init_def)

lemma numbered_step: "numbered s \<Longrightarrow> log_extends s s' \<Longrightarrow> numbered s'"
  by (auto simp: numbered_def log_extends_def)

lemma numbered_foldl: "numbered s \<Longrightarrow> numbered (foldl (ext_row a b) s rows)"
  by (induction rows arbitrary: s) (auto intro: numbered_step ext_row_log)

lemma rmc_step_keeps: "sounding_log (fst (rmc_step row s)) = sounding_log s"
  by (simp add: rmc_step_def split: prod.split sum.split)

lemma gga_step_keeps: "sounding_log (fst (gga_step row s)) = sounding_log s"
  by (simp add: gga_step_def Let_def split: prod.split sum.split)

lemma depth_step_emits:
  "sounding_log (fst (depth_step a b row s)) \<noteq> sounding_log s \<Longrightarrow>
   \<exists>p. prev_row s = Some p \<and> is_kind p ''$GNGGA''"
  by (auto simp: depth_step_def is_kind_def Let_def split: option.splits sum.splits if_splits)

lemma decode_coord_ddmm:
  assumes "0 \<le> m" "m < 100"
  shows "decode_coord (Some (PFloat (100 * of_int d + m), n)) = Inr (of_int d + m / 60)"
proof -
  have x: "(100 * of_int d + m) / 100 = of_int d + m / 100" by simp
  have f: "\<lfloor>of_int d + m / 100\<rfloor> = d" using assms by (intro floor_unique) simp_all
  show ?thesis unfolding decode_coord_def py_div_def by (simp add: x f Let_def)
qed

lemma dop_loop_ref:
  "\<forall>r\<in>set (p # rs). 4 \<le> length r \<Longrightarrow> dop_loop (Some p) acc rs = Inr (acc @ dop_ref (p # rs))"
proof (induction rs arbitrary: p acc)
  case Nil
  then show ?case by (simp add: dop_ref_def)
next
  case (Cons r rs)
  have lp: "4 \<le> length p" and lr: "4 \<le> length r" using Cons.prems by auto
  have ih: "dop_loop (Some r) acc' rs = Inr (acc' @ dop_ref (r # rs))" for acc'
    using Cons.IH Cons.prems by simp
  have ref: "dop_ref (p # r # rs) =
             (if is_kind r ''$GNGSA'' \<and> \<not> is_kind p ''$GNGSA'' then [dop_sample r] else []) @ dop_ref (r # rs)"
    by (simp add: dop_ref_def)
  show ?case
    using lp lr ih unfolding ref
    by (auto simp: is_kind_def dop_sample_def py_get_def nat_diff_distrib)
qed

section \<open>Properties of the extractors\<close>

text \<open>C16: a step of the sounding reducer appends to the log only for a $DEPTH row whose previous completed row is a $GNGGA row\<close>

lemma ext_row_emits_after_gga:
  assumes "sounding_log (ext_row a b s row) \<noteq> sounding_log s"
  shows "is_kind row ''$DEPTH'' \<and> (\<exists>p. prev_row s = Some p \<and> is_kind p ''$GNGGA'')"
proof -
  obtain k where k: "py_get row 1 = Inr k"
    and d: "sounding_log (fst (ext_dispatch a b row s k)) \<noteq> sounding_log s"
    using assms by (auto simp: ext_row_def Let_def prod.case_eq_if split: sum.splits if_splits)
  then have "k = PStr ''$DEPTH''" "sounding_log (fst (depth_step a b row s)) \<noteq> sounding_log s"
    by (auto simp: ext_dispatch_def rmc_step_keeps gga_step_keeps split: if_splits)
  then show ?thesis using k depth_step_emits by (simp add: is_kind_def)
qed

lemma ext_row_emits_after_gga_witness:
  "is_kind [PNone, PStr ''$DEPTH'', PFloat 5000, PFloat 1500] ''$DEPTH'' \<and>
   (\<exists>p. prev_row (ext_init\<lparr>prev_row := Some [PNone, PStr ''$GNGGA''], x_ant_elip_height := PFloat 10\<rparr>) = Some p \<and>
        is_kind p ''$GNGGA'')"
  by (rule ext_row_emits_after_gga [of "PFloat 0" "PFloat (-0.5)"])
     (simp add: ext_row_def ext_dispatch_def depth_step_def ext_init_def py_div_def)

text \<open>C17: the soundings extract_soundings returns carry the sequence numbers 0, 1, 2, ... in order\<close>

lemma extract_soundings_numbered:
  assumes "extract_soundings metadata rows = Inr slog"
  shows "map (\<lambda>r. r ! 1) slog = map (\<lambda>i. PInt (int i)) [0..<length slog]"
proof -
  obtain m a b where "metadata = Some m" "slog = sounding_log (foldl (ext_row a b) ext_init rows)"
    using assms by (auto simp: extract_soundings_def rbind_eq_Inr split: option.splits if_splits)
  then show ?thesis using numbered_foldl [OF numbered_init, of a b rows] by (simp add: numbered_def)
qed

lemma extract_soundings_numbered_witness:
  "map (\<lambda>r. r ! 1) [[PNone, PInt 0, PNone, PNone, PFloat 10, PNone, PNone, PNone, PFloat (-5.5), PFloat 4.5, PFloat 1500]] =
   map (\<lambda>i. PInt (int i)) [0..<length [[PNone, PInt 0, PNone, PNone, PFloat 10, PNone, PNone, PNone,
                                       PFloat (-5.5), PFloat 4.5, PFloat 1500]]]"
  by (rule extract_soundings_numbered [of "Some \<lparr>meta_filetype = [], meta_survey = [], meta_geodetics = [],
          meta_vessel = [], meta_gnss = [PStr ''F9P'', PStr ''RTK'', PFloat 0],
          meta_sonar = [PStr ''Ping'', PStr ''Echo'', PFloat (-0.5)],
          meta_svp = [], meta_gnss_com = [], meta_sonar_com = [], meta_svp_com = []\<rparr>"
          "[[PNone, PStr ''$GNGGA'', PNone, PNone, PNone, PNone, PNone, PNone, PNone, PNone, PFloat 10,
             PNone, PFloat 0], [PNone, PStr ''$DEPTH'', PFloat 5000, PFloat 1500]]"])
     (simp add: extract_soundings_def ext_row_def ext_dispatch_def gga_step_def depth_step_def ext_init_def
                gtll_eval round_nd_def Let_def)

text \<open>C18: a $DEPTH row after a $GNGLL row emits nothing and changes no variable of the reducer except the previous row\<close>

lemma ext_row_after_gll:
  assumes "prev_row s = Some p" "is_kind p ''$GNGLL''" "is_kind row ''$DEPTH''"
  shows "ext_row a b s row = s\<lparr>prev_row := Some row\<rparr>"
  using assms by (simp add: ext_row_def ext_dispatch_def depth_step_def is_kind_def)

lemma ext_row_after_gll_witness:
  "ext_row (PFloat 0) (PFloat (-0.5)) (ext_init\<lparr>prev_row := Some [PNone, PStr ''$GNGLL'']\<rparr>) [PNone, PStr ''$DEPTH'', PFloat 5000, PFloat 1500] =
   ext_init\<lparr>prev_row := Some [PNone, PStr ''$DEPTH'', PFloat 5000, PFloat 1500]\<rparr>"
  using ext_row_after_gll [of "ext_init\<lparr>prev_row := Some [PNone, PStr ''$GNGLL'']\<rparr>" "[PNone, PStr ''$GNGLL'']"
                              "[PNone, PStr ''$DEPTH'', PFloat 5000, PFloat 1500]" "PFloat 0" "PFloat (-0.5)"]
  by simp

text \<open>C19: a $DEPTH row after a $GNGGA row appends one sounding with water depth -distance/1000 + sonar waterline offset and bottom height antenna height - GNSS waterline offset + water depth, with the fix variables, the sequence number and the ping's sound speed (its last field)\<close>

lemma ext_row_depth_after_gga:
  assumes "prev_row s = Some p" "is_kind p ''$GNGGA''" "row = tm # PStr ''$DEPTH'' # PFloat d # rest"
    and "sonar_off = PFloat w" "ant_off = PFloat g" "x_ant_elip_height s = PFloat h"
  shows "sounding_log (ext_row ant_off sonar_off s row) =
         sounding_log s @ [[x_time s, PInt (sounding_number s), x_lat s, x_long s, PFloat h, x_hdg s,
                            x_speed s, x_hdop s, PFloat (- d / 1000 + w), PFloat (h - g + (- d / 1000 + w)),
                            last row]]"
  using assms by (simp add: ext_row_def ext_dispatch_def depth_step_def is_kind_def py_div_def Let_def)

lemma ext_row_depth_after_gga_witness:
  "sounding_log (ext_row (PFloat 0) (PFloat (-0.5)) (ext_init\<lparr>prev_row := Some [PNone, PStr ''$GNGGA''], x_ant_elip_height := PFloat 10\<rparr>) [PNone, PStr ''$DEPTH'', PFloat 5000, PFloat 1500]) =
   [[PNone, PInt 0, PNone, PNone, PFloat 10, PNone, PNone, PNone, PFloat (- 5000 / 1000 + - 0.5),
     PFloat (10 - 0 + (- 5000 / 1000 + - 0.5)), PFloat 1500]]"
  using ext_row_depth_after_gga [of "ext_init\<lparr>prev_row := Some [PNone, PStr ''$GNGGA''], x_ant_elip_height := PFloat 10\<rparr>" "[PNone, PStr ''$GNGGA'']"
          "[PNone, PStr ''$DEPTH'', PFloat 5000, PFloat 1500]" PNone 5000 "[PFloat 1500]" "PFloat (-0.5)" "-0.5"
          "PFloat 0" 0 10]
  by (simp add: ext_init_def)

text \<open>C20: get_time_lat_long decodes a ddmm.mmmm coordinate with hemisphere letter as degrees + minutes/60, negated for S and W, with the fix time parsed by %H%M%S.%f\<close>

lemma get_time_lat_long_fix:
  assumes "py_get message t = Inr v" "py_strptime fmt_compact (py_str v) = Inr tm"
    and "py_get message la = Inr (PFloat (100 * of_int dla + mla))" "py_get message (la + 1) = Inr (PStr hla)"
    and "py_get message lo = Inr (PFloat (100 * of_int dlo + mlo))" "py_get message (lo + 1) = Inr (PStr hlo)"
    and "hla = ''N'' \<or> hla = ''S''" "hlo = ''E'' \<or> hlo = ''W''"
    and "0 \<le> mla" "mla < 100" "0 \<le> mlo" "mlo < 100"
  shows "get_time_lat_long message t la lo =
         (PTime tm, PFloat (if hla = ''S'' then - (of_int dla + mla / 60) else of_int dla + mla / 60),
                    PFloat (if hlo = ''W'' then - (of_int dlo + mlo / 60) else of_int dlo + mlo / 60))"
proof -
  have "pick_raw message la ''N'' ''S'' = Inr (Some (PFloat (100 * of_int dla + mla), hla = ''S''))"
       "pick_raw message lo ''E'' ''W'' = Inr (Some (PFloat (100 * of_int dlo + mlo), hlo = ''W''))"
    using assms(3-8) by (auto simp: pick_raw_def)
  then show ?thesis
    using assms(1,2) decode_coord_ddmm [OF assms(9,10)] decode_coord_ddmm [OF assms(11,12)]
    by (simp add: get_time_lat_long_def neg_flag_def)
qed

lemma get_time_lat_long_fix_witness:
  "get_time_lat_long [PNone, PStr ''$GNGGA'', PFloat 123519, PFloat (100 * 48 + 7.038), PStr ''N'',
                      PFloat (100 * 11 + 31), PStr ''E''] 2 3 5 =
   (PTime \<lparr>hour = 12, minute = 35, second = 19, microsecond = 0\<rparr>,
    PFloat (if ''N'' = ''S'' then - (of_int 48 + 7.038 / 60) else of_int 48 + 7.038 / 60),
    PFloat (if ''E'' = ''W'' then - (of_int 11 + 31 / 60) else of_int 11 + 31 / 60))"
  by (rule get_time_lat_long_fix [where v = "PFloat 123519"]) (simp_all add: gtll_eval)

text \<open>A fix logged just after midnight, UTC field 003519.00, is coerced to the float 3519.0 by read_raw_log; get_time_lat_long formats it back as 3519.0 and strptime with %H%M%S.%f reads it as 03:51:09\<close>

lemma midnight:
  "fst (get_time_lat_long [PNone, PStr ''$GNGGA'', coerce_field (PStr ''003519.00''), PFloat 4807.038,
                           PStr ''N'', PFloat 1131, PStr ''E''] 2 3 5) =
   PTime \<lparr>hour = 3, minute = 51, second = 9, microsecond = 0\<rparr>"
  by (simp add: gtll_eval parse_float_def strip_space_def is_space_def split_sign_def parse_unsigned_def
                parse_exponent_def)

text \<open>C21: whenever the longitude field of a fix is not a number (an empty field is read as None), get_time_lat_long returns the time and the latitude without the sign of its hemisphere, so a southern latitude comes back positive\<close>

lemma south_unsigned:
  assumes "py_get message t = Inr v" "py_strptime fmt_compact (py_str v) = Inr tm"
    and "py_get message la = Inr (PFloat (100 * of_int dla + mla))" "py_get message (la + 1) = Inr (PStr ''S'')"
    and "py_get message lo = Inr vlo" "py_get message (lo + 1) = Inr (PStr hlo)" "hlo = ''E'' \<or> hlo = ''W''"
    and "py_num vlo = Inl e" "0 \<le> mla" "mla < 100"
  shows "get_time_lat_long message t la lo = (PTime tm, PFloat (of_int dla + mla / 60), PNone)"
proof -
  have "pick_raw message la ''N'' ''S'' = Inr (Some (PFloat (100 * of_int dla + mla), True))"
       "pick_raw message lo ''E'' ''W'' = Inr (Some (vlo, hlo = ''W''))"
    using assms(3-7) by (auto simp: pick_raw_def)
  moreover have "decode_coord (Some (vlo, hlo = ''W'')) = Inl e"
    using assms(8) by (simp add: decode_coord_def py_div_def)
  ultimately show ?thesis
    using assms(1,2) decode_coord_ddmm [OF assms(9,10)] by (simp add: get_time_lat_long_def)
qed

lemma south_unsigned_witness:
  "get_time_lat_long [PNone, PStr ''$GNGGA'', PFloat 123519, PFloat (100 * 48 + 7.038), PStr ''S'',
                      PNone, PStr ''E''] 2 3 5 =
   (PTime \<lparr>hour = 12, minute = 35, second = 19, microsecond = 0\<rparr>, PFloat (of_int 48 + 7.038 / 60), PNone)"
  by (rule south_unsigned [where v = "PFloat 123519" and hlo = "''E''" and vlo = PNone])
     (simp_all add: gtll_eval)

text \<open>C22: extract_dop equals the rising-edge reference: one sample [time, kind, row[-2], row[-3], row[-4]] per $GNGSA row whose previous row is not a $GNGSA row, when the first row is not a $GNGSA row and every row has at least four fields\<close>

lemma extract_dop_ref:
  assumes "\<not> is_kind r0 ''$GNGSA''" "\<forall>r\<in>set (r0 # rs). 4 \<le> length r"
  shows "extract_dop (r0 # rs) = Inr (dop_ref (r0 # rs))"
proof -
  have "4 \<le> length r0" using assms(2) by simp
  then have "extract_dop (r0 # rs) = dop_loop (Some r0) [] rs"
    using assms(1) by (simp add: extract_dop_def is_kind_def)
  then show ?thesis using dop_loop_ref [OF assms(2)] by simp
qed

lemma extract_dop_ref_witness:
  "extract_dop [[PNone, PStr ''$GNGGA'', PFloat 1, PFloat 2], [PNone, PStr ''$GNGSA'', PFloat 3, PFloat 4],
                [PNone, PStr ''$GNGSA'', PFloat 5, PFloat 6]] =
   Inr (dop_ref [[PNone, PStr ''$GNGGA'', PFloat 1, PFloat 2], [PNone, PStr ''$GNGSA'', PFloat 3, PFloat 4],
                 [PNone, PStr ''$GNGSA'', PFloat 5, PFloat 6]])"
  by (rule extract_dop_ref) simp_all

text \<open>C23: extract_dop raises TypeError when the first row is a $GNGSA row, since prev_row is still None\<close>

lemma extract_dop_first_gsa:
  "is_kind r0 ''$GNGSA'' \<Longrightarrow> extract_dop (r0 # rs) = Inl TypeError"
  by (simp add: extract_dop_def is_kind_def)

lemma extract_dop_first_gsa_witness:
  "extract_dop [[PNone, PStr ''$GNGSA'', PFloat 1, PFloat 2]] = Inl TypeError"
  by (rule extract_dop_first_gsa) simp

end
