(* ===== verification/Acquisition.thy ===== *)
theory Acquisition
  imports Extractor
begin

text \<open>
  The acquisition side of the pipeline: the sensor classes \<^verbatim>\<open>GNSS\<close>, \<^verbatim>\<open>Sonar\<close> and
  \<^verbatim>\<open>Speed\<close> of \<^verbatim>\<open>osplib.py\<close> as seen through their methods, the cycle
  \<^verbatim>\<open>take_observation\<close>, and the driver \<^verbatim>\<open>online.py\<close> (sound-speed menu, online menu,
  observation loop). The serial links are input streams in the state: the lines the GNSS
  receiver sends (each with the UTC time at which it is read), the replies of the sonar
  to \<^verbatim>\<open>get_distance\<close> and the lines of the probe. A stream that runs out models a link
  that never delivers again. The two log files are the lists of text lines written to
  them. \<^verbatim>\<open>pynmea2.parse\<close> and \<^verbatim>\<open>brping\<close> are libraries: a GNSS line is either a sentence
  \<^verbatim>\<open>pynmea2\<close> parses (kind, data fields, checksum) or one it rejects.
\<close>

section \<open>Text helpers\<close>

text \<open>\<^verbatim>\<open>s.split(',')\<close>.\<close>

fun split_on :: "char \<Rightarrow> string \<Rightarrow> string list" where
  "split_on c [] = [[]]"
| "split_on c (x # xs) =
     (let ws = split_on c xs in if x = c then [] # ws else (x # hd ws) # tl ws)"

text \<open>The row the \<^verbatim>\<open>csv\<close> reader yields for a written line (no quoting occurs in the lines
  the logger writes): the line terminator dropped, the cells split at commas.\<close>

definition csv_row :: "string \<Rightarrow> string list" where
  "csv_row line = split_on CHR '','' (if line \<noteq> [] \<and> last line = CHR 0x0A then butlast line else line)"

section \<open>GNSS\<close>

record nmea =
  n_kind :: string
  n_fields :: "string list"
  n_checksum :: string

datatype nmea_line = Frame nmea | Garbage

text \<open>\<^verbatim>\<open>str(msg)\<close> of a parsed sentence: \<^verbatim>\<open>$TTSSS,f1,...,fn*hh\<close>.\<close>

definition nmea_str :: "nmea \<Rightarrow> string" where
  "nmea_str m = n_kind m @ concat (map (\<lambda>f. CHR '','' # f) (n_fields m)) @ CHR ''*'' # n_checksum m"

text \<open>Sentences as \<^verbatim>\<open>pynmea2\<close> renders them never contain a comma inside a field.\<close>

definition wf_nmea :: "nmea \<Rightarrow> bool" where
  "wf_nmea m \<longleftrightarrow>
     CHR '','' \<notin> set (n_kind m) \<and> (\<forall>f\<in>set (n_fields m). CHR '','' \<notin> set f) \<and>
     CHR '','' \<notin> set (n_checksum m) \<and> n_fields m \<noteq> []"

definition sentence_type :: "nmea \<Rightarrow> string" where
  "sentence_type m = drop 3 (n_kind m)"

definition is_fix :: "nmea \<Rightarrow> bool" where
  "is_fix m \<longleftrightarrow> sentence_type m = ''GGA'' \<or> sentence_type m = ''RMC'' \<or> sentence_type m = ''GLL''"

text \<open>The \<^verbatim>\<open>while True\<close> loop of \<^verbatim>\<open>get_nmea\<close>: every line \<^verbatim>\<open>pynmea2\<close> rejects is skipped;
  the first parsed sentence is returned with its read time and whether it is a fix.
  With no parsed sentence left in the stream the loop does not return (\<open>None\<close>).\<close>

fun nmea_loop :: "(clock \<times> nmea_line) list \<Rightarrow> ((clock \<times> nmea \<times> bool) \<times> (clock \<times> nmea_line) list) option" where
  "nmea_loop [] = None"
| "nmea_loop ((t, Garbage) # lines) = nmea_loop lines"
| "nmea_loop ((t, Frame m) # lines) = Some ((t, m, is_fix m), lines)"

datatype gnss_reply = GnssReply clock nmea bool | NoGnss

definition get_nmea :: "bool \<Rightarrow> (clock \<times> nmea_line) list \<Rightarrow> (gnss_reply \<times> (clock \<times> nmea_line) list) option" where
  "get_nmea gps_found lines =
     (if \<not> gps_found then Some (NoGnss, lines)
      else map_option (\<lambda>((t, m, p), rest). (GnssReply t m p, rest)) (nmea_loop lines))"

text \<open>\<^verbatim>\<open>pynmea2\<close>'s \<^verbatim>\<open>dm_to_sd\<close>: an empty or \<^verbatim>\<open>'0'\<close> field is 0; otherwise the field must
  match \<^verbatim>\<open>^(\d+)(\d\d\.\d+)$\<close> (else \<^verbatim>\<open>None.groups()\<close> raises) and gives degrees plus
  minutes/60. \<^verbatim>\<open>latitude\<close> and \<^verbatim>\<open>longitude\<close> sign it by the hemisphere letter.\<close>

definition dm_to_sd :: "string \<Rightarrow> real res" where
  "dm_to_sd dm =
     (if dm = [] \<or> dm = ''0'' then Inr 0
      else let ip = takeWhile is_digit dm; r = dropWhile is_digit dm
           in if 3 \<le> length ip \<and> r \<noteq> [] \<and> hd r = CHR ''.'' \<and> tl r \<noteq> [] \<and> list_all is_digit (tl r)
              then Inr (real (digits_val (take (length ip - 2) ip)) +
                        real (digits_val (drop (length ip - 2) ip @ tl r)) / 10 ^ length (tl r) / 60)
              else Inl AttributeError)"

definition nmea_field :: "nmea \<Rightarrow> nat \<Rightarrow> string" where
  "nmea_field m i = (if i < length (n_fields m) then n_fields m ! i else [])"

definition signed_coord :: "nmea \<Rightarrow> nat \<Rightarrow> string \<Rightarrow> string \<Rightarrow> real res" where
  "signed_coord m i pos negh =
     rbind (dm_to_sd (nmea_field m i)) (\<lambda>sd.
       Inr (if nmea_field m (i + 1) = pos then sd else if nmea_field m (i + 1) = negh then - sd else 0))"

definition nmea_latitude :: "nmea \<Rightarrow> real res" where
  "nmea_latitude m = signed_coord m 1 ''N'' ''S''"

definition nmea_longitude :: "nmea \<Rightarrow> real res" where
  "nmea_longitude m = signed_coord m 3 ''E'' ''W''"

section \<open>Sonar\<close>

record ping_data =
  pd_distance :: int
  pd_confidence :: int
  pd_transmit_duration :: int
  pd_scan_start :: int
  pd_scan_length :: int
  pd_gain_setting :: int

text \<open>The sonar object: whether it connected, the speed of sound the head uses (mm/s)
  and the last ping (\<^verbatim>\<open>self.time\<close>, \<^verbatim>\<open>self.distance\<close> with its distance already
  divided by 1000).\<close>

record sonar =
  sonar_found :: bool
  sonar_speed_mms :: int
  last_ping :: "(clock \<times> real \<times> ping_data) option"

text \<open>\<^verbatim>\<open>send_ping\<close>: \<^verbatim>\<open>None\<close> when the sonar is not connected; a missing reply to
  \<^verbatim>\<open>get_distance\<close> (\<^verbatim>\<open>None\<close>) raises \<^verbatim>\<open>TypeError\<close> on \<^verbatim>\<open>None['distance']\<close>.\<close>

definition send_ping :: "sonar \<Rightarrow> (clock \<times> ping_data option) list
                          \<Rightarrow> ((clock \<times> real) option \<times> sonar \<times> (clock \<times> ping_data option) list) res" where
  "send_ping so replies =
     (if \<not> sonar_found so then Inr (None, so, replies)
      else case replies of
             [] \<Rightarrow> Inl TypeError
           | (t, None) # rest \<Rightarrow> Inl TypeError
           | (t, Some pd) # rest \<Rightarrow>
               (let d = real_of_int (pd_distance pd) / 1000
                in Inr (Some (t, d), so\<lparr>last_ping := Some (t, d, pd)\<rparr>, rest)))"

definition ping_to_string :: "sonar \<Rightarrow> pyval \<Rightarrow> string res" where
  "ping_to_string so ssp =
     (if \<not> sonar_found so then Inr ''No Sonar Found''
      else case last_ping so of
             None \<Rightarrow> Inl AttributeError
           | Some (t, d, pd) \<Rightarrow>
               Inr (time_str t @ '',$DEPTH,'' @ float_repr d @ '','' @ int_str (pd_confidence pd) @ '','' @
                    int_str (pd_transmit_duration pd) @ '','' @ int_str (pd_scan_start pd) @ '','' @
                    int_str (pd_scan_length pd) @ '','' @ int_str (pd_gain_setting pd) @ '','' @
                    py_str ssp @ [CHR 0x0A]))"

definition set_sound_speed :: "sonar \<Rightarrow> pyval \<Rightarrow> (bool \<times> sonar) res" where
  "set_sound_speed so soundspeed =
     (if \<not> sonar_found so then Inr (False, so)
      else rbind (py_num soundspeed) (\<lambda>x. Inr (True, so\<lparr>sonar_speed_mms := round_even (x * 1000)\<rparr>)))"

definition get_sound_speed :: "sonar \<Rightarrow> pyval" where
  "get_sound_speed so =
     (if \<not> sonar_found so then PNone else PFloat (real_of_int (sonar_speed_mms so) / 1000))"

section \<open>Surface sound-speed probe\<close>

text \<open>\<^verbatim>\<open>get_surface_sound_speed\<close>: one line of the probe, \<^verbatim>\<open>float(line)/1000\<close>; a read
  that times out (\<open>None\<close> here, an empty line in Python), a line that is not a number or a
  probe that never connected are caught and give \<^verbatim>\<open>None\<close>.\<close>

definition get_surface_sound_speed :: "bool \<Rightarrow> string option list \<Rightarrow> pyval \<times> string option list" where
  "get_surface_sound_speed svp_found lines =
     (if \<not> svp_found then (PNone, lines)
      else case lines of
             [] \<Rightarrow> (PNone, [])
           | l # rest \<Rightarrow>
               (case l of
                  None \<Rightarrow> (PNone, rest)
                | Some s \<Rightarrow> (case parse_float s of None \<Rightarrow> PNone | Some x \<Rightarrow> PFloat (x / 1000), rest)))"

section \<open>take_observation\<close>

text \<open>The state one cycle reads and writes: the arguments \<^verbatim>\<open>current_speed\<close> and
  \<^verbatim>\<open>obs_numb\<close> it returns, the two log files, the sonar object and the input streams.\<close>

record acq =
  a_speed :: pyval
  a_obs :: int
  a_raw :: "string list"
  a_simple :: "string list"
  a_sonar :: sonar
  a_gps_found :: bool
  a_svp_found :: bool
  a_gnss_in :: "(clock \<times> nmea_line) list"
  a_ping_in :: "(clock \<times> ping_data option) list"
  a_svp_in :: "string option list"

text \<open>The resynchronisation test at the top of \<^verbatim>\<open>take_observation\<close>.\<close>

definition resync :: "bool \<Rightarrow> acq \<Rightarrow> acq res" where
  "resync update_speed s =
     (if \<not> update_speed then Inr s
      else if a_obs s = 100 then
        (let (current_speed, rest) = get_surface_sound_speed (a_svp_found s) (a_svp_in s)
         in rbind (set_sound_speed (a_sonar s) current_speed) (\<lambda>(_, so).
              Inr (s\<lparr>a_speed := current_speed, a_svp_in := rest, a_sonar := so, a_obs := 0\<rparr>)))
      else Inr (s\<lparr>a_obs := a_obs s + 1\<rparr>))"

text \<open>The simplified row of a GGA fix: \<^verbatim>\<open>depth = round(distance + waterline, 3)\<close>,
  \<^verbatim>\<open>height = round(altitude + separation - depth - gnss_offset, 3)\<close>, with the altitude
  and separation read back from the written line's fields 10 and 12.\<close>

definition simple_row :: "metadata \<Rightarrow> string list \<Rightarrow> nmea \<Rightarrow> clock \<Rightarrow> real \<Rightarrow> pyval \<Rightarrow> string res" where
  "simple_row metadata parts m t distance current_speed =
     rbind (py_get (meta_sonar metadata) 2) (\<lambda>waterline.
     rbind (py_add (PFloat distance) waterline) (\<lambda>d. rbind (py_round 3 d) (\<lambda>depth.
     rbind (py_get parts 10) (\<lambda>alt.
     (case parse_float alt of
        None \<Rightarrow> Inl ValueError
      | Some a \<Rightarrow>
          rbind (py_get parts 12) (\<lambda>sep.
          (case parse_float sep of
             None \<Rightarrow> Inl ValueError
           | Some b \<Rightarrow>
               rbind (py_get (meta_gnss metadata) 2) (\<lambda>gnss_off.
               rbind (py_sub (PFloat (a + b)) depth) (\<lambda>h1. rbind (py_sub h1 gnss_off) (\<lambda>h2.
               rbind (py_round 3 h2) (\<lambda>height.
               rbind (nmea_latitude m) (\<lambda>lat. rbind (nmea_longitude m) (\<lambda>lon.
                 Inr (time_str t @ '','' @ float_repr lat @ '','' @ float_repr lon @ '','' @ py_str depth @
                      '','' @ py_str height @ '','' @ py_str current_speed @ [CHR 0x0A]))))))))))))))"

text \<open>The raw-log line of a GNSS sentence: \<^verbatim>\<open>str(time) + ',' + str(nmea) + '\\n'\<close>.\<close>

definition nmea_message :: "clock \<Rightarrow> nmea \<Rightarrow> string" where
  "nmea_message t m = time_str t @ CHR '','' # nmea_str m @ [CHR 0x0A]"

text \<open>One cycle. \<open>None\<close>: \<^verbatim>\<open>get_nmea\<close> never returns; \<open>Inl\<close>: the exception that ends the
  program; otherwise the new state. The fix line is written before the ping is requested;
  \<^verbatim>\<open>time\<close> is rebound to the ping time for the simplified row.\<close>

definition take_observation :: "metadata \<Rightarrow> bool \<Rightarrow> acq \<Rightarrow> acq res option" where
  "take_observation metadata update_speed s0 =
     (case resync update_speed s0 of
        Inl e \<Rightarrow> Some (Inl e)
      | Inr s \<Rightarrow>
          (case get_nmea (a_gps_found s) (a_gnss_in s) of
             None \<Rightarrow> None
           | Some (NoGnss, _) \<Rightarrow> Some (Inl ValueError)
           | Some (GnssReply t m ping, rest) \<Rightarrow>
               (let s1 = s\<lparr>a_gnss_in := rest, a_raw := a_raw s @ [nmea_message t m]\<rparr>
                in if \<not> ping then Some (Inr s1)
                   else Some
                     (rbind (send_ping (a_sonar s1) (a_ping_in s1)) (\<lambda>(obs, so, prest).
                        case obs of
                          None \<Rightarrow> Inl TypeError
                        | Some (tp, distance) \<Rightarrow>
                            rbind (ping_to_string so (a_speed s1)) (\<lambda>sonar_message.
                              let s2 = s1\<lparr>a_sonar := so, a_ping_in := prest, a_raw := a_raw s1 @ [sonar_message]\<rparr>;
                                  parts = split_on CHR '','' (nmea_message t m)
                              in rbind (py_get parts 1) (\<lambda>k.
                                   if k = ''$GNGGA'' then
                                     rbind (simple_row metadata parts m tp distance (a_speed s1)) (\<lambda>simple_message.
                                       Inr (s2\<lparr>a_simple := a_simple s2 @ [simple_message]\<rparr>))
                                   else Inr s2)))))))"

section \<open>online.py\<close>

text \<open>The sound-speed menu of \<^verbatim>\<open>online.py\<close>: each round reads an answer from the
  operator's input (\<^verbatim>\<open>EOFError\<close> when there is none left). \<^verbatim>\<open>svp\<close> reads the probe and
  sets the value on the sonar, \<^verbatim>\<open>default\<close> sets the configuration's default speed,
  \<^verbatim>\<open>manual\<close> reads a value and sets it when it lies strictly between 1400 and 1500 (its
  \<^verbatim>\<open>try\<close> catches every exception of the branch), \<^verbatim>\<open>exit\<close> leaves.\<close>

datatype menu_result = MenuExit | MenuProceed bool sonar "string option list" "string list"

fun speed_menu :: "metadata \<Rightarrow> bool \<Rightarrow> sonar \<Rightarrow> string option list \<Rightarrow> string list \<Rightarrow> menu_result res" where
  "speed_menu metadata svp_connection so svp_in [] = Inl EOFError"
| "speed_menu metadata svp_connection so svp_in (option # inputs) =
     (if option = ''svp'' then
        (if svp_connection then
           (let (reading, rest) = get_surface_sound_speed svp_connection svp_in
            in rbind (set_sound_speed so reading) (\<lambda>(_, so'). Inr (MenuProceed True so' rest inputs)))
         else speed_menu metadata svp_connection so svp_in inputs)
      else if option = ''default'' then
        rbind (py_get (meta_svp metadata) 2) (\<lambda>reading.
          rbind (set_sound_speed so reading) (\<lambda>(_, so'). Inr (MenuProceed False so' svp_in inputs)))
      else if option = ''manual'' then
        (case inputs of
           [] \<Rightarrow> Inl EOFError
         | manual # inputs' \<Rightarrow>
             (case parse_float manual of
                Some x \<Rightarrow>
                  (if x < 1500 \<and> 1400 < x then
                     (case set_sound_speed so (PFloat x) of
                        Inr (_, so') \<Rightarrow> Inr (MenuProceed False so' svp_in inputs')
                      | Inl _ \<Rightarrow> speed_menu metadata svp_connection so svp_in inputs')
                   else speed_menu metadata svp_connection so svp_in inputs')
              | None \<Rightarrow> speed_menu metadata svp_connection so svp_in inputs'))
      else if option = ''exit'' then Inr MenuExit
      else speed_menu metadata svp_connection so svp_in inputs)"

text \<open>The second menu: \<^verbatim>\<open>online\<close> starts recording, \<^verbatim>\<open>exit\<close> leaves.\<close>

fun online_menu :: "string list \<Rightarrow> (bool \<times> string list) res" where
  "online_menu [] = Inl EOFError"
| "online_menu (setting # inputs) =
     (if setting = ''online'' then Inr (True, inputs)
      else if setting = ''exit'' then Inr (False, inputs)
      else online_menu inputs)"

text \<open>The first \<open>n\<close> cycles of the endless observation loop.\<close>

fun run_cycles :: "nat \<Rightarrow> metadata \<Rightarrow> bool \<Rightarrow> acq \<Rightarrow> acq res option" where
  "run_cycles 0 metadata update_speed s = Some (Inr s)"
| "run_cycles (Suc n) metadata update_speed s =
     (case take_observation metadata update_speed s of
        None \<Rightarrow> None
      | Some (Inl e) \<Rightarrow> Some (Inl e)
      | Some (Inr s') \<Rightarrow> run_cycles n metadata update_speed s')"

text \<open>A session of \<^verbatim>\<open>online.py\<close> after the configuration file is read: the program
  exits when the GNSS receiver or the sonar did not connect; otherwise it writes both
  headers, runs the two menus and then \<open>n\<close> cycles, starting from the speed read back
  from the sonar and \<^verbatim>\<open>obs_numb = 0\<close>. \<^verbatim>\<open>metadata['Survey'][0]\<close> must be text, as it is
  concatenated into the log names.\<close>

datatype session_result = SessionExit | SessionRun "string list list" "string list list" acq

definition online_session :: "metadata option \<Rightarrow> bool \<Rightarrow> bool \<Rightarrow> bool \<Rightarrow> sonar \<Rightarrow> string list \<Rightarrow>
                              (clock \<times> nmea_line) list \<Rightarrow> (clock \<times> ping_data option) list \<Rightarrow>
                              string option list \<Rightarrow> nat \<Rightarrow> session_result res option" where
  "online_session md gps_connection sonar_connection svp_connection so inputs gnss_in ping_in svp_in n =
     (case md of
        None \<Rightarrow> Some (Inl TypeError)
      | Some metadata \<Rightarrow>
          if \<not> gps_connection \<or> \<not> sonar_connection then Some (Inr SessionExit)
          else case rbind (py_get (meta_survey metadata) 0) (\<lambda>v. case v of PStr _ \<Rightarrow> Inr v | _ \<Rightarrow> Inl TypeError) of
            Inl e \<Rightarrow> Some (Inl e)
          | Inr _ \<Rightarrow>
              (case rbind (write_meta_header (metadata\<lparr>meta_filetype := [''OSP_SIMPLE_LOG'']\<rparr>)) (\<lambda>simple_header.
                      rbind (write_meta_header (metadata\<lparr>meta_filetype := [''OSP_RAW_LOG'']\<rparr>)) (\<lambda>raw_header.
                      rbind (speed_menu metadata svp_connection so svp_in inputs) (\<lambda>r.
                        case r of
                          MenuExit \<Rightarrow> Inr None
                        | MenuProceed update_speed so' svp_rest inputs' \<Rightarrow>
                            rbind (online_menu inputs') (\<lambda>(go, _).
                              if \<not> go then Inr None
                              else Inr (Some (simple_header, raw_header, update_speed,
                                   \<lparr>a_speed = get_sound_speed so', a_obs = 0, a_raw = [], a_simple = [], a_sonar = so',
                                    a_gps_found = gps_connection, a_svp_found = svp_connection, a_gnss_in = gnss_in,
                                    a_ping_in = ping_in, a_svp_in = svp_rest\<rparr>)))))) of
                 Inl e \<Rightarrow> Some (Inl e)
               | Inr None \<Rightarrow> Some (Inr SessionExit)
               | Inr (Some (simple_header, raw_header, update_speed, s0)) \<Rightarrow>
                   map_option (map_sum id (\<lambda>s. SessionRun simple_header raw_header s))
                     (run_cycles n metadata update_speed s0)))"

text \<open>States of the observation loop reachable from \<^verbatim>\<open>obs_numb = 0\<close>.\<close>

inductive reachable :: "metadata \<Rightarrow> bool \<Rightarrow> acq \<Rightarrow> bool" for metadata update_speed where
  start: "a_obs s = 0 \<Longrightarrow> reachable metadata update_speed s"
| cycle: "reachable metadata update_speed s \<Longrightarrow> take_observation metadata update_speed s = Some (Inr s') \<Longrightarrow>
          reachable metadata update_speed s'"

section \<open>Lemmas on the acquisition cycle\<close>


lemma get_nmea_blocks: "\<forall>l\<in>set lines. snd l = Garbage \<Longrightarrow> get_nmea True lines = None"
  by (induction lines rule: nmea_loop.induct) (auto simp: get_nmea_def)

lemma take_observation_resync:
  assumes "take_observation md upd s = Some (Inr s')"
  shows "\<exists>s1. resync upd s = Inr s1 \<and> a_obs s' = a_obs s1 \<and> a_speed s' = a_speed s1"
  using assms
  by (auto simp: take_observation_def rbind_eq_Inr Let_def
           split: sum.splits option.splits gnss_reply.splits prod.splits if_splits)

lemma resync_obs:
  "resync upd s = Inr s1 \<Longrightarrow>
   a_obs s1 = (if upd then (if a_obs s = 100 then 0 else a_obs s + 1) else a_obs s)"
  by (auto simp: resync_def rbind_eq_Inr split: prod.splits)

lemma take_observation_obs:
  "take_observation md upd s = Some (Inr s') \<Longrightarrow>
   a_obs s' = (if upd then (if a_obs s = 100 then 0 else a_obs s + 1) else a_obs s)"
  using take_observation_resync resync_obs by metis

lemma nmea_loop_fix: "nmea_loop lines = Some ((t, m, p), rest) \<Longrightarrow> p = is_fix m"
  by (induction lines rule: nmea_loop.induct) auto

lemma resync_logs: "resync upd s = Inr s1 \<Longrightarrow> a_raw s1 = a_raw s \<and> a_simple s1 = a_simple s"
  by (auto simp: resync_def rbind_eq_Inr split: prod.splits if_splits)

lemma split_on_no: "c \<notin> set a \<Longrightarrow> split_on c a = [a]"
  by (induction a) (auto simp: Let_def)

lemma split_on_app: "c \<notin> set a \<Longrightarrow> split_on c (a @ c # b) = a # split_on c b"
  by (induction a) (auto simp: Let_def)

lemma comma_notin_num: "list_all num_char s \<Longrightarrow> CHR '','' \<notin> set s"
  using comma_not_num_char by (auto simp: list_all_iff)

lemma comma_notin_time_str: "CHR '','' \<notin> set (time_str t)"
proof -
  have "CHR '','' \<notin> set (pad_digits k n)" for k n
    using pad_digits_all_digits [of k n] by (auto simp: list_all_iff is_digit_def)
  then show ?thesis by (simp del: pad_digits_numeral add: time_str_def)
qed

lemma short_decimal_milli: "short_decimal (real_of_int i / 1000)"
proof -
  have "real_of_int i / 1000 * 10 ^ 17 = of_int (i * 10 ^ 14)" by simp
  then show ?thesis unfolding short_decimal_def by (metis floor_of_int)
qed

lemma coerce_int_str: "coerce_field (PStr (int_str i)) = PFloat (of_int i)"
proof -
  have "int_str i \<noteq> []" by (simp add: int_str_def)
  then show ?thesis by (simp add: int_str_parse_float)
qed

lemma coerce_time: "coerce_field (PTime t) = PTime t"
  by simp

lemma split_on_join:
  "c \<notin> set a \<Longrightarrow> \<forall>f\<in>set fs. c \<notin> set f \<Longrightarrow> c \<notin> set z \<Longrightarrow>
   split_on c (a @ concat (map ((#) c) fs) @ z) = butlast (a # fs) @ [last (a # fs) @ z]"
proof (induction fs arbitrary: a)
  case Nil
  then show ?case by (simp add: split_on_no)
next
  case (Cons f fs)
  then have "split_on c (a @ c # (f @ concat (map ((#) c) fs) @ z)) = a # split_on c (f @ concat (map ((#) c) fs) @ z)"
    by (simp add: split_on_app)
  then show ?case using Cons by simp
qed

lemma split_nmea_message:
  assumes "wf_nmea m"
  shows "split_on CHR '','' (nmea_message t m) =
         time_str t # butlast (n_kind m # n_fields m) @ [last (n_fields m) @ CHR ''*'' # n_checksum m @ [CHR 0x0A]]"
proof -
  have z: "CHR '','' \<notin> set (CHR ''*'' # n_checksum m @ [CHR 0x0A])" using assms by (simp add: wf_nmea_def)
  have "split_on CHR '','' (n_kind m @ concat (map ((#) CHR '','') (n_fields m)) @ CHR ''*'' # n_checksum m @ [CHR 0x0A]) =
        butlast (n_kind m # n_fields m) @ [last (n_kind m # n_fields m) @ CHR ''*'' # n_checksum m @ [CHR 0x0A]]"
    using assms z by (intro split_on_join) (simp_all add: wf_nmea_def)
  then show ?thesis using assms comma_notin_time_str
    by (simp add: nmea_message_def nmea_str_def split_on_app wf_nmea_def)
qed

section \<open>Properties of the acquisition side\<close>



text \<open>C25: with automatic sound-speed updates, after n successful cycles the counter obs_numb has advanced by n modulo 101: it takes the value 100 and the probe is re-read every 101 cycles.\<close>

lemma run_cycles_obs:
  "run_cycles n md True s = Some (Inr s') \<Longrightarrow> 0 \<le> a_obs s \<Longrightarrow> a_obs s \<le> 100 \<Longrightarrow>
   a_obs s' = (a_obs s + int n) mod 101"
proof (induction n arbitrary: s)
  case 0
  then show ?case by simp
next
  case (Suc n)
  obtain s1 where s1: "take_observation md True s = Some (Inr s1)" "run_cycles n md True s1 = Some (Inr s')"
    using Suc.prems(1) by (auto split: option.splits sum.splits)
  have o: "a_obs s1 = (if a_obs s = 100 then 0 else a_obs s + 1)" using take_observation_obs [OF s1(1)] by simp
  then have "0 \<le> a_obs s1" "a_obs s1 \<le> 100" using Suc.prems(2,3) by auto
  then have "a_obs s' = (a_obs s1 + int n) mod 101" using Suc.IH [OF s1(2)] by simp
  moreover have "(a_obs s1 + int n) mod 101 = (a_obs s + int (Suc n)) mod 101"
  proof (cases "a_obs s = 100")
    case True
    then show ?thesis using o by (simp add: mod_add_left_eq [symmetric])
  next
    case False
    then show ?thesis using o by (simp add: add.assoc)
  qed
  ultimately show ?case by simp
qed

lemma run_cycles_obs_witness:
  "a_obs ((\<lparr>a_speed = PFloat 1500, a_obs = 0, a_raw = [], a_simple = [], a_sonar = \<lparr>sonar_found = True, sonar_speed_mms = 1500000, last_ping = None\<rparr>,
      a_gps_found = True, a_svp_found = True, a_gnss_in = [(\<lparr>hour = 12, minute = 0, second = 1, microsecond = 5\<rparr>, Frame \<lparr>n_kind = ''$GNGSA'', n_fields = [''A'', ''3''], n_checksum = ''2E''\<rparr>)], a_ping_in = [], a_svp_in = []\<rparr>)\<lparr>a_obs := 1, a_gnss_in := [], a_raw := [nmea_message \<lparr>hour = 12, minute = 0, second = 1, microsecond = 5\<rparr> \<lparr>n_kind = ''$GNGSA'', n_fields = [''A'', ''3''], n_checksum = ''2E''\<rparr>]\<rparr>) = (a_obs (\<lparr>a_speed = PFloat 1500, a_obs = 0, a_raw = [], a_simple = [], a_sonar = \<lparr>sonar_found = True, sonar_speed_mms = 1500000, last_ping = None\<rparr>,
      a_gps_found = True, a_svp_found = True, a_gnss_in = [(\<lparr>hour = 12, minute = 0, second = 1, microsecond = 5\<rparr>, Frame \<lparr>n_kind = ''$GNGSA'', n_fields = [''A'', ''3''], n_checksum = ''2E''\<rparr>)], a_ping_in = [], a_svp_in = []\<rparr>) + int 1) mod 101"
  by (rule run_cycles_obs [of 1 "\<lparr>meta_filetype = [], meta_survey = [PStr ''Harbour''], meta_geodetics = [], meta_vessel = [],
      meta_gnss = [PStr ''F9P'', PStr ''RTK'', PFloat 0], meta_sonar = [PStr ''Ping'', PStr ''Echo'', PFloat (-0.5)],
      meta_svp = [PStr ''SVP'', PStr ''Probe'', PFloat 1500], meta_gnss_com = [], meta_sonar_com = [], meta_svp_com = []\<rparr>"])
     (simp_all add: take_observation_def resync_def get_nmea_def is_fix_def sentence_type_def Let_def)

text \<open>Every state of the observation loop reachable from obs_numb = 0 has 0 <= obs_numb <= 100.\<close>

lemma reachable_obs: "reachable md upd s \<Longrightarrow> 0 \<le> a_obs s \<and> a_obs s \<le> 100"
  by (induction rule: reachable.induct) (auto dest!: take_observation_obs)

text \<open>C26: when the resynchronisation cycle cannot read the probe (no line, a line that is not a number, or no probe), set_sound_speed(None) raises TypeError and the acquisition stops.\<close>

lemma take_observation_probe_failure:
  assumes "a_obs s = 100" "sonar_found (a_sonar s)"
    and "fst (get_surface_sound_speed (a_svp_found s) (a_svp_in s)) = PNone"
  shows "take_observation md True s = Some (Inl TypeError)"
proof -
  obtain rest where "get_surface_sound_speed (a_svp_found s) (a_svp_in s) = (PNone, rest)"
    using assms(3) by (metis prod.collapse)
  then show ?thesis using assms(1,2) by (simp add: take_observation_def resync_def set_sound_speed_def)
qed

lemma take_observation_probe_failure_witness:
  "take_observation \<lparr>meta_filetype = [], meta_survey = [PStr ''Harbour''], meta_geodetics = [], meta_vessel = [],
      meta_gnss = [PStr ''F9P'', PStr ''RTK'', PFloat 0], meta_sonar = [PStr ''Ping'', PStr ''Echo'', PFloat (-0.5)],
      meta_svp = [PStr ''SVP'', PStr ''Probe'', PFloat 1500], meta_gnss_com = [], meta_sonar_com = [], meta_svp_com = []\<rparr> True (\<lparr>a_speed = PFloat 1500, a_obs = 100, a_raw = [], a_simple = [], a_sonar = \<lparr>sonar_found = True, sonar_speed_mms = 1500000, last_ping = None\<rparr>,
      a_gps_found = True, a_svp_found = True, a_gnss_in = [(\<lparr>hour = 12, minute = 0, second = 1, microsecond = 5\<rparr>, Frame \<lparr>n_kind = ''$GNGSA'', n_fields = [''A'', ''3''], n_checksum = ''2E''\<rparr>)], a_ping_in = [], a_svp_in = [Some ''abc'']\<rparr>) = Some (Inl TypeError)"
  by (rule take_observation_probe_failure)
     (simp_all add: get_surface_sound_speed_def parse_float_def strip_space_def is_space_def split_sign_def
                    parse_unsigned_def is_digit_def)

text \<open>C27: a cycle appends the fix line to the raw log, followed by exactly one $DEPTH line when the sentence is a GGA, RMC or GLL fix, and appends a simplified row only for a $GNGGA sentence.\<close>

lemma take_observation_writes:
  assumes "take_observation md upd s = Some (Inr s')"
  shows "\<exists>t m. (\<not> is_fix m \<and> a_raw s' = a_raw s @ [nmea_message t m] \<and> a_simple s' = a_simple s) \<or>
               (is_fix m \<and> (\<exists>tp x. a_raw s' = a_raw s @ [nmea_message t m, time_str tp @ '',$DEPTH,'' @ x]) \<and>
                (a_simple s' \<noteq> a_simple s \<longrightarrow> py_get (split_on CHR '','' (nmea_message t m)) 1 = Inr ''$GNGGA''))"
proof -
  obtain s1 where r: "resync upd s = Inr s1" and l: "a_raw s1 = a_raw s" "a_simple s1 = a_simple s"
    using assms resync_logs by (cases "resync upd s") (auto simp: take_observation_def)
  show ?thesis
    using assms r l
    by (fastforce simp: take_observation_def get_nmea_def send_ping_def ping_to_string_def rbind_eq_Inr Let_def
                  split: option.splits sum.splits prod.splits if_splits gnss_reply.splits list.splits
                  dest: nmea_loop_fix)
qed

lemma take_observation_writes_witness:
  "\<exists>t m. (\<not> is_fix m \<and> a_raw ((\<lparr>a_speed = PFloat 1500, a_obs = 0, a_raw = [], a_simple = [], a_sonar = \<lparr>sonar_found = True, sonar_speed_mms = 1500000, last_ping = None\<rparr>,
      a_gps_found = True, a_svp_found = True, a_gnss_in = [(\<lparr>hour = 12, minute = 0, second = 1, microsecond = 5\<rparr>, Frame \<lparr>n_kind = ''$GNGSA'', n_fields = [''A'', ''3''], n_checksum = ''2E''\<rparr>)], a_ping_in = [], a_svp_in = []\<rparr>)\<lparr>a_obs := 1, a_gnss_in := [], a_raw := [nmea_message \<lparr>hour = 12, minute = 0, second = 1, microsecond = 5\<rparr> \<lparr>n_kind = ''$GNGSA'', n_fields = [''A'', ''3''], n_checksum = ''2E''\<rparr>]\<rparr>) = a_raw (\<lparr>a_speed = PFloat 1500, a_obs = 0, a_raw = [], a_simple = [], a_sonar = \<lparr>sonar_found = True, sonar_speed_mms = 1500000, last_ping = None\<rparr>,
      a_gps_found = True, a_svp_found = True, a_gnss_in = [(\<lparr>hour = 12, minute = 0, second = 1, microsecond = 5\<rparr>, Frame \<lparr>n_kind = ''$GNGSA'', n_fields = [''A'', ''3''], n_checksum = ''2E''\<rparr>)], a_ping_in = [], a_svp_in = []\<rparr>) @ [nmea_message t m] \<and> a_simple ((\<lparr>a_speed = PFloat 1500, a_obs = 0, a_raw = [], a_simple = [], a_sonar = \<lparr>sonar_found = True, sonar_speed_mms = 1500000, last_ping = None\<rparr>,
      a_gps_found = True, a_svp_found = True, a_gnss_in = [(\<lparr>hour = 12, minute = 0, second = 1, microsecond = 5\<rparr>, Frame \<lparr>n_kind = ''$GNGSA'', n_fields = [''A'', ''3''], n_checksum = ''2E''\<rparr>)], a_ping_in = [], a_svp_in = []\<rparr>)\<lparr>a_obs := 1, a_gnss_in := [], a_raw := [nmea_message \<lparr>hour = 12, minute = 0, second = 1, microsecond = 5\<rparr> \<lparr>n_kind = ''$GNGSA'', n_fields = [''A'', ''3''], n_checksum = ''2E''\<rparr>]\<rparr>) = a_simple (\<lparr>a_speed = PFloat 1500, a_obs = 0, a_raw = [], a_simple = [], a_sonar = \<lparr>sonar_found = True, sonar_speed_mms = 1500000, last_ping = None\<rparr>,
      a_gps_found = True, a_svp_found = True, a_gnss_in = [(\<lparr>hour = 12, minute = 0, second = 1, microsecond = 5\<rparr>, Frame \<lparr>n_kind = ''$GNGSA'', n_fields = [''A'', ''3''], n_checksum = ''2E''\<rparr>)], a_ping_in = [], a_svp_in = []\<rparr>)) \<or>
         (is_fix m \<and> (\<exists>tp x. a_raw ((\<lparr>a_speed = PFloat 1500, a_obs = 0, a_raw = [], a_simple = [], a_sonar = \<lparr>sonar_found = True, sonar_speed_mms = 1500000, last_ping = None\<rparr>,
      a_gps_found = True, a_svp_found = True, a_gnss_in = [(\<lparr>hour = 12, minute = 0, second = 1, microsecond = 5\<rparr>, Frame \<lparr>n_kind = ''$GNGSA'', n_fields = [''A'', ''3''], n_checksum = ''2E''\<rparr>)], a_ping_in = [], a_svp_in = []\<rparr>)\<lparr>a_obs := 1, a_gnss_in := [], a_raw := [nmea_message \<lparr>hour = 12, minute = 0, second = 1, microsecond = 5\<rparr> \<lparr>n_kind = ''$GNGSA'', n_fields = [''A'', ''3''], n_checksum = ''2E''\<rparr>]\<rparr>) = a_raw (\<lparr>a_speed = PFloat 1500, a_obs = 0, a_raw = [], a_simple = [], a_sonar = \<lparr>sonar_found = True, sonar_speed_mms = 1500000, last_ping = None\<rparr>,
      a_gps_found = True, a_svp_found = True, a_gnss_in = [(\<lparr>hour = 12, minute = 0, second = 1, microsecond = 5\<rparr>, Frame \<lparr>n_kind = ''$GNGSA'', n_fields = [''A'', ''3''], n_checksum = ''2E''\<rparr>)], a_ping_in = [], a_svp_in = []\<rparr>) @ [nmea_message t m, time_str tp @ '',$DEPTH,'' @ x]) \<and>
          (a_simple ((\<lparr>a_speed = PFloat 1500, a_obs = 0, a_raw = [], a_simple = [], a_sonar = \<lparr>sonar_found = True, sonar_speed_mms = 1500000, last_ping = None\<rparr>,
      a_gps_found = True, a_svp_found = True, a_gnss_in = [(\<lparr>hour = 12, minute = 0, second = 1, microsecond = 5\<rparr>, Frame \<lparr>n_kind = ''$GNGSA'', n_fields = [''A'', ''3''], n_checksum = ''2E''\<rparr>)], a_ping_in = [], a_svp_in = []\<rparr>)\<lparr>a_obs := 1, a_gnss_in := [], a_raw := [nmea_message \<lparr>hour = 12, minute = 0, second = 1, microsecond = 5\<rparr> \<lparr>n_kind = ''$GNGSA'', n_fields = [''A'', ''3''], n_checksum = ''2E''\<rparr>]\<rparr>) \<noteq> a_simple (\<lparr>a_speed = PFloat 1500, a_obs = 0, a_raw = [], a_simple = [], a_sonar = \<lparr>sonar_found = True, sonar_speed_mms = 1500000, last_ping = None\<rparr>,
      a_gps_found = True, a_svp_found = True, a_gnss_in = [(\<lparr>hour = 12, minute = 0, second = 1, microsecond = 5\<rparr>, Frame \<lparr>n_kind = ''$GNGSA'', n_fields = [''A'', ''3''], n_checksum = ''2E''\<rparr>)], a_ping_in = [], a_svp_in = []\<rparr>) \<longrightarrow> py_get (split_on CHR '','' (nmea_message t m)) 1 = Inr ''$GNGGA''))"
  by (rule take_observation_writes [of "\<lparr>meta_filetype = [], meta_survey = [PStr ''Harbour''], meta_geodetics = [], meta_vessel = [],
      meta_gnss = [PStr ''F9P'', PStr ''RTK'', PFloat 0], meta_sonar = [PStr ''Ping'', PStr ''Echo'', PFloat (-0.5)],
      meta_svp = [PStr ''SVP'', PStr ''Probe'', PFloat 1500], meta_gnss_com = [], meta_sonar_com = [], meta_svp_com = []\<rparr>" True])
     (simp add: take_observation_def resync_def get_nmea_def is_fix_def sentence_type_def Let_def)

text \<open>C28: the ping line written by send_ping and ping_to_string carries the distance in metres (millimetres/1000); read back by read_raw_log and folded by extract_soundings after a GGA fix, it gives the water depth -(millimetres/1000)/1000 + waterline offset.\<close>

lemma ping_line_units:
  assumes "send_ping so ((tp, Some pd) # rest) = Inr (Some (tp, dd), so', rest)" "sonar_found so"
    and "ping_to_string so' (PFloat c) = Inr line" "short_decimal c"
    and "valid_clock tp" "microsecond tp \<noteq> 0"
    and "prev_row s = Some p" "is_kind p ''$GNGGA''" "x_ant_elip_height s = PFloat h"
  shows "\<exists>r. read_row (csv_row line) = [r] \<and> r ! 2 = PFloat (real_of_int (pd_distance pd) / 1000) \<and>
             x_water_depth (ext_row (PFloat g) (PFloat w) s r) =
               PFloat (- (real_of_int (pd_distance pd) / 1000) / 1000 + w)"
proof -
  let ?d = "real_of_int (pd_distance pd) / 1000"
  have so': "so' = so\<lparr>last_ping := Some (tp, ?d, pd)\<rparr>" "dd = ?d"
    using assms(1,2) by (auto simp: send_ping_def Let_def)
  have nc: "CHR '','' \<notin> set (float_repr ?d)" "CHR '','' \<notin> set (float_repr c)" "CHR '','' \<notin> set (int_str i)" for i
    using comma_notin_num float_repr_chars short_decimal_milli assms(4) int_str_chars by blast+
  have line: "line = time_str tp @ '',$DEPTH,'' @ float_repr ?d @ '','' @ int_str (pd_confidence pd) @ '','' @
                 int_str (pd_transmit_duration pd) @ '','' @ int_str (pd_scan_start pd) @ '','' @
                 int_str (pd_scan_length pd) @ '','' @ int_str (pd_gain_setting pd) @ '','' @ float_repr c @ [CHR 0x0A]"
    using assms(2,3) so' by (simp add: ping_to_string_def)
  have row: "csv_row line = [time_str tp, ''$DEPTH'', float_repr ?d, int_str (pd_confidence pd),
               int_str (pd_transmit_duration pd), int_str (pd_scan_start pd), int_str (pd_scan_length pd),
               int_str (pd_gain_setting pd), float_repr c]"
    unfolding line csv_row_def
    by (simp add: butlast_append split_on_app split_on_no comma_notin_time_str nc)
  have "coerce_field (PStr ''$DEPTH'') = PStr ''$DEPTH''"
    by (simp add: parse_float_def strip_space_def is_space_def split_sign_def parse_unsigned_def is_digit_def)
  then have rr: "read_row (csv_row line) =
        [[PTime tp, PStr ''$DEPTH'', PFloat ?d, PFloat (pd_confidence pd), PFloat (pd_transmit_duration pd),
          PFloat (pd_scan_start pd), PFloat (pd_scan_length pd), PFloat (pd_gain_setting pd), PFloat c]]"
    using coerce_written [of "PFloat ?d"] coerce_written [of "PFloat c"] short_decimal_milli assms(4-6)
    by (simp del: coerce_field.simps add: row read_row_def time_str_parse coerce_int_str coerce_time)
  show ?thesis
    using assms(7-9) by (simp add: rr ext_row_def ext_dispatch_def depth_step_def is_kind_def py_div_def Let_def)
qed

lemma ping_line_units_witness:
  "\<exists>r. read_row (csv_row (projr (ping_to_string (\<lparr>sonar_found = True, sonar_speed_mms = 1500000, last_ping = None\<rparr>\<lparr>last_ping := Some (\<lparr>hour = 12, minute = 0, second = 1, microsecond = 250000\<rparr>, real_of_int 5000 / 1000, \<lparr>pd_distance = 5000, pd_confidence = 100, pd_transmit_duration = 80, pd_scan_start = 0, pd_scan_length = 20000, pd_gain_setting = 6\<rparr>)\<rparr>) (PFloat 1500)))) = [r] \<and> r ! 2 = PFloat (real_of_int 5000 / 1000) \<and>
       x_water_depth (ext_row (PFloat 0) (PFloat (-0.5))
         (ext_init\<lparr>prev_row := Some [PNone, PStr ''$GNGGA''], x_ant_elip_height := PFloat 10\<rparr>) r) =
       PFloat (- (real_of_int 5000 / 1000) / 1000 + -0.5)"
  using ping_line_units [of "\<lparr>sonar_found = True, sonar_speed_mms = 1500000, last_ping = None\<rparr>" "\<lparr>hour = 12, minute = 0, second = 1, microsecond = 250000\<rparr>" "\<lparr>pd_distance = 5000, pd_confidence = 100, pd_transmit_duration = 80, pd_scan_start = 0, pd_scan_length = 20000, pd_gain_setting = 6\<rparr>" "[]" "real_of_int 5000 / 1000" "\<lparr>sonar_found = True, sonar_speed_mms = 1500000, last_ping = None\<rparr>\<lparr>last_ping := Some (\<lparr>hour = 12, minute = 0, second = 1, microsecond = 250000\<rparr>, real_of_int 5000 / 1000, \<lparr>pd_distance = 5000, pd_confidence = 100, pd_transmit_duration = 80, pd_scan_start = 0, pd_scan_length = 20000, pd_gain_setting = 6\<rparr>)\<rparr>" 1500
          "projr (ping_to_string (\<lparr>sonar_found = True, sonar_speed_mms = 1500000, last_ping = None\<rparr>\<lparr>last_ping := Some (\<lparr>hour = 12, minute = 0, second = 1, microsecond = 250000\<rparr>, real_of_int 5000 / 1000, \<lparr>pd_distance = 5000, pd_confidence = 100, pd_transmit_duration = 80, pd_scan_start = 0, pd_scan_length = 20000, pd_gain_setting = 6\<rparr>)\<rparr>) (PFloat 1500))"
          "ext_init\<lparr>prev_row := Some [PNone, PStr ''$GNGGA''], x_ant_elip_height := PFloat 10\<rparr>"
          "[PNone, PStr ''$GNGGA'']" 10 0 "-0.5"]
  by (simp add: send_ping_def ping_to_string_def short_decimal_def valid_clock_def ext_init_def)

text \<open>C29: a GGA fix with an empty altitude field makes float() raise ValueError in take_observation after the ping, which stops the acquisition.\<close>

lemma take_observation_gga_no_altitude:
  assumes "resync upd s = Inr sr" "a_gps_found sr" "a_gnss_in sr = (t, Frame m) # rest"
    and "n_kind m = ''$GNGGA''" "wf_nmea m" "10 < length (n_fields m)" "n_fields m ! 8 = []"
    and "sonar_found (a_sonar sr)" "a_ping_in sr = (tp, Some pd) # prest"
    and "py_get (meta_sonar md) 2 = Inr (PFloat w)"
  shows "take_observation md upd s = Some (Inl ValueError)"
proof -
  have fx: "is_fix m" using assms(4) by (simp add: is_fix_def sentence_type_def)
  have p1: "py_get (split_on CHR '','' (nmea_message t m)) 1 = Inr ''$GNGGA''"
    using assms(4,5) by (simp add: split_nmea_message wf_nmea_def)
  have p10: "py_get (split_on CHR '','' (nmea_message t m)) 10 = Inr []"
  proof -
    have "8 < length (n_fields m) - Suc 0" using assms(6) by linarith
    then show ?thesis using assms(5-7) by (simp add: split_nmea_message nth_append nth_butlast wf_nmea_def)
  qed
  have p12: "12 < length (split_on CHR '','' (nmea_message t m))"
    using assms(5,6) by (simp add: split_nmea_message wf_nmea_def)
  have "parse_float [] = None" by (simp add: parse_float_def strip_space_def split_sign_def parse_unsigned_def)
  then show ?thesis
    using assms(1-3,8-10) fx p1 p10 p12
    by (simp add: take_observation_def get_nmea_def send_ping_def ping_to_string_def simple_row_def Let_def
             split: option.split prod.split)
qed

lemma take_observation_gga_no_altitude_witness:
  "take_observation \<lparr>meta_filetype = [], meta_survey = [PStr ''Harbour''], meta_geodetics = [], meta_vessel = [],
      meta_gnss = [PStr ''F9P'', PStr ''RTK'', PFloat 0], meta_sonar = [PStr ''Ping'', PStr ''Echo'', PFloat (-0.5)],
      meta_svp = [PStr ''SVP'', PStr ''Probe'', PFloat 1500], meta_gnss_com = [], meta_sonar_com = [], meta_svp_com = []\<rparr> True (\<lparr>a_speed = PFloat 1500, a_obs = 0, a_raw = [], a_simple = [], a_sonar = \<lparr>sonar_found = True, sonar_speed_mms = 1500000, last_ping = None\<rparr>,
      a_gps_found = True, a_svp_found = True, a_gnss_in = [(\<lparr>hour = 12, minute = 0, second = 1, microsecond = 250000\<rparr>, Frame \<lparr>n_kind = ''$GNGGA'', n_fields = [''120001.00'', ''4807.038'', ''N'', ''01131.000'', ''E'', ''1'', ''08'', ''0.9'', [], ''M'', ''0.0'', ''M'', [], []], n_checksum = ''47''\<rparr>)], a_ping_in = [(\<lparr>hour = 12, minute = 0, second = 1, microsecond = 250000\<rparr>, Some \<lparr>pd_distance = 5000, pd_confidence = 100, pd_transmit_duration = 80, pd_scan_start = 0, pd_scan_length = 20000, pd_gain_setting = 6\<rparr>)], a_svp_in = []\<rparr>) = Some (Inl ValueError)"
  by (rule take_observation_gga_no_altitude [where sr = "(\<lparr>a_speed = PFloat 1500, a_obs = 0, a_raw = [], a_simple = [], a_sonar = \<lparr>sonar_found = True, sonar_speed_mms = 1500000, last_ping = None\<rparr>,
      a_gps_found = True, a_svp_found = True, a_gnss_in = [(\<lparr>hour = 12, minute = 0, second = 1, microsecond = 250000\<rparr>, Frame \<lparr>n_kind = ''$GNGGA'', n_fields = [''120001.00'', ''4807.038'', ''N'', ''01131.000'', ''E'', ''1'', ''08'', ''0.9'', [], ''M'', ''0.0'', ''M'', [], []], n_checksum = ''47''\<rparr>)], a_ping_in = [(\<lparr>hour = 12, minute = 0, second = 1, microsecond = 250000\<rparr>, Some \<lparr>pd_distance = 5000, pd_confidence = 100, pd_transmit_duration = 80, pd_scan_start = 0, pd_scan_length = 20000, pd_gain_setting = 6\<rparr>)], a_svp_in = []\<rparr>)\<lparr>a_obs := 1\<rparr>"])
     (auto simp: resync_def wf_nmea_def)

text \<open>C30: choosing the probe as sound-speed source when the probe does not deliver a number raises TypeError in set_sound_speed.\<close>

lemma speed_menu_svp_failure:
  assumes "sonar_found so" "fst (get_surface_sound_speed True svp_in) = PNone"
  shows "speed_menu md True so svp_in (''svp'' # inputs) = Inl TypeError"
proof -
  obtain rest where "get_surface_sound_speed True svp_in = (PNone, rest)" using assms(2) by (metis prod.collapse)
  then show ?thesis using assms(1) by (simp add: set_sound_speed_def)
qed

lemma speed_menu_svp_failure_witness:
  "speed_menu \<lparr>meta_filetype = [], meta_survey = [PStr ''Harbour''], meta_geodetics = [], meta_vessel = [],
      meta_gnss = [PStr ''F9P'', PStr ''RTK'', PFloat 0], meta_sonar = [PStr ''Ping'', PStr ''Echo'', PFloat (-0.5)],
      meta_svp = [PStr ''SVP'', PStr ''Probe'', PFloat 1500], meta_gnss_com = [], meta_sonar_com = [], meta_svp_com = []\<rparr> True \<lparr>sonar_found = True, sonar_speed_mms = 1500000, last_ping = None\<rparr> [None] [''svp'', ''online''] = Inl TypeError"
  by (rule speed_menu_svp_failure) (simp_all add: get_surface_sound_speed_def)

end
