(* ===== verification/Editor.thy ===== *)
theory Editor
  imports Py_Text
begin

text \<open>
  The sounding editor, class \<^verbatim>\<open>Clean_Soundings\<close> of \<^verbatim>\<open>osplib.py\<close>, and the interactive
  \<^verbatim>\<open>save_data\<close> it calls. The console is a list of input lines: every \<^verbatim>\<open>input()\<close>
  takes the next one, and an exhausted console raises \<open>EOFError\<close>, so that the editor
  loop is a total function of its input. Plotting is modelled by the arithmetic it does
  on the window (\<^verbatim>\<open>plot_data\<close>), the drawing itself is output only.
\<close>

section \<open>Python built-ins the editor uses\<close>

text \<open>\<^verbatim>\<open>input()\<close> on a console given as the list of lines still to be typed.\<close>

definition py_input :: "string list \<Rightarrow> (string \<times> string list) res" where
  "py_input inp = (case inp of [] \<Rightarrow> Inl EOFError | l # rest \<Rightarrow> Inr (l, rest))"

text \<open>\<^verbatim>\<open>int(v)\<close>: an int is kept, a float truncated towards zero, a string parsed.\<close>

fun py_int :: "pyval \<Rightarrow> int res" where
  "py_int (PInt i) = Inr i"
| "py_int (PFloat x) = Inr (if x < 0 then \<lceil>x\<rceil> else \<lfloor>x\<rfloor>)"
| "py_int (PStr s) = (case parse_int s of None \<Rightarrow> Inl ValueError | Some i \<Rightarrow> Inr i)"
| "py_int _ = Inl TypeError"

text \<open>
  \<^verbatim>\<open>a < b\<close>: numbers by value, strings by code point, times of the same (default) date by
  their time of day; anything else raises.
\<close>

definition clock_key :: "clock \<Rightarrow> nat" where
  "clock_key c = ((hour c * 60 + minute c) * 60 + second c) * 1000000 + microsecond c"

fun py_lt :: "pyval \<Rightarrow> pyval \<Rightarrow> bool res" where
  "py_lt (PFloat x) (PFloat y) = Inr (x < y)"
| "py_lt (PFloat x) (PInt j) = Inr (x < of_int j)"
| "py_lt (PInt i) (PFloat y) = Inr (of_int i < y)"
| "py_lt (PInt i) (PInt j) = Inr (i < j)"
| "py_lt (PStr s) (PStr t) = Inr (lexordp (<) s t)"
| "py_lt (PTime a) (PTime b) = Inr (clock_key a < clock_key b)"
| "py_lt _ _ = Inl TypeError"

text \<open>
  \<^verbatim>\<open>min(xs)\<close> and \<^verbatim>\<open>max(xs)\<close>: the first element is the candidate, replaced by a later
  one that compares strictly less (greater); an empty list raises \<open>ValueError\<close>.
\<close>

fun py_min_from :: "pyval \<Rightarrow> pyval list \<Rightarrow> pyval res" where
  "py_min_from m [] = Inr m"
| "py_min_from m (x # xs) = rbind (py_lt x m) (\<lambda>b. py_min_from (if b then x else m) xs)"

fun py_max_from :: "pyval \<Rightarrow> pyval list \<Rightarrow> pyval res" where
  "py_max_from m [] = Inr m"
| "py_max_from m (x # xs) = rbind (py_lt m x) (\<lambda>b. py_max_from (if b then x else m) xs)"

definition py_min :: "pyval list \<Rightarrow> pyval res" where
  "py_min xs = (case xs of [] \<Rightarrow> Inl ValueError | x # rest \<Rightarrow> py_min_from x rest)"

definition py_max :: "pyval list \<Rightarrow> pyval res" where
  "py_max xs = (case xs of [] \<Rightarrow> Inl ValueError | x # rest \<Rightarrow> py_max_from x rest)"

text \<open>
  \<^verbatim>\<open>xs[i:j]\<close> with integer bounds: a negative bound counts from the end, and both are
  clamped to the list.
\<close>

definition slice_index :: "nat \<Rightarrow> int \<Rightarrow> nat" where
  "slice_index n i = nat (if i < 0 then max 0 (int n + i) else min i (int n))"

definition py_slice :: "'a list \<Rightarrow> int \<Rightarrow> int \<Rightarrow> 'a list" where
  "py_slice xs i j =
     (let a = slice_index (length xs) i; b = slice_index (length xs) j in take (b - a) (drop a xs))"

text \<open>A slice bound that is not an int (a string the operator typed) raises \<open>TypeError\<close>.\<close>

fun slice_bound :: "pyval \<Rightarrow> int res" where
  "slice_bound (PInt i) = Inr i"
| "slice_bound _ = Inl TypeError"

text \<open>\<^verbatim>\<open>x == k\<close> for a row field and an int of the deletion range.\<close>

definition py_eq_int :: "pyval \<Rightarrow> int \<Rightarrow> bool" where
  "py_eq_int v k = (case v of PInt i \<Rightarrow> i = k | PFloat x \<Rightarrow> x = of_int k | _ \<Rightarrow> False)"

section \<open>save_data\<close>

text \<open>
  \<^verbatim>\<open>save_data(data)\<close>: asks yes/no; on \<^verbatim>\<open>yes\<close> asks a file name and appends the rows
  to it, anything else saves nothing. The result lists the files appended to.
\<close>

definition save_data ::
  "pyval list list \<Rightarrow> string list \<Rightarrow> ((string \<times> pyval list list) list \<times> string list) res" where
  "save_data data inp =
     rbind (py_input inp) (\<lambda>(selection, inp1).
       if selection = ''no'' then Inr ([], inp1)
       else if selection = ''yes'' then
         rbind (py_input inp1) (\<lambda>(filename, inp2). Inr ([(filename, data)], inp2))
       else Inr ([], inp1))"

section \<open>State of the editor\<close>

text \<open>The columns \<^verbatim>\<open>pull_items\<close> copies out of the soundings.\<close>

record items =
  it_ping :: "pyval list"
  it_old_depth :: "pyval list"
  it_new_depth :: "pyval list"
  it_old_speed :: "pyval list"
  it_new_speed :: "pyval list"

text \<open>
  The attributes of the object, the local \<^verbatim>\<open>new_soundings\<close> of \<^verbatim>\<open>clean_soundings\<close>, and
  the files \<^verbatim>\<open>save_data\<close> has appended to.
\<close>

record editor =
  ed_soundings :: "pyval list list"
  ed_items :: items
  ed_left :: pyval
  ed_right :: pyval
  ed_ymin :: pyval
  ed_ymax :: pyval
  ed_new :: "pyval list list"
  ed_saved :: "(string \<times> pyval list list) list"

section \<open>Operations\<close>

text \<open>\<^verbatim>\<open>pull_items\<close>: \<^verbatim>\<open>row[1]\<close>, \<^verbatim>\<open>row[-4]\<close>, \<^verbatim>\<open>row[-2]\<close>, \<^verbatim>\<open>row[-3]\<close>, \<^verbatim>\<open>row[-1]\<close> of every row.\<close>

fun pull_items :: "pyval list list \<Rightarrow> items res" where
  "pull_items [] =
     Inr \<lparr>it_ping = [], it_old_depth = [], it_new_depth = [], it_old_speed = [], it_new_speed = []\<rparr>"
| "pull_items (row # rows) =
     rbind (py_get row 1) (\<lambda>p. rbind (py_get row (-4)) (\<lambda>od. rbind (py_get row (-2)) (\<lambda>nd.
     rbind (py_get row (-3)) (\<lambda>os. rbind (py_get row (-1)) (\<lambda>ns.
     rbind (pull_items rows) (\<lambda>it.
       Inr \<lparr>it_ping = p # it_ping it, it_old_depth = od # it_old_depth it,
            it_new_depth = nd # it_new_depth it, it_old_speed = os # it_old_speed it,
            it_new_speed = ns # it_new_speed it\<rparr>))))))"

text \<open>
  \<^verbatim>\<open>plot_data\<close>: the width test \<^verbatim>\<open>self.right-self.left <= 100\<close> and the axis limits
  \<^verbatim>\<open>self.y_min-0.05\<close>, \<^verbatim>\<open>self.y_max+0.05\<close>, which raise on non-numeric values.
\<close>

definition plot_data :: "editor \<Rightarrow> unit res" where
  "plot_data st =
     rbind (py_sub (ed_right st) (ed_left st)) (\<lambda>w. rbind (py_num w) (\<lambda>_.
     rbind (py_sub (ed_ymin st) (PFloat (5 / 100))) (\<lambda>_.
     rbind (py_add (ed_ymax st) (PFloat (5 / 100))) (\<lambda>_. Inr ()))))"

text \<open>
  A zoom extent: \<^verbatim>\<open>int(s)\<close> if it parses, else the keyword (\<^verbatim>\<open>'min'\<close> for the left,
  \<^verbatim>\<open>'max'\<close> for the right extent) gives \<^verbatim>\<open>int(min(self.ping))\<close> resp.
  \<^verbatim>\<open>int(max(self.ping))\<close>, else the string itself stays in the attribute.
\<close>

definition zoom_extent :: "string \<Rightarrow> string \<Rightarrow> (pyval list \<Rightarrow> pyval res) \<Rightarrow> pyval list \<Rightarrow> pyval res" where
  "zoom_extent s kw pick ping =
     (case py_int (PStr s) of
        Inr k \<Rightarrow> Inr (PInt k)
      | Inl _ \<Rightarrow> if s = kw then rbind (pick ping) (\<lambda>m. rbind (py_int m) (\<lambda>k. Inr (PInt k)))
                 else Inr (PStr s))"

text \<open>
  The zoom of one loop iteration: the extents, then \<^verbatim>\<open>min\<close> and \<^verbatim>\<open>max\<close> of
  \<^verbatim>\<open>self.new_depth[self.left:self.right]\<close>.
\<close>

definition zoom :: "editor \<Rightarrow> string \<Rightarrow> string \<Rightarrow> editor res" where
  "zoom st l r =
     (let ping = it_ping (ed_items st); new_depth = it_new_depth (ed_items st) in
      rbind (zoom_extent l ''min'' py_min ping) (\<lambda>left.
      rbind (zoom_extent r ''max'' py_max ping) (\<lambda>right.
      rbind (slice_bound left) (\<lambda>i. rbind (slice_bound right) (\<lambda>j.
      rbind (py_min (py_slice new_depth i j)) (\<lambda>y_min.
      rbind (py_max (py_slice new_depth i j)) (\<lambda>y_max.
        Inr (st\<lparr>ed_left := left, ed_right := right, ed_ymin := y_min, ed_ymax := y_max\<rparr>))))))))"

text \<open>
  The deletion of the \<^verbatim>\<open>yes\<close> branch: \<^verbatim>\<open>bad_pings\<close> collects, for every row, its
  position once per element of \<^verbatim>\<open>delete_range\<close> equal to \<^verbatim>\<open>row[1]\<close>; the result is
  \<^verbatim>\<open>mod_soundings[0:bad_pings[0]]\<close> followed by \<^verbatim>\<open>mod_soundings[bad_pings[-1]:-1]\<close>.
  \<open>right_delete\<close> is the operator's right ping plus 2, as in the source.
\<close>

fun match_loop :: "pyval \<Rightarrow> int list \<Rightarrow> nat \<Rightarrow> nat list" where
  "match_loop x [] ping = []"
| "match_loop x (d # ds) ping = (if py_eq_int x d then [ping] else []) @ match_loop x ds ping"

fun bad_loop :: "int list \<Rightarrow> pyval list list \<Rightarrow> nat \<Rightarrow> nat list res" where
  "bad_loop delete_range [] ping = Inr []"
| "bad_loop delete_range (row # rows) ping =
     rbind (py_get row 1) (\<lambda>x. rbind (bad_loop delete_range rows (Suc ping)) (\<lambda>bad.
       Inr (match_loop x delete_range ping @ bad)))"

definition delete_soundings :: "pyval list list \<Rightarrow> int \<Rightarrow> int \<Rightarrow> pyval list list res" where
  "delete_soundings mod_soundings left_delete right_delete =
     (let delete_range = [left_delete..right_delete - 1] in
      rbind (bad_loop delete_range mod_soundings 0) (\<lambda>bad_pings.
      rbind (py_get bad_pings 0) (\<lambda>b0. rbind (py_get bad_pings (-1)) (\<lambda>bl.
        Inr (py_slice mod_soundings 0 (int b0) @ py_slice mod_soundings (int bl) (-1))))))"

text \<open>
  The \<^verbatim>\<open>yes\<close> branch: the two pings typed (\<^verbatim>\<open>int(input(..))\<close>, the right one
  plus 2), the deletion on \<^verbatim>\<open>new_soundings\<close>, \<^verbatim>\<open>self.soundings\<close> set to the result,
  \<^verbatim>\<open>pull_items\<close> and a plot.
\<close>

definition delete_step :: "editor \<Rightarrow> string list \<Rightarrow> (editor \<times> string list) res" where
  "delete_step st inp =
     rbind (py_input inp) (\<lambda>(a, inp1). rbind (py_int (PStr a)) (\<lambda>left_delete.
     rbind (py_input inp1) (\<lambda>(b, inp2). rbind (py_int (PStr b)) (\<lambda>rd.
     rbind (delete_soundings (ed_new st) left_delete (rd + 2)) (\<lambda>new_soundings.
     rbind (pull_items new_soundings) (\<lambda>it.
       let st' = st\<lparr>ed_soundings := new_soundings, ed_items := it, ed_new := new_soundings\<rparr>
       in rbind (plot_data st') (\<lambda>_. Inr (st', inp2))))))))"

text \<open>
  The selection: the new state, whether the loop goes on (\<open>False\<close> after \<^verbatim>\<open>exit\<close>),
  and the rest of the console.
\<close>

definition editor_select :: "editor \<Rightarrow> string \<Rightarrow> string list \<Rightarrow> (editor \<times> bool \<times> string list) res" where
  "editor_select st selection inp =
     (if selection = ''exit'' then Inr (st, False, inp)
      else if selection = ''no'' then Inr (st, True, inp)
      else if selection = ''save'' then
        rbind (save_data (ed_new st) inp) (\<lambda>(files, inp1).
          Inr (st\<lparr>ed_saved := ed_saved st @ files\<rparr>, True, inp1))
      else if selection = ''yes'' then
        rbind (delete_step st inp) (\<lambda>(st', inp1). Inr (st', True, inp1))
      else Inr (st, True, inp))"

text \<open>One iteration of the \<^verbatim>\<open>while True\<close> loop: two extents, the zoom and its plot, the selection.\<close>

definition editor_step :: "editor \<Rightarrow> string list \<Rightarrow> (editor \<times> bool \<times> string list) res" where
  "editor_step st inp =
     rbind (py_input inp) (\<lambda>(l, inp1). rbind (py_input inp1) (\<lambda>(r, inp2).
     rbind (zoom st l r) (\<lambda>st1. rbind (plot_data st1) (\<lambda>_.
     rbind (py_input inp2) (\<lambda>(selection, inp3). editor_select st1 selection inp3)))))"

lemma py_input_shorter: "py_input inp = Inr (l, rest) \<Longrightarrow> length rest < length inp"
  by (auto simp: py_input_def split: list.splits)

lemma rbind_input_Inr:
  "rbind (py_input inp) f = Inr y \<Longrightarrow> \<exists>l rest. inp = l # rest \<and> f (l, rest) = Inr y"
  by (cases inp) (simp_all add: py_input_def)

lemma save_data_shorter: "save_data d inp = Inr (fs, rest) \<Longrightarrow> length rest < length inp"
  unfolding save_data_def
  by (drule rbind_input_Inr) (auto split: if_splits dest!: rbind_input_Inr)

lemma delete_step_shorter: "delete_step st inp = Inr (st', rest) \<Longrightarrow> length rest < length inp"
  unfolding delete_step_def Let_def
  by (auto simp: rbind_eq_Inr dest!: py_input_shorter)

lemma editor_select_shorter:
  "editor_select st sel inp = Inr (st', go, rest) \<Longrightarrow> length rest \<le> length inp"
  unfolding editor_select_def
  by (auto simp: rbind_eq_Inr split: if_splits prod.splits
           dest!: save_data_shorter delete_step_shorter)

lemma editor_step_shorter:
  "editor_step st inp = Inr (st', go, rest) \<Longrightarrow> length rest < length inp"
  unfolding editor_step_def
  by (auto simp: rbind_eq_Inr dest!: py_input_shorter editor_select_shorter)

text \<open>
  The loop runs iterations until \<^verbatim>\<open>exit\<close> (result \<open>None\<close>) or an exception (\<open>Some e\<close>);
  every iteration reads at least one line, so it ends on every console.
\<close>

function editor_loop :: "editor \<Rightarrow> string list \<Rightarrow> editor \<times> py_error option" where
  "editor_loop st inp =
     (case editor_step st inp of
        Inl e \<Rightarrow> (st, Some e)
      | Inr (st', go, rest) \<Rightarrow> if go then editor_loop st' rest else (st', None))"
  by pat_completeness auto
termination
  by (relation "measure (\<lambda>(st, inp). length inp)") (auto dest: editor_step_shorter)

declare editor_loop.simps [simp del]

text \<open>
  The constructor up to the loop (\<^verbatim>\<open>__init__\<close> and the start of \<^verbatim>\<open>clean_soundings\<close>):
  \<^verbatim>\<open>pull_items\<close>, the initial window over the whole data, and a plot.
\<close>

definition editor_init :: "pyval list list \<Rightarrow> editor res" where
  "editor_init soundings =
     rbind (pull_items soundings) (\<lambda>it.
     rbind (py_min (it_new_depth it)) (\<lambda>y_min. rbind (py_max (it_new_depth it)) (\<lambda>y_max.
     rbind (py_min (it_ping it)) (\<lambda>left. rbind (py_max (it_ping it)) (\<lambda>right.
       let st = \<lparr>ed_soundings = soundings, ed_items = it, ed_left = left, ed_right = right,
                 ed_ymin = y_min, ed_ymax = y_max, ed_new = soundings, ed_saved = []\<rparr>
       in rbind (plot_data st) (\<lambda>_. Inr st))))))"

text \<open>
  \<^verbatim>\<open>Clean_Soundings(soundings)\<close>: the constructor, then the loop. The result lists the
  files written and how the session ended.
\<close>

definition clean_soundings ::
  "pyval list list \<Rightarrow> string list \<Rightarrow> (string \<times> pyval list list) list \<times> py_error option" where
  "clean_soundings soundings inp =
     (case editor_init soundings of
        Inl e \<Rightarrow> ([], Some e)
      | Inr st \<Rightarrow> (case editor_loop st inp of (st', outcome) \<Rightarrow> (ed_saved st', outcome)))"

section \<open>Specification of the editor\<close>

text \<open>
  Logs whose pings (\<^verbatim>\<open>row[1]\<close>) are the consecutive integers from \<open>b\<close>, the deletion
  the spec asks for (every sounding whose ping lies in the closed range \<open>[l, r]\<close> is
  filtered out), and the invariant of the editor state: the object's soundings are the
  working set \<^verbatim>\<open>new_soundings\<close>, and the columns are those \<^verbatim>\<open>pull_items\<close> takes from them.
\<close>

fun sequential :: "int \<Rightarrow> pyval list list \<Rightarrow> bool" where
  "sequential b [] = True"
| "sequential b (row # rows) = (2 \<le> length row \<and> row ! 1 = PInt b \<and> sequential (b + 1) rows)"

definition ping_in :: "int \<Rightarrow> int \<Rightarrow> pyval list \<Rightarrow> bool" where
  "ping_in l r row = (case py_get row 1 of Inr (PInt p) \<Rightarrow> l \<le> p \<and> p \<le> r | _ \<Rightarrow> False)"

definition spec_delete :: "int \<Rightarrow> int \<Rightarrow> pyval list list \<Rightarrow> pyval list list" where
  "spec_delete l r rows = filter (\<lambda>row. \<not> ping_in l r row) rows"

definition ed_inv :: "editor \<Rightarrow> bool" where
  "ed_inv st \<longleftrightarrow> ed_soundings st = ed_new st \<and> pull_items (ed_soundings st) = Inr (ed_items st)"

section \<open>Lemmas on the built-ins\<close>

lemma match_loop_replicate:
  "match_loop x ds k = replicate (length (filter (py_eq_int x) ds)) k"
  by (induction ds) auto

lemma filter_eq_distinct:
  "distinct xs \<Longrightarrow> filter (\<lambda>d. p = d) xs = (if p \<in> set xs then [p] else [])"
  by (induction xs) auto

lemma match_loop_upto:
  "match_loop (PInt p) [l..h] k = (if l \<le> p \<and> p \<le> h then [k] else [])"
proof -
  have "filter (py_eq_int (PInt p)) [l..h] = filter (\<lambda>d. p = d) [l..h]"
    by (intro filter_cong) (simp_all add: py_eq_int_def)
  then show ?thesis by (simp add: match_loop_replicate filter_eq_distinct)
qed

lemma bad_loop_sequential:
  "sequential b rows \<Longrightarrow>
   bad_loop [l..h] rows k = Inr [k + nat (l - b) ..< k + min (length rows) (nat (h + 1 - b))]"
proof (induction rows arbitrary: b k)
  case Nil
  then show ?case by simp
next
  case (Cons row rows)
  then have row: "py_get row 1 = Inr (PInt b)" and seq: "sequential (b + 1) rows" by auto
  have IH: "bad_loop [l..h] rows (Suc k) =
            Inr [Suc k + nat (l - (b + 1)) ..< Suc k + min (length rows) (nat (h + 1 - (b + 1)))]"
    using Cons.IH [OF seq] .
  show ?case
  proof (cases "l \<le> b \<and> b \<le> h")
    case True
    then have e: "nat (h + 1 - b) = Suc (nat (h - b))" and z: "nat (l - b) = 0"
      and z': "nat (l - (b + 1)) = 0" by auto
    have "[k + nat (l - b) ..< k + min (length (row # rows)) (nat (h + 1 - b))] =
          k # [Suc k + nat (l - (b + 1)) ..< Suc k + min (length rows) (nat (h + 1 - (b + 1)))]"
      by (simp add: e z z' upt_conv_Cons del: upt_Suc)
    with True row IH show ?thesis by (simp add: match_loop_upto)
  next
    case False
    show ?thesis
    proof (cases "b \<le> h")
      case True
      with False have "nat (l - b) = Suc (nat (l - (b + 1)))"
        and "nat (h + 1 - b) = Suc (nat (h - b))" by auto
      then have "[k + nat (l - b) ..< k + min (length (row # rows)) (nat (h + 1 - b))] =
                 [Suc k + nat (l - (b + 1)) ..< Suc k + min (length rows) (nat (h + 1 - (b + 1)))]"
        by (simp del: upt_Suc)
      with False row IH show ?thesis by (simp add: match_loop_upto)
    next
      case hb: False
      then have "nat (h + 1 - b) = 0" and "nat (h + 1 - (b + 1)) = 0" by auto
      with hb row IH show ?thesis by (simp add: match_loop_upto del: upt_Suc)
    qed
  qed
qed


lemma spec_delete_sequential:
  "sequential b rows \<Longrightarrow> l \<le> r + 1 \<Longrightarrow>
   spec_delete l r rows = take (nat (l - b)) rows @ drop (nat (r + 1 - b)) rows"
proof (induction rows arbitrary: b)
  case Nil
  then show ?case by (simp add: spec_delete_def)
next
  case (Cons row rows)
  then have row: "py_get row 1 = Inr (PInt b)" and seq: "sequential (b + 1) rows" by auto
  have IH: "spec_delete l r rows = take (nat (l - (b + 1))) rows @ drop (nat (r + 1 - (b + 1))) rows"
    using Cons.IH [OF seq Cons.prems(2)] .
  have step: "spec_delete l r (row # rows) =
              (if l \<le> b \<and> b \<le> r then [] else [row]) @ spec_delete l r rows"
    using row by (simp add: spec_delete_def ping_in_def)
  consider (before) "b < l" | (inside) "l \<le> b" "b \<le> r" | (after) "r < b" by linarith
  then show ?case
  proof cases
    case before
    then have "nat (l - b) = Suc (nat (l - (b + 1)))" and "nat (r + 1 - b) = Suc (nat (r + 1 - (b + 1)))"
      using Cons.prems(2) by auto
    with before step IH show ?thesis by simp
  next
    case inside
    then have "nat (l - b) = 0" and "nat (l - (b + 1)) = 0"
      and "nat (r + 1 - b) = Suc (nat (r + 1 - (b + 1)))" by auto
    with inside step IH show ?thesis by simp
  next
    case after
    then have "nat (l - b) = 0" and "nat (l - (b + 1)) = 0" and "nat (r + 1 - b) = 0"
      and "nat (r + 1 - (b + 1)) = 0" using Cons.prems(2) by auto
    with after step IH show ?thesis by simp
  qed
qed


lemma py_slice_prefix: "0 \<le> i \<Longrightarrow> py_slice xs 0 i = take (nat i) xs"
  by (simp add: py_slice_def slice_index_def min_def)

lemma py_slice_to_last: "i \<le> length xs \<Longrightarrow> py_slice xs (int i) (-1) = drop i (butlast xs)"
proof -
  assume i: "i \<le> length xs"
  have n: "slice_index (length xs) (-1) = length xs - 1" by (auto simp: slice_index_def)
  have "slice_index (length xs) (int i) = i" using i by (simp add: slice_index_def)
  then have "py_slice xs (int i) (-1) = take (length xs - 1 - i) (drop i xs)"
    by (simp add: py_slice_def n)
  also have "\<dots> = drop i (take (length xs - 1) xs)"
  proof (cases "i \<le> length xs - 1")
    case True
    then have "length xs - 1 - i + i = length xs - 1" by arith
    then show ?thesis by (simp add: take_drop)
  next
    case False
    then show ?thesis by simp
  qed
  finally show ?thesis by (simp add: butlast_conv_take)
qed


lemma py_get_upt:
  assumes "a < m"
  shows "py_get [a..<m] 0 = Inr a" and "py_get [a..<m] (-1) = Inr (m - 1)"
proof -
  show "py_get [a..<m] 0 = Inr a" using assms by (simp add: upt_conv_Cons del: py_get_neg_numeral)
  show "py_get [a..<m] (-1) = Inr (m - 1)"
    using assms py_get_minus_one [of "[a..<m]"] by (simp del: py_get_neg_numeral)
qed


lemma delete_soundings_sequential:
  assumes "sequential b rows" "a = nat (l - b)" "m = min (length rows) (nat (rd - b))"
  shows "delete_soundings rows l rd =
           (if a < m then Inr (take a rows @ drop (m - 1) (butlast rows)) else Inl IndexError)"
proof -
  have bad: "bad_loop [l..rd - 1] rows 0 = Inr [a ..< m]"
    using bad_loop_sequential [OF assms(1), of l "rd - 1" 0] assms(2,3) by simp
  show ?thesis
  proof (cases "a < m")
    case True
    then have "py_get [a..<m] 0 = Inr a" and "py_get [a..<m] (-1) = Inr (m - 1)"
      using py_get_upt [OF True] by auto
    moreover have "py_slice rows 0 (int a) = take a rows" using py_slice_prefix [of "int a" rows] by simp
    moreover have "py_slice rows (int (m - 1)) (-1) = drop (m - 1) (butlast rows)"
      using True assms(3) by (intro py_slice_to_last) auto
    ultimately show ?thesis
      using True by (simp add: delete_soundings_def bad Let_def del: py_get_zero py_get_neg_numeral)
  next
    case False
    then show ?thesis by (simp add: delete_soundings_def bad Let_def)
  qed
qed

lemma parse_int_keywords: "parse_int ''min'' = None" "parse_int ''max'' = None"
  by code_simp+

lemma zoom_extent_int: "zoom_extent (int_str k) kw pick ping = Inr (PInt k)"
  by (simp add: zoom_extent_def int_str_parse)

lemma py_slice_nonneg:
  "0 \<le> i \<Longrightarrow> i \<le> j \<Longrightarrow> py_slice xs i j = drop (nat i) (take (nat j) xs)"
  by (auto simp: py_slice_def slice_index_def take_drop min_def)

lemma py_slice_empty: "0 \<le> j \<Longrightarrow> j \<le> i \<Longrightarrow> py_slice xs i j = []"
  by (auto simp: py_slice_def slice_index_def min_def)

lemma py_min_from_least: "\<forall>k\<in>set ks. a \<le> k \<Longrightarrow> py_min_from (PInt a) (map PInt ks) = Inr (PInt a)"
  by (induction ks) auto

lemma py_max_from_sorted:
  "sorted (a # ks) \<Longrightarrow> py_max_from (PInt a) (map PInt ks) = Inr (PInt (last (a # ks)))"
  by (induction ks arbitrary: a) auto

lemma py_min_max_upto:
  assumes "b \<le> e"
  shows "py_min (map PInt [b..e]) = Inr (PInt b)" and "py_max (map PInt [b..e]) = Inr (PInt e)"
proof -
  have u: "[b..e] = b # [b + 1..e]" using assms by (rule upto_rec1)
  show "py_min (map PInt [b..e]) = Inr (PInt b)" by (simp add: u py_min_def py_min_from_least)
  have "last [b..e] = e" using upto_rec2 [OF assms] by simp
  moreover have "sorted (b # [b + 1..e])" using sorted_upto [of b e] u by simp
  ultimately show "py_max (map PInt [b..e]) = Inr (PInt e)" by (simp add: u py_max_def py_max_from_sorted)
qed

lemma zoom_keeps:
  "zoom st l r = Inr st1 \<Longrightarrow>
   ed_soundings st1 = ed_soundings st \<and> ed_new st1 = ed_new st \<and> ed_items st1 = ed_items st \<and>
   ed_saved st1 = ed_saved st"
  by (auto simp: zoom_def rbind_eq_Inr Let_def)

lemma zoom_inv: "zoom st l r = Inr st1 \<Longrightarrow> ed_inv st1 = ed_inv st"
  by (simp add: ed_inv_def zoom_keeps)

lemma ed_inv_saved [simp]: "ed_inv (st\<lparr>ed_saved := fs\<rparr>) = ed_inv st"
  by (simp add: ed_inv_def)

lemma delete_step_inv: "delete_step st inp = Inr (st', rest) \<Longrightarrow> ed_inv st'"
  by (auto simp: delete_step_def rbind_eq_Inr Let_def ed_inv_def)

lemma editor_select_inv:
  "ed_inv st \<Longrightarrow> editor_select st sel inp = Inr (st', go, rest) \<Longrightarrow> ed_inv st'"
  unfolding editor_select_def
  by (auto simp: rbind_eq_Inr split: if_splits dest: delete_step_inv)

section \<open>Properties of the editor\<close>

text \<open>C31: Refinement of the spec's deletion. On a log whose pings are the consecutive integers from b, deleting the closed range [l, r] (the source adds 2 to the typed right ping) removes exactly the soundings the spec's filter removes, and in addition the last row of the log whenever the range ends before the last ping (the slice bad_pings[-1]:-1).\<close>

theorem delete_soundings_refines:
  assumes "sequential b rows" "b \<le> l" "l \<le> r" "l < b + int (length rows)"
  shows "delete_soundings rows l (r + 2) =
           Inr (if r + 2 \<le> b + int (length rows) then butlast (spec_delete l r rows)
                else spec_delete l r rows)"
proof -
  define a where "a = nat (l - b)"
  define m where "m = min (length rows) (nat (r + 2 - b))"
  have del: "delete_soundings rows l (r + 2) =
               (if a < m then Inr (take a rows @ drop (m - 1) (butlast rows)) else Inl IndexError)"
    using delete_soundings_sequential [OF assms(1) a_def m_def] .
  have spec: "spec_delete l r rows = take a rows @ drop (nat (r + 1 - b)) rows"
    using spec_delete_sequential [OF assms(1)] assms(3) by (simp add: a_def)
  show ?thesis
  proof (cases "r + 2 \<le> b + int (length rows)")
    case True
    then have m: "m = Suc (nat (r + 1 - b))" and c: "nat (r + 1 - b) < length rows"
      and a: "a < m" using assms(2,3) by (auto simp: m_def a_def)
    have "drop (nat (r + 1 - b)) rows \<noteq> []" using c by simp
    then have "butlast (spec_delete l r rows) = take a rows @ drop (nat (r + 1 - b)) (butlast rows)"
      by (simp add: spec butlast_append butlast_drop)
    with True a show ?thesis by (simp add: del m)
  next
    case False
    then have m: "m = length rows" and a: "a < m" and c: "length rows \<le> nat (r + 1 - b)"
      using assms(2,4) by (auto simp: m_def a_def)
    have "drop (m - 1) (butlast rows) = []" by (simp add: m)
    with False show ?thesis by (simp add: del a spec c)
  qed
qed

theorem delete_soundings_refines_witness:
  "sequential 1 [[PInt 0, PInt 1], [PInt 0, PInt 2], [PInt 0, PInt 3], [PInt 0, PInt 4]] \<and> (1::int) \<le> 2 \<and> (2::int) \<le> 2 \<and>
   (2::int) < 1 + int (length [[PInt 0, PInt 1], [PInt 0, PInt 2], [PInt 0, PInt 3], [PInt 0, PInt 4]]) \<and>
   delete_soundings [[PInt 0, PInt 1], [PInt 0, PInt 2], [PInt 0, PInt 3], [PInt 0, PInt 4]] 2 (2 + 2) = Inr [[PInt 0, PInt 1], [PInt 0, PInt 3]]"
  using delete_soundings_refines [of 1 "[[PInt 0, PInt 1], [PInt 0, PInt 2], [PInt 0, PInt 3], [PInt 0, PInt 4]]" 2 2] by (simp add: spec_delete_def ping_in_def)

text \<open>C32: A deletion range that starts after the last ping of the log matches no row, and the deletion raises IndexError on bad_pings[0] instead of leaving the data unchanged.\<close>

theorem delete_soundings_past_end:
  assumes "sequential b rows" "b + int (length rows) \<le> l"
  shows "delete_soundings rows l (r + 2) = Inl IndexError"
proof -
  have "\<not> nat (l - b) < min (length rows) (nat (r + 2 - b))" using assms(2) by auto
  then show ?thesis using delete_soundings_sequential [OF assms(1) refl refl] by simp
qed

theorem delete_soundings_past_end_witness:
  "sequential 1 [[PInt 0, PInt 1], [PInt 0, PInt 2], [PInt 0, PInt 3], [PInt 0, PInt 4]] \<and> 1 + int (length [[PInt 0, PInt 1], [PInt 0, PInt 2], [PInt 0, PInt 3], [PInt 0, PInt 4]]) \<le> 7 \<and>
   delete_soundings [[PInt 0, PInt 1], [PInt 0, PInt 2], [PInt 0, PInt 3], [PInt 0, PInt 4]] 7 (9 + 2) = Inl IndexError"
  using delete_soundings_past_end [of 1 "[[PInt 0, PInt 1], [PInt 0, PInt 2], [PInt 0, PInt 3], [PInt 0, PInt 4]]" 7 9] by simp

text \<open>C33: The zoom extents min and max are the first and last ping, but the depth range is taken from new_depth[left:right], which indexes the depth list by ping number: for pings b .. b+n-1 it covers positions b to b+n-2, so the last sounding (and, when pings do not start at 0, the first b) never count.\<close>

theorem zoom_min_max_by_index:
  assumes "it_ping (ed_items st) = map PInt [b..b + int n - 1]" "0 < n" "0 \<le> b"
  shows "zoom st ''min'' ''max'' =
           (let w = drop (nat b) (take (nat b + n - 1) (it_new_depth (ed_items st))) in
            rbind (py_min w) (\<lambda>y_min. rbind (py_max w) (\<lambda>y_max.
              Inr (st\<lparr>ed_left := PInt b, ed_right := PInt (b + int n - 1),
                      ed_ymin := y_min, ed_ymax := y_max\<rparr>))))"
proof -
  have be: "b \<le> b + int n - 1" using assms(2) by simp
  have w: "py_slice (it_new_depth (ed_items st)) b (b + int n - 1) =
           drop (nat b) (take (nat b + n - 1) (it_new_depth (ed_items st)))"
    using assms(3) be by (simp add: py_slice_nonneg nat_add_distrib nat_diff_distrib)
  show ?thesis
    by (simp add: zoom_def zoom_extent_def parse_int_keywords assms(1) py_min_max_upto [OF be] w Let_def)
qed

theorem zoom_min_max_by_index_witness:
  "it_ping (ed_items (projr (editor_init [[PInt 0, PInt 0, PFloat 5, PFloat 1500, PFloat 5, PFloat 1500], [PInt 0, PInt 1, PFloat 6, PFloat 1500, PFloat 6, PFloat 1500], [PInt 0, PInt 2, PFloat 9, PFloat 1500, PFloat 9, PFloat 1500]]))) = map PInt [0..0 + int 3 - 1] \<and> 0 < (3::nat) \<and> 0 \<le> (0::int) \<and>
   zoom (projr (editor_init [[PInt 0, PInt 0, PFloat 5, PFloat 1500, PFloat 5, PFloat 1500], [PInt 0, PInt 1, PFloat 6, PFloat 1500, PFloat 6, PFloat 1500], [PInt 0, PInt 2, PFloat 9, PFloat 1500, PFloat 9, PFloat 1500]])) ''min'' ''max'' =
     Inr ((projr (editor_init [[PInt 0, PInt 0, PFloat 5, PFloat 1500, PFloat 5, PFloat 1500], [PInt 0, PInt 1, PFloat 6, PFloat 1500, PFloat 6, PFloat 1500], [PInt 0, PInt 2, PFloat 9, PFloat 1500, PFloat 9, PFloat 1500]]))\<lparr>ed_left := PInt 0, ed_right := PInt 2, ed_ymin := PFloat 5, ed_ymax := PFloat 6\<rparr>)"
proof -
  have h: "it_ping (ed_items (projr (editor_init [[PInt 0, PInt 0, PFloat 5, PFloat 1500, PFloat 5, PFloat 1500], [PInt 0, PInt 1, PFloat 6, PFloat 1500, PFloat 6, PFloat 1500], [PInt 0, PInt 2, PFloat 9, PFloat 1500, PFloat 9, PFloat 1500]]))) = map PInt [0..0 + int 3 - 1]" by code_simp
  have "zoom (projr (editor_init [[PInt 0, PInt 0, PFloat 5, PFloat 1500, PFloat 5, PFloat 1500], [PInt 0, PInt 1, PFloat 6, PFloat 1500, PFloat 6, PFloat 1500], [PInt 0, PInt 2, PFloat 9, PFloat 1500, PFloat 9, PFloat 1500]])) ''min'' ''max'' =
          (let w = drop (nat 0) (take (nat 0 + 3 - 1) (it_new_depth (ed_items (projr (editor_init [[PInt 0, PInt 0, PFloat 5, PFloat 1500, PFloat 5, PFloat 1500], [PInt 0, PInt 1, PFloat 6, PFloat 1500, PFloat 6, PFloat 1500], [PInt 0, PInt 2, PFloat 9, PFloat 1500, PFloat 9, PFloat 1500]]))))) in
           rbind (py_min w) (\<lambda>y_min. rbind (py_max w) (\<lambda>y_max.
             Inr ((projr (editor_init [[PInt 0, PInt 0, PFloat 5, PFloat 1500, PFloat 5, PFloat 1500], [PInt 0, PInt 1, PFloat 6, PFloat 1500, PFloat 6, PFloat 1500], [PInt 0, PInt 2, PFloat 9, PFloat 1500, PFloat 9, PFloat 1500]]))\<lparr>ed_left := PInt 0, ed_right := PInt (0 + int 3 - 1),
                      ed_ymin := y_min, ed_ymax := y_max\<rparr>))))"
    using zoom_min_max_by_index [OF h] by simp
  also have "\<dots> = Inr ((projr (editor_init [[PInt 0, PInt 0, PFloat 5, PFloat 1500, PFloat 5, PFloat 1500], [PInt 0, PInt 1, PFloat 6, PFloat 1500, PFloat 6, PFloat 1500], [PInt 0, PInt 2, PFloat 9, PFloat 1500, PFloat 9, PFloat 1500]]))\<lparr>ed_left := PInt 0, ed_right := PInt 2, ed_ymin := PFloat 5, ed_ymax := PFloat 6\<rparr>)"
    by code_simp
  finally have z: "zoom (projr (editor_init [[PInt 0, PInt 0, PFloat 5, PFloat 1500, PFloat 5, PFloat 1500], [PInt 0, PInt 1, PFloat 6, PFloat 1500, PFloat 6, PFloat 1500], [PInt 0, PInt 2, PFloat 9, PFloat 1500, PFloat 9, PFloat 1500]])) ''min'' ''max'' =
     Inr ((projr (editor_init [[PInt 0, PInt 0, PFloat 5, PFloat 1500, PFloat 5, PFloat 1500], [PInt 0, PInt 1, PFloat 6, PFloat 1500, PFloat 6, PFloat 1500], [PInt 0, PInt 2, PFloat 9, PFloat 1500, PFloat 9, PFloat 1500]]))\<lparr>ed_left := PInt 0, ed_right := PInt 2, ed_ymin := PFloat 5, ed_ymax := PFloat 6\<rparr>)" .
  show ?thesis using h z by auto
qed

text \<open>Zooming to a window whose right extent is not greater than its left one (both non-negative integers) raises ValueError from min of an empty slice, which ends the editor.\<close>

theorem zoom_empty_window:
  "0 \<le> j \<Longrightarrow> j \<le> i \<Longrightarrow> zoom st (int_str i) (int_str j) = Inl ValueError"
  by (simp add: zoom_def zoom_extent_int py_slice_empty py_min_def)

theorem zoom_empty_window_witness:
  "0 \<le> (3::int) \<and> (3::int) \<le> 5 \<and> zoom (projr (editor_init [[PInt 0, PInt 0, PFloat 5, PFloat 1500, PFloat 5, PFloat 1500], [PInt 0, PInt 1, PFloat 6, PFloat 1500, PFloat 6, PFloat 1500], [PInt 0, PInt 2, PFloat 9, PFloat 1500, PFloat 9, PFloat 1500]])) (int_str 5) (int_str 3) = Inl ValueError"
  using zoom_empty_window [of 3 5 "projr (editor_init [[PInt 0, PInt 0, PFloat 5, PFloat 1500, PFloat 5, PFloat 1500], [PInt 0, PInt 1, PFloat 6, PFloat 1500, PFloat 6, PFloat 1500], [PInt 0, PInt 2, PFloat 9, PFloat 1500, PFloat 9, PFloat 1500]])"] by simp

text \<open>C35: Every state the editor loop reaches satisfies the editor invariant: the object's soundings are the working set new_soundings, and the ping and depth columns are those pull_items takes from them.\<close>

theorem editor_loop_inv:
  "ed_inv st \<Longrightarrow> editor_loop st inp = (st', outcome) \<Longrightarrow> ed_inv st'"
proof (induction st inp rule: editor_loop.induct)
  case (1 st inp)
  show ?case
  proof (cases "editor_step st inp")
    case (Inl e)
    with "1.prems" show ?thesis by (simp add: editor_loop.simps [of st inp])
  next
    case (Inr s)
    obtain st1 go rest where s: "s = (st1, go, rest)" by (cases s) auto
    have "ed_inv st1"
      using Inr s "1.prems"(1) unfolding editor_step_def
      by (auto simp: rbind_eq_Inr dest: zoom_inv editor_select_inv)
    with Inr s "1.prems"(2) "1.IH" [OF Inr s [symmetric] refl] show ?thesis
      by (auto simp: editor_loop.simps [of st inp] split: if_splits)
  qed
qed

theorem editor_loop_inv_witness:
  "ed_inv (projr (editor_init [[PInt 0, PInt 0, PFloat 5, PFloat 1500, PFloat 5, PFloat 1500], [PInt 0, PInt 1, PFloat 6, PFloat 1500, PFloat 6, PFloat 1500], [PInt 0, PInt 2, PFloat 9, PFloat 1500, PFloat 9, PFloat 1500]])) \<and> ed_inv (fst (editor_loop (projr (editor_init [[PInt 0, PInt 0, PFloat 5, PFloat 1500, PFloat 5, PFloat 1500], [PInt 0, PInt 1, PFloat 6, PFloat 1500, PFloat 6, PFloat 1500], [PInt 0, PInt 2, PFloat 9, PFloat 1500, PFloat 9, PFloat 1500]])) [''0'', ''2'', ''exit'']))"
proof -
  have "ed_inv (projr (editor_init [[PInt 0, PInt 0, PFloat 5, PFloat 1500, PFloat 5, PFloat 1500], [PInt 0, PInt 1, PFloat 6, PFloat 1500, PFloat 6, PFloat 1500], [PInt 0, PInt 2, PFloat 9, PFloat 1500, PFloat 9, PFloat 1500]]))" by (simp add: editor_init_def plot_data_def py_min_def py_max_def ed_inv_def)
  then show ?thesis
    using editor_loop_inv [of "projr (editor_init [[PInt 0, PInt 0, PFloat 5, PFloat 1500, PFloat 5, PFloat 1500], [PInt 0, PInt 1, PFloat 6, PFloat 1500, PFloat 6, PFloat 1500], [PInt 0, PInt 2, PFloat 9, PFloat 1500, PFloat 9, PFloat 1500]])" "[''0'', ''2'', ''exit'']"] by (metis prod.collapse)
qed

text \<open>C36: In the deletion branch a ping the operator types that is not an integer raises ValueError from int(), and the whole editor session ends with it, keeping nothing of the unsaved edits.\<close>

theorem editor_loop_bad_ping:
  assumes "zoom st l r = Inr st1" "plot_data st1 = Inr ()" "parse_int a = None"
  shows "editor_loop st (l # r # ''yes'' # a # rest) = (st, Some ValueError)"
  using assms
  by (simp add: editor_loop.simps [of st] editor_step_def editor_select_def delete_step_def py_input_def)

theorem editor_loop_bad_ping_witness:
  "editor_loop (projr (editor_init [[PInt 0, PInt 0, PFloat 5, PFloat 1500, PFloat 5, PFloat 1500], [PInt 0, PInt 1, PFloat 6, PFloat 1500, PFloat 6, PFloat 1500], [PInt 0, PInt 2, PFloat 9, PFloat 1500, PFloat 9, PFloat 1500]])) [''0'', ''2'', ''yes'', ''two'', ''5''] = (projr (editor_init [[PInt 0, PInt 0, PFloat 5, PFloat 1500, PFloat 5, PFloat 1500], [PInt 0, PInt 1, PFloat 6, PFloat 1500, PFloat 6, PFloat 1500], [PInt 0, PInt 2, PFloat 9, PFloat 1500, PFloat 9, PFloat 1500]]), Some ValueError)"
proof -
  have z: "zoom (projr (editor_init [[PInt 0, PInt 0, PFloat 5, PFloat 1500, PFloat 5, PFloat 1500], [PInt 0, PInt 1, PFloat 6, PFloat 1500, PFloat 6, PFloat 1500], [PInt 0, PInt 2, PFloat 9, PFloat 1500, PFloat 9, PFloat 1500]])) ''0'' ''2'' = Inr (projr (zoom (projr (editor_init [[PInt 0, PInt 0, PFloat 5, PFloat 1500, PFloat 5, PFloat 1500], [PInt 0, PInt 1, PFloat 6, PFloat 1500, PFloat 6, PFloat 1500], [PInt 0, PInt 2, PFloat 9, PFloat 1500, PFloat 9, PFloat 1500]])) ''0'' ''2''))"
    and p: "plot_data (projr (zoom (projr (editor_init [[PInt 0, PInt 0, PFloat 5, PFloat 1500, PFloat 5, PFloat 1500], [PInt 0, PInt 1, PFloat 6, PFloat 1500, PFloat 6, PFloat 1500], [PInt 0, PInt 2, PFloat 9, PFloat 1500, PFloat 9, PFloat 1500]])) ''0'' ''2'')) = Inr ()"
    and n: "parse_int ''two'' = None" by code_simp+
  show ?thesis using editor_loop_bad_ping [OF z p n] .
qed

end
