(* ===== verification/Sound_Speed_Profile.thy ===== *)
theory Sound_Speed_Profile
  imports OSP_Prelude
begin

text \<open>
  The sound-speed-profile engine, class \<^verbatim>\<open>Profile\<close> of \<^verbatim>\<open>osplib.py\<close>
  (\<^verbatim>\<open>calculate_harmonic_mean\<close>, \<^verbatim>\<open>correct_soundspeed\<close>, \<^verbatim>\<open>correct_soundings\<close>).
  The object's state is the record \<open>profile\<close>. The harmonic-mean loop is
  \<open>harmonic_mean_loop\<close>, one equation per iteration of the \<^verbatim>\<open>while\<close>; its errors are the
  Python exceptions of its divisions, and \<open>NonFinite\<close> where \<^verbatim>\<open>np.log\<close> or the numpy
  division would produce \<^verbatim>\<open>nan\<close>/\<^verbatim>\<open>inf\<close>. The lemmas give the closed form of every
  harmonic mean (depth over cumulative travel time), that a well-formed profile never
  raises, that every harmonic mean lies between the extreme speeds of the profile, and
  that the first layer raises whenever the surface speed is already rounded to 0.1 m/s.
\<close>

section \<open>State\<close>

record profile =
  depths_list :: "real list"
  speeds_list :: "real list"
  harmonic_mean_list :: "real list"

section \<open>Harmonic mean sound speed\<close>

text \<open>
  One iteration of the \<^verbatim>\<open>while count <= len(depths_list)-1\<close> loop per list element:
  \<open>ld\<close>, \<open>ls\<close> are \<^verbatim>\<open>last_depth\<close>, \<^verbatim>\<open>last_speed\<close>; \<open>tsum\<close>, \<open>dsum\<close> are \<^verbatim>\<open>time_sum\<close>,
  \<^verbatim>\<open>delta_depth_sum\<close>. The divisions \<^verbatim>\<open>delta_speed/delta_depth\<close>, \<^verbatim>\<open>1/g\<close> and
  \<^verbatim>\<open>speeds_list[count]/last_speed\<close> are on Python floats and raise on a zero divisor;
  \<^verbatim>\<open>np.log\<close> of a non-positive ratio and the division by a zero \<^verbatim>\<open>time_sum\<close> (a numpy
  float) produce a non-finite value.
\<close>

fun harmonic_mean_loop ::
  "real list \<Rightarrow> real list \<Rightarrow> real \<Rightarrow> real \<Rightarrow> real \<Rightarrow> real \<Rightarrow> real list res" where
  "harmonic_mean_loop [] ss ld ls tsum dsum = Inr []"
| "harmonic_mean_loop (d # ds) [] ld ls tsum dsum = Inl IndexError"
| "harmonic_mean_loop (d # ds) (s # ss) ld ls tsum dsum =
     (let delta_speed = s - ls; delta_depth = d - ld in
      if delta_depth = 0 then Inl ZeroDivisionError else
      let g = delta_speed / delta_depth in
      if g = 0 then Inl ZeroDivisionError else
      if ls = 0 then Inl ZeroDivisionError else
      if s / ls \<le> 0 then Inl NonFinite else
      let time = (1 / g) * ln (s / ls);
          tsum' = tsum + time;
          dsum' = dsum + delta_depth in
      if tsum' = 0 then Inl NonFinite else
      (case harmonic_mean_loop ds ss d s tsum' dsum' of
         Inl e \<Rightarrow> Inl e
       | Inr hs \<Rightarrow> Inr (dsum' / tsum' # hs)))"

text \<open>
  \<^verbatim>\<open>calculate_harmonic_mean\<close>: the surface seed is \<^verbatim>\<open>round(speeds_list[0], 1)\<close> at
  depth 0; the list is stored in the object and returned.
\<close>

definition calculate_harmonic_mean :: "profile \<Rightarrow> profile res" where
  "calculate_harmonic_mean p =
     rbind (py_get (speeds_list p) 0) (\<lambda>s0.
       rbind (harmonic_mean_loop (depths_list p) (speeds_list p) 0 (round_nd 1 s0) 0 0) (\<lambda>hms.
         Inr (p\<lparr>harmonic_mean_list := hms\<rparr>)))"

section \<open>Reference: layers and travel times\<close>

text \<open>
  The layers the loop walks through: from \<open>(ld, ls)\<close> to each sample \<open>(d, s)\<close> in turn.
  A layer of constant gradient from speed \<open>a\<close> to speed \<open>b\<close> over the depth interval
  \<open>h\<close> is crossed in time \<open>h \<cdot> ln (b/a) / (b - a)\<close>.
\<close>

fun profile_layers :: "real \<Rightarrow> real \<Rightarrow> real list \<Rightarrow> real list \<Rightarrow> (real \<times> real \<times> real \<times> real) list" where
  "profile_layers ld ls (d # ds) (s # ss) = (ld, ls, d, s) # profile_layers d s ds ss"
| "profile_layers ld ls _ _ = []"

fun layer_time :: "real \<times> real \<times> real \<times> real \<Rightarrow> real" where
  "layer_time (ld, ls, d, s) = (d - ld) / (s - ls) * ln (s / ls)"

definition layers_time :: "(real \<times> real \<times> real \<times> real) list \<Rightarrow> nat \<Rightarrow> real" where
  "layers_time L i = sum_list (map layer_time (take (Suc i) L))"

text \<open>A profile on which the loop cannot fail: depths strictly increasing from the surface,
  speeds positive, consecutive speeds (seed included) distinct.\<close>

definition wf_profile :: "real \<Rightarrow> real \<Rightarrow> real list \<Rightarrow> real list \<Rightarrow> bool" where
  "wf_profile ld ls ds ss \<longleftrightarrow>
     length ss = length ds \<and> sorted_wrt (<) (ld # ds) \<and> 0 < ls \<and> (\<forall>s \<in> set ss. 0 < s)
     \<and> successively (\<noteq>) (ls # ss)"

fun layer_depth :: "real \<times> real \<times> real \<times> real \<Rightarrow> real" where
  "layer_depth (ld, ls, d, s) = d - ld"

section \<open>Depth correction\<close>

text \<open>
  \<^verbatim>\<open>np.interp(x, [x0, x1], [y0, y1])\<close>, following numpy's C implementation for a
  two-point table: \<^verbatim>\<open>binary_search_with_guess\<close> answers \<open>len\<close> above the last
  abscissa and \<open>-1\<close> below the first, then scans linearly; the result is the right
  value, the left value, the value at an exact hit, or the slope formula. The abscissae
  are not required to increase, and \<^verbatim>\<open>correct_soundspeed\<close> does pass a decreasing pair.
\<close>

definition np_interp2 :: "real \<Rightarrow> real \<times> real \<Rightarrow> real \<times> real \<Rightarrow> real" where
  "np_interp2 x xp fp =
     (let (x0, x1) = xp; (y0, y1) = fp in
      if x1 < x then y1
      else if x < x0 then y0
      else if x1 \<le> x then y1
      else if x0 = x then y0
      else (y1 - y0) / (x1 - x0) * (x - x0) + y0)"

text \<open>
  \<^verbatim>\<open>correct_soundspeed(original_depth, original_soundspeed)\<close>: the travel time is
  \<^verbatim>\<open>original_depth/original_soundspeed\<close>; the \<^verbatim>\<open>for\<close> loop finds the first profile
  depth greater than the raw depth (\<open>find\<close>), its index is taken with \<^verbatim>\<open>list.index\<close>
  and the previous index is that minus one, which is \<open>-1\<close> (the last element) when the
  first profile depth already exceeds the raw depth. Without a match the last harmonic
  mean is used; with an empty profile \<^verbatim>\<open>interpolate\<close> is never bound.
\<close>

definition correct_soundspeed :: "profile \<Rightarrow> pyval \<Rightarrow> pyval \<Rightarrow> (real \<times> real) res" where
  "correct_soundspeed p original_depth original_soundspeed =
     rbind (py_div original_depth original_soundspeed) (\<lambda>tt.
     rbind (py_num tt) (\<lambda>travel_time.
     rbind (py_num original_depth) (\<lambda>d.
     let ds = depths_list p; hms = harmonic_mean_list p in
     (case find (\<lambda>item. d < item) ds of
        None \<Rightarrow>
          if ds = [] then Inl UnboundLocalError
          else rbind (py_get hms (-1)) (\<lambda>v. Inr (v * travel_time, v))
      | Some item \<Rightarrow>
          rbind (py_index ds item) (\<lambda>next_i. let prev_i = next_i - 1 in
          rbind (py_get ds prev_i) (\<lambda>x0. rbind (py_get ds next_i) (\<lambda>x1.
          rbind (py_get hms prev_i) (\<lambda>y0. rbind (py_get hms next_i) (\<lambda>y1.
          let v = np_interp2 d (x0, x1) (y0, y1) in Inr (v * travel_time, v))))))))))"

text \<open>
  One iteration of \<^verbatim>\<open>correct_soundings\<close>: the raw depth is \<^verbatim>\<open>row[-3]\<close>, the sound
  speed \<^verbatim>\<open>row[-1]\<close>; three fields are appended, the rounded new depth, the bottom
  height \<^verbatim>\<open>row[-3]\<close> (read after the first append) shifted by the depth change, and the
  rounded new sound speed. The lists of old and new values the loop also fills are never
  read.
\<close>

definition correct_row :: "profile \<Rightarrow> pyval list \<Rightarrow> pyval list res" where
  "correct_row p row =
     rbind (py_get row (-3)) (\<lambda>o_depth. rbind (py_get row (-1)) (\<lambda>o_speed.
     rbind (correct_soundspeed p o_depth o_speed) (\<lambda>(n_depth, n_speed).
     rbind (py_num o_depth) (\<lambda>od.
     let diff = n_depth - od; row1 = row @ [PFloat (round_nd 3 n_depth)] in
     rbind (py_get row1 (-3)) (\<lambda>b. rbind (py_add b (PFloat diff)) (\<lambda>bd.
     rbind (py_round 3 bd) (\<lambda>bottom.
     Inr (row1 @ [bottom, PFloat (round_nd 3 n_speed)]))))))))"

fun correct_soundings :: "profile \<Rightarrow> pyval list list \<Rightarrow> pyval list list res" where
  "correct_soundings p [] = Inr []"
| "correct_soundings p (row # rows) =
     rbind (correct_row p row) (\<lambda>row'.
     rbind (correct_soundings p rows) (\<lambda>rows'. Inr (row' # rows')))"

section \<open>Helper lemmas\<close>

lemma layers_time_Cons_Suc:
  "layers_time (l # L) (Suc i) = layer_time l + layers_time L i"
  by (simp add: layers_time_def)

lemma layers_time_Cons_0: "layers_time (l # L) 0 = layer_time l"
  by (simp add: layers_time_def)

lemma harmonic_mean_loop_Inr:
  "harmonic_mean_loop ds ss ld ls tsum dsum = Inr hms \<Longrightarrow>
   length hms = length ds \<and> length ds \<le> length ss \<and>
   (\<forall>i < length ds. hms ! i =
      (dsum + (ds ! i - ld)) / (tsum + layers_time (profile_layers ld ls ds ss) i))"
proof (induction ds arbitrary: ss ld ls tsum dsum hms)
  case Nil
  then show ?case by simp
next
  case (Cons d ds)
  then obtain s ss' where ss: "ss = s # ss'" by (cases ss) auto
  let ?t = "(1 / ((s - ls) / (d - ld))) * ln (s / ls)"
  from Cons.prems ss obtain hs where
      rec: "harmonic_mean_loop ds ss' d s (tsum + ?t) (dsum + (d - ld)) = Inr hs"
    and hms: "hms = (dsum + (d - ld)) / (tsum + ?t) # hs"
    by (auto simp: Let_def split: if_splits sum.splits)
  from Cons.IH [OF rec] have IH:
    "length hs = length ds" "length ds \<le> length ss'"
    "\<forall>i < length ds. hs ! i = (dsum + (d - ld) + (ds ! i - d)) /
        (tsum + ?t + layers_time (profile_layers d s ds ss') i)"
    by auto
  have t: "layer_time (ld, ls, d, s) = ?t" by simp
  show ?case
  proof (intro conjI allI impI)
    fix i assume i: "i < length (d # ds)"
    show "hms ! i = (dsum + ((d # ds) ! i - ld)) / (tsum + layers_time (profile_layers ld ls (d # ds) ss) i)"
    proof (cases i)
      case 0
      then show ?thesis using hms ss t by (simp add: layers_time_Cons_0)
    next
      case (Suc j)
      with i IH(3) have "hs ! j = (dsum + (d - ld) + (ds ! j - d)) /
        (tsum + ?t + layers_time (profile_layers d s ds ss') j)" by simp
      then show ?thesis using hms ss t Suc by (simp add: layers_time_Cons_Suc algebra_simps)
    qed
  qed (use hms IH ss in auto)
qed

lemma ln_ratio_bounds:
  fixes a b :: real
  assumes "0 < a" "0 < b" "a \<noteq> b"
  shows "1 / max a b < ln (b / a) / (b - a) \<and> ln (b / a) / (b - a) < 1 / min a b"
proof -
  have lb: "ln (b / a) = ln b - ln a" using assms by (simp add: ln_div)
  have u1: "ln b - ln a < (b - a) / a" using ln_diff_less [of b a] assms by simp
  have u2: "ln a - ln b < (a - b) / b" using ln_diff_less [of a b] assms by simp
  show ?thesis
  proof (cases "a < b")
    case True
    then have d: "0 < b - a" by simp
    from u1 d have "(ln b - ln a) / (b - a) < 1 / a"
      using assms by (simp add: divide_less_eq field_simps)
    moreover from u2 d have "1 / b < (ln b - ln a) / (b - a)"
      using assms by (simp add: less_divide_eq field_simps)
    ultimately show ?thesis using True lb assms by (simp add: max_def min_def)
  next
    case False
    with assms have d: "0 < a - b" by simp
    have eq: "(ln b - ln a) / (b - a) = (ln a - ln b) / (a - b)"
      by (simp add: divide_simps) (simp add: algebra_simps)
    from u2 d have "(ln a - ln b) / (a - b) < 1 / b"
      using assms by (simp add: divide_less_eq field_simps)
    moreover from u1 d have "1 / a < (ln a - ln b) / (a - b)"
      using assms by (simp add: less_divide_eq field_simps)
    ultimately show ?thesis using False lb eq assms by (simp add: max_def min_def)
  qed
qed

lemma layer_time_bounds:
  assumes "ld < d" "0 < ls" "0 < s" "s \<noteq> ls"
  shows "(d - ld) / max s ls < layer_time (ld, ls, d, s)
         \<and> layer_time (ld, ls, d, s) < (d - ld) / min s ls"
proof -
  let ?q = "ln (s / ls) / (s - ls)"
  have lt: "layer_time (ld, ls, d, s) = (d - ld) * ?q" by simp
  from ln_ratio_bounds [of ls s] assms
  have q: "1 / max s ls < ?q" "?q < 1 / min s ls" by (auto simp: max.commute min.commute)
  have h: "0 < d - ld" using assms by simp
  have "(d - ld) * (1 / max s ls) < (d - ld) * ?q"
    using mult_strict_left_mono [OF q(1) h] .
  moreover have "(d - ld) * ?q < (d - ld) * (1 / min s ls)"
    using mult_strict_left_mono [OF q(2) h] .
  ultimately show ?thesis unfolding lt by simp
qed

lemma harmonic_mean_loop_wf:
  "wf_profile ld ls ds ss \<Longrightarrow> 0 \<le> tsum \<Longrightarrow> \<exists>hms. harmonic_mean_loop ds ss ld ls tsum dsum = Inr hms"
proof (induction ds arbitrary: ss ld ls tsum dsum)
  case Nil
  then show ?case by simp
next
  case (Cons d ds)
  then obtain s ss' where ss: "ss = s # ss'" by (cases ss) (auto simp: wf_profile_def)
  from Cons.prems ss have d: "ld < d" and ls: "0 < ls" and s: "0 < s" and ne: "ls \<noteq> s"
    and wf': "wf_profile d s ds ss'"
    by (auto simp: wf_profile_def)
  let ?t = "(1 / ((s - ls) / (d - ld))) * ln (s / ls)"
  have "?t = layer_time (ld, ls, d, s)" by simp
  with layer_time_bounds [of ld d ls s] d ls s ne have tpos: "0 < ?t"
    by (smt (verit) divide_pos_pos max_def)
  from Cons.IH [OF wf', of "tsum + ?t" "dsum + (d - ld)"] Cons.prems(2) tpos
  obtain hs where "harmonic_mean_loop ds ss' d s (tsum + ?t) (dsum + (d - ld)) = Inr hs" by auto
  moreover have sl: "\<not> s / ls \<le> 0" using s ls by (simp add: not_le)
  ultimately show ?case using d ls s ne tpos Cons.prems(2)
    by (simp add: ss Let_def sl del: divide_le_0_iff)
qed

lemma layer_depth_telescope:
  "i < length ds \<Longrightarrow> length ds \<le> length ss \<Longrightarrow>
   sum_list (map layer_depth (take (Suc i) (profile_layers ld ls ds ss))) = ds ! i - ld"
proof (induction ds arbitrary: ss ld ls i)
  case Nil then show ?case by simp
next
  case (Cons d ds)
  then obtain s ss' where ss: "ss = s # ss'" by (cases ss) auto
  show ?case
  proof (cases i)
    case 0 then show ?thesis using ss by simp
  next
    case (Suc j)
    with Cons.prems ss have "sum_list (map layer_depth (take (Suc j) (profile_layers d s ds ss'))) = ds ! j - d"
      by (intro Cons.IH) auto
    with Suc ss show ?thesis by simp
  qed
qed

lemma wf_profile_layers:
  "wf_profile ld ls ds ss \<Longrightarrow> (a, b, c, e) \<in> set (profile_layers ld ls ds ss) \<Longrightarrow>
   a < c \<and> b \<in> set (ls # ss) \<and> e \<in> set (ls # ss) \<and> 0 < b \<and> 0 < e \<and> b \<noteq> e"
proof (induction ds arbitrary: ss ld ls)
  case Nil then show ?case by simp
next
  case (Cons d ds)
  then obtain s ss' where ss: "ss = s # ss'" by (cases ss) (auto simp: wf_profile_def)
  from Cons.prems(1) ss have wf': "wf_profile d s ds ss'" by (auto simp: wf_profile_def)
  from Cons.prems ss show ?case
    using Cons.IH [OF wf'] by (auto simp: wf_profile_def)
qed

lemma sum_list_map_div:
  "sum_list (map (\<lambda>l. f l / c) xs) = sum_list (map f xs) / (c :: real)"
  by (induction xs) (simp_all add: add_divide_distrib)

lemma harmonic_mean_bounds_loop:
  assumes wf: "wf_profile 0 ls ds ss" and ok: "harmonic_mean_loop ds ss 0 ls 0 0 = Inr hms"
    and bnd: "\<forall>v \<in> set (ls # ss). lo \<le> v \<and> v \<le> hi" and lo: "0 < lo"
    and i: "i < length ds"
  shows "lo \<le> hms ! i \<and> hms ! i \<le> hi"
proof -
  let ?L = "take (Suc i) (profile_layers 0 ls ds ss)"
  have len: "length ss = length ds" using wf by (simp add: wf_profile_def)
  have hm: "hms ! i = ds ! i / layers_time (profile_layers 0 ls ds ss) i"
    using harmonic_mean_loop_Inr [OF ok] i by simp
  have D: "sum_list (map layer_depth ?L) = ds ! i"
    using layer_depth_telescope [of i ds ss 0 ls] i len by simp
  have dpos: "0 < ds ! i" using wf i by (auto simp: wf_profile_def)
  have layer: "layer_depth l / hi \<le> layer_time l \<and> layer_time l \<le> layer_depth l / lo"
    if "l \<in> set ?L" for l
  proof -
    obtain a b c e where l: "l = (a, b, c, e)" by (cases l) auto
    from that l have "(a, b, c, e) \<in> set (profile_layers 0 ls ds ss)" by (auto dest: in_set_takeD)
    from wf_profile_layers [OF wf this] bnd
    have f: "a < c" "0 < b" "0 < e" "b \<noteq> e" "b \<le> hi" "e \<le> hi" "lo \<le> b" "lo \<le> e" by auto
    from layer_time_bounds [of a c b e] f
    have tb: "(c - a) / max e b < layer_time l" "layer_time l < (c - a) / min e b"
      by (auto simp: l)
    have "(c - a) / hi \<le> (c - a) / max e b"
      using f by (intro divide_left_mono) (auto simp: max_def)
    moreover have "(c - a) / min e b \<le> (c - a) / lo"
      using f lo by (intro divide_left_mono) (auto simp: min_def)
    ultimately show ?thesis using tb l by simp
  qed
  have T1: "ds ! i / hi \<le> layers_time (profile_layers 0 ls ds ss) i"
  proof -
    have "sum_list (map (\<lambda>l. layer_depth l / hi) ?L) \<le> sum_list (map layer_time ?L)"
      using layer by (intro sum_list_mono) auto
    then show ?thesis using D by (simp add: layers_time_def sum_list_map_div)
  qed
  have T2: "layers_time (profile_layers 0 ls ds ss) i \<le> ds ! i / lo"
  proof -
    have "sum_list (map layer_time ?L) \<le> sum_list (map (\<lambda>l. layer_depth l / lo) ?L)"
      using layer by (intro sum_list_mono) auto
    then show ?thesis using D by (simp add: layers_time_def sum_list_map_div)
  qed
  have hipos: "0 < hi" using lo bnd by force
  have Tpos: "0 < layers_time (profile_layers 0 ls ds ss) i"
    using T1 dpos hipos by (smt (verit) divide_pos_pos)
  have "ds ! i \<le> hi * layers_time (profile_layers 0 ls ds ss) i"
    using T1 hipos by (simp add: pos_divide_le_eq mult.commute)
  then have "hms ! i \<le> hi" unfolding hm using Tpos by (simp add: pos_divide_le_eq)
  moreover have "lo * layers_time (profile_layers 0 ls ds ss) i \<le> ds ! i"
    using T2 lo by (simp add: pos_le_divide_eq mult.commute)
  then have "lo \<le> hms ! i" unfolding hm using Tpos by (simp add: pos_le_divide_eq)
  ultimately show ?thesis by simp
qed


lemma find_first_greater:
  fixes d :: real
  shows "i < length ds \<Longrightarrow> d < ds ! i \<Longrightarrow> (\<forall>j < i. ds ! j \<le> d) \<Longrightarrow>
   find (\<lambda>item. d < item) ds = Some (ds ! i)"
proof -
  assume a: "i < length ds" "d < ds ! i" "\<forall>j < i. ds ! j \<le> d"
  then have "\<forall>j < i. \<not> d < ds ! j" by (auto simp: not_less)
  with a show ?thesis by (subst find_Some_iff) blast
qed

lemma find_none_le:
  fixes d :: real
  shows "(\<forall>x \<in> set ds. x \<le> d) \<Longrightarrow> find (\<lambda>item. d < item) ds = None"
  by (simp add: find_None_iff) (use leD in blast)


lemma np_interp2_const [simp]: "np_interp2 x xp (c, c) = c"
  by (cases xp) (simp add: np_interp2_def Let_def)

section \<open>Properties of the harmonic mean\<close>

lemma calculate_harmonic_mean_Inr:
  "calculate_harmonic_mean p = Inr p' \<Longrightarrow>
   speeds_list p \<noteq> [] \<and>
   harmonic_mean_loop (depths_list p) (speeds_list p) 0 (round_nd 1 (hd (speeds_list p))) 0 0
     = Inr (harmonic_mean_list p') \<and>
   depths_list p' = depths_list p \<and> speeds_list p' = speeds_list p"
  by (auto simp: calculate_harmonic_mean_def rbind_eq_Inr split: list.splits)

lemma calculate_harmonic_mean_from_loop:
  "speeds_list p = s # ss \<Longrightarrow>
   harmonic_mean_loop (depths_list p) (speeds_list p) 0 (round_nd 1 s) 0 0 = Inr hms \<Longrightarrow>
   calculate_harmonic_mean p = Inr (p\<lparr>harmonic_mean_list := hms\<rparr>)"
  by (simp add: calculate_harmonic_mean_def)

text \<open>
  C1. The first layer runs from the seed \<open>round(speeds_list[0], 1)\<close> at depth 0 to the first
  sample. When the first speed already has at most one decimal the speed difference is
  zero, and either \<^verbatim>\<open>delta_speed/delta_depth\<close> (first depth 0) or \<^verbatim>\<open>1/g\<close> divides by zero:
  \<^verbatim>\<open>calculate_harmonic_mean\<close> raises \<open>ZeroDivisionError\<close> on every such profile, the
  constant profile of the specification included.
\<close>

theorem calculate_harmonic_mean_first_layer:
  assumes "depths_list p \<noteq> []" "speeds_list p = surf # ss" "round_nd 1 surf = surf"
  shows "calculate_harmonic_mean p = Inl ZeroDivisionError"
proof -
  obtain d ds where "depths_list p = d # ds" using assms(1) by (cases "depths_list p") auto
  then show ?thesis using assms by (simp add: calculate_harmonic_mean_def Let_def)
qed

theorem calculate_harmonic_mean_first_layer_witness:
  "calculate_harmonic_mean \<lparr>depths_list = [0, 10, 20], speeds_list = [1500, 1500, 1500],
      harmonic_mean_list = []\<rparr> = Inl ZeroDivisionError"
  by (rule calculate_harmonic_mean_first_layer [where surf = 1500 and ss = "[1500, 1500]"]) simp_all

text \<open>
  C2. On a well-formed profile (depths strictly increasing from the surface, positive
  speeds, consecutive speeds distinct, the rounded seed included) the loop never raises,
  and it stores one harmonic mean per profile depth.
\<close>

theorem calculate_harmonic_mean_total:
  assumes "speeds_list p = s # ss" "wf_profile 0 (round_nd 1 s) (depths_list p) (speeds_list p)"
  shows "\<exists>p'. calculate_harmonic_mean p = Inr p' \<and>
              length (harmonic_mean_list p') = length (depths_list p)"
proof -
  obtain hms where loop:
      "harmonic_mean_loop (depths_list p) (speeds_list p) 0 (round_nd 1 s) 0 0 = Inr hms"
    using harmonic_mean_loop_wf [OF assms(2)] by auto
  then have "length hms = length (depths_list p)" using harmonic_mean_loop_Inr by blast
  with calculate_harmonic_mean_from_loop [OF assms(1) loop] show ?thesis by auto
qed

theorem calculate_harmonic_mean_total_witness:
  "\<exists>p'. calculate_harmonic_mean \<lparr>depths_list = [10, 20], speeds_list = [1500.25, 1510],
      harmonic_mean_list = []\<rparr> = Inr p' \<and> length (harmonic_mean_list p') = 2"
  using calculate_harmonic_mean_total [where s = "1500.25" and ss = "[1510]" and
      p = "\<lparr>depths_list = [10, 20], speeds_list = [1500.25, 1510], harmonic_mean_list = []\<rparr>"]
  by (simp add: wf_profile_def round_nd_def round_even_def Let_def numeral_2_eq_2)

text \<open>
  C3. Each harmonic mean the loop accumulates as \<open>delta_depth_sum/time_sum\<close> equals the depth
  of its sample divided by the one-way travel time from the surface down to that sample,
  summed over the constant-gradient layers (\<open>layers_time\<close>).
\<close>

theorem calculate_harmonic_mean_closed_form:
  assumes "calculate_harmonic_mean p = Inr p'" "i < length (depths_list p)"
  shows "harmonic_mean_list p' ! i =
           depths_list p ! i /
           layers_time (profile_layers 0 (round_nd 1 (hd (speeds_list p))) (depths_list p) (speeds_list p)) i"
proof -
  from calculate_harmonic_mean_Inr [OF assms(1)]
  have "harmonic_mean_loop (depths_list p) (speeds_list p) 0 (round_nd 1 (hd (speeds_list p))) 0 0
          = Inr (harmonic_mean_list p')" by blast
  from harmonic_mean_loop_Inr [OF this] assms(2) show ?thesis by simp
qed

theorem calculate_harmonic_mean_closed_form_witness:
  "\<exists>p'. calculate_harmonic_mean \<lparr>depths_list = [10], speeds_list = [1500.25],
      harmonic_mean_list = []\<rparr> = Inr p' \<and>
    harmonic_mean_list p' ! 0 = 10 / layers_time (profile_layers 0 (round_nd 1 1500.25) [10] [1500.25]) 0"
proof -
  have r: "round_nd 1 1500.25 = 1500.2" by (simp add: round_nd_def round_even_def Let_def)
  have "wf_profile 0 1500.2 [10] [1500.25]" by (simp add: wf_profile_def)
  then obtain hms where "harmonic_mean_loop [10] [1500.25] 0 1500.2 0 0 = Inr hms"
    using harmonic_mean_loop_wf by blast
  then have "harmonic_mean_loop [10] [1500.25] 0 (round_nd 1 1500.25) 0 0 = Inr hms"
    by (simp only: r)
  then have c: "calculate_harmonic_mean \<lparr>depths_list = [10], speeds_list = [1500.25],
      harmonic_mean_list = []\<rparr> = Inr \<lparr>depths_list = [10], speeds_list = [1500.25],
      harmonic_mean_list = hms\<rparr>"
    using calculate_harmonic_mean_from_loop [where s = "1500.25" and ss = "[]" and
        p = "\<lparr>depths_list = [10], speeds_list = [1500.25], harmonic_mean_list = []\<rparr>"] by simp
  have "harmonic_mean_list \<lparr>depths_list = [10], speeds_list = [1500.25], harmonic_mean_list = hms\<rparr> ! 0
     = [10] ! 0 / layers_time (profile_layers 0 (round_nd 1 (hd [1500.25])) [10] [1500.25]) 0"
    using calculate_harmonic_mean_closed_form [OF c] by simp
  with c show ?thesis by auto
qed

text \<open>
  C4. Every harmonic mean lies between the smallest and the largest sound speed of the
  profile, the rounded surface seed included: each layer's travel time lies between its
  thickness over the larger and over the smaller of its two speeds.
\<close>

theorem calculate_harmonic_mean_bounds:
  assumes ok: "calculate_harmonic_mean p = Inr p'" and sp: "speeds_list p = s # ss"
    and wf: "wf_profile 0 (round_nd 1 s) (depths_list p) (speeds_list p)"
    and bnd: "\<forall>v \<in> set (round_nd 1 s # speeds_list p). lo \<le> v \<and> v \<le> hi" and lo: "0 < lo"
    and i: "i < length (depths_list p)"
  shows "lo \<le> harmonic_mean_list p' ! i \<and> harmonic_mean_list p' ! i \<le> hi"
proof -
  from calculate_harmonic_mean_Inr [OF ok] sp
  have "harmonic_mean_loop (depths_list p) (speeds_list p) 0 (round_nd 1 s) 0 0
          = Inr (harmonic_mean_list p')" by simp
  from harmonic_mean_bounds_loop [OF wf this bnd lo i] show ?thesis .
qed

theorem calculate_harmonic_mean_bounds_witness:
  "\<exists>p'. calculate_harmonic_mean \<lparr>depths_list = [10], speeds_list = [1500.25],
      harmonic_mean_list = []\<rparr> = Inr p' \<and>
    1500.2 \<le> harmonic_mean_list p' ! 0 \<and> harmonic_mean_list p' ! 0 \<le> 1500.25"
proof -
  have r: "round_nd 1 1500.25 = 1500.2" by (simp add: round_nd_def round_even_def Let_def)
  have wf: "wf_profile 0 1500.2 [10] [1500.25]" by (simp add: wf_profile_def)
  then obtain hms where "harmonic_mean_loop [10] [1500.25] 0 1500.2 0 0 = Inr hms"
    using harmonic_mean_loop_wf by blast
  then have "harmonic_mean_loop [10] [1500.25] 0 (round_nd 1 1500.25) 0 0 = Inr hms"
    by (simp only: r)
  then have c: "calculate_harmonic_mean \<lparr>depths_list = [10], speeds_list = [1500.25],
      harmonic_mean_list = []\<rparr> = Inr \<lparr>depths_list = [10], speeds_list = [1500.25],
      harmonic_mean_list = hms\<rparr>"
    using calculate_harmonic_mean_from_loop [where s = "1500.25" and ss = "[]" and
        p = "\<lparr>depths_list = [10], speeds_list = [1500.25], harmonic_mean_list = []\<rparr>"] by simp
  have "1500.2 \<le> hms ! 0 \<and> hms ! 0 \<le> 1500.25"
    using calculate_harmonic_mean_bounds [OF c, where s = "1500.25" and ss = "[]" and lo = "1500.2"
        and hi = "1500.25" and i = 0] by (simp add: wf_profile_def round_nd_def round_even_def Let_def)
  with c show ?thesis by auto
qed

section \<open>Properties of the depth correction\<close>

text \<open>
  C5. A raw depth shallower than the first profile depth (every depth the sounding
  extractor produces is negative, the profile's are positive) makes the previous index
  \<open>-1\<close>: numpy then receives the abscissae \<open>[last depth, first depth]\<close>, the raw depth
  lies left of both, and the correction uses the deepest harmonic mean of the profile
  instead of the surface one.
\<close>

theorem correct_soundspeed_shallow:
  assumes ds: "depths_list p = dfirst # drest" and hl: "length (harmonic_mean_list p) = length (depths_list p)"
    and d: "d < dfirst" "d < last (dfirst # drest)" and s: "s \<noteq> 0"
  shows "correct_soundspeed p (PFloat d) (PFloat s) =
           Inr (last (harmonic_mean_list p) * (d / s), last (harmonic_mean_list p))"
proof -
  obtain hfirst hs where hms: "harmonic_mean_list p = hfirst # hs"
    using hl ds by (cases "harmonic_mean_list p") auto
  have f: "find (\<lambda>item. d < item) (depths_list p) = Some dfirst" using ds d by simp
  have "np_interp2 d (last (dfirst # drest), dfirst) (last (hfirst # hs), hfirst) = last (hfirst # hs)"
    using d by (simp add: np_interp2_def)
  then show ?thesis
    using ds hms f s py_get_minus_one [of "dfirst # drest"] py_get_minus_one [of "hfirst # hs"]
    by (simp add: correct_soundspeed_def py_div_def Let_def)
qed

theorem correct_soundspeed_shallow_witness:
  "correct_soundspeed \<lparr>depths_list = [10, 20], speeds_list = [1500, 1510],
      harmonic_mean_list = [1500, 1505]\<rparr> (PFloat (-5)) (PFloat 1500)
   = Inr (1505 * (-5 / 1500), 1505)"
  using correct_soundspeed_shallow [where dfirst = 10 and drest = "[20]" and d = "-5" and s = 1500 and
      p = "\<lparr>depths_list = [10, 20], speeds_list = [1500, 1510], harmonic_mean_list = [1500, 1505]\<rparr>"]
  by simp

text \<open>
  C6. A raw depth inside the profile, between the samples \<open>i - 1\<close> and \<open>i\<close> of a strictly
  increasing profile, is corrected with the harmonic mean interpolated linearly at the raw
  depth between the harmonic means of those two samples, and the new depth is that speed
  times the travel time \<open>depth/speed\<close>.
\<close>

theorem correct_soundspeed_interior:
  assumes sorted: "sorted_wrt (<) (depths_list p)"
    and hl: "length (harmonic_mean_list p) = length (depths_list p)"
    and i: "0 < i" "i < length (depths_list p)"
    and d: "depths_list p ! (i - 1) \<le> d" "d < depths_list p ! i" and s: "s \<noteq> 0"
  shows "correct_soundspeed p (PFloat d) (PFloat s) =
     (let x0 = depths_list p ! (i - 1); x1 = depths_list p ! i;
          y0 = harmonic_mean_list p ! (i - 1); y1 = harmonic_mean_list p ! i;
          v = y0 + (y1 - y0) / (x1 - x0) * (d - x0)
      in Inr (v * (d / s), v))"
proof -
  let ?ds = "depths_list p" and ?hs = "harmonic_mean_list p"
  have before: "\<forall>j < i. ?ds ! j \<le> d"
  proof (intro allI impI)
    fix j assume "j < i"
    then have "j \<le> i - 1" by simp
    with i sorted have "?ds ! j \<le> ?ds ! (i - 1)"
      by (cases "j = i - 1") (auto simp: sorted_wrt_iff_nth_less less_imp_le)
    with d show "?ds ! j \<le> d" by simp
  qed
  have f: "find (\<lambda>item. d < item) ?ds = Some (?ds ! i)"
    using find_first_greater [OF i(2) d(2) before] .
  have distinct: "\<forall>j < i. ?ds ! j \<noteq> ?ds ! i"
    using sorted i by (auto simp: sorted_wrt_iff_nth_less dest: less_imp_neq)
  have idx: "py_index ?ds (?ds ! i) = Inr (int i)" using py_index_first [OF i(2) distinct] .
  have lt: "?ds ! (i - 1) < ?ds ! i" using sorted i by (simp add: sorted_wrt_iff_nth_less)
  have interp: "np_interp2 d (?ds ! (i - 1), ?ds ! i) (?hs ! (i - 1), ?hs ! i) =
      ?hs ! (i - 1) + (?hs ! i - ?hs ! (i - 1)) / (?ds ! i - ?ds ! (i - 1)) * (d - ?ds ! (i - 1))"
    using d lt by (auto simp: np_interp2_def)
  show ?thesis
    using f idx interp i hl s py_get_prev [of i ?ds] py_get_prev [of i ?hs]
    by (simp add: correct_soundspeed_def py_div_def Let_def)
qed

theorem correct_soundspeed_interior_witness:
  "correct_soundspeed \<lparr>depths_list = [10, 20], speeds_list = [1500, 1510],
      harmonic_mean_list = [1500, 1510]\<rparr> (PFloat 15) (PFloat 1500)
   = Inr (1505 * (15 / 1500), 1505)"
  using correct_soundspeed_interior [where i = 1 and d = 15 and s = 1500 and
      p = "\<lparr>depths_list = [10, 20], speeds_list = [1500, 1510], harmonic_mean_list = [1500, 1510]\<rparr>"]
  by simp

text \<open>
  C7. A raw depth at or below every profile depth is corrected with the last harmonic mean,
  without extrapolation.
\<close>

theorem correct_soundspeed_deep:
  assumes ds: "depths_list p \<noteq> []" and deep: "\<forall>x \<in> set (depths_list p). x \<le> d"
    and h: "harmonic_mean_list p \<noteq> []" and s: "s \<noteq> 0"
  shows "correct_soundspeed p (PFloat d) (PFloat s) =
           Inr (last (harmonic_mean_list p) * (d / s), last (harmonic_mean_list p))"
  using find_none_le [OF deep] ds h s py_get_minus_one [OF h]
  by (simp add: correct_soundspeed_def py_div_def)

theorem correct_soundspeed_deep_witness:
  "correct_soundspeed \<lparr>depths_list = [10, 20], speeds_list = [1500, 1510],
      harmonic_mean_list = [1500, 1505]\<rparr> (PFloat 30) (PFloat 1500)
   = Inr (1505 * (30 / 1500), 1505)"
  using correct_soundspeed_deep [where d = 30 and s = 1500 and
      p = "\<lparr>depths_list = [10, 20], speeds_list = [1500, 1510], harmonic_mean_list = [1500, 1505]\<rparr>"]
  by simp

text \<open>
  C8. The error paths of the correction: a zero recorded sound speed raises
  \<open>ZeroDivisionError\<close> in \<^verbatim>\<open>original_depth/original_soundspeed\<close>, and an empty profile
  leaves \<^verbatim>\<open>interpolate\<close> unbound (\<open>UnboundLocalError\<close>).
\<close>

theorem correct_soundspeed_errors:
  "correct_soundspeed p (PFloat d) (PFloat 0) = Inl ZeroDivisionError \<and>
   (depths_list p = [] \<longrightarrow> s \<noteq> 0 \<longrightarrow> correct_soundspeed p (PFloat d) (PFloat s) = Inl UnboundLocalError)"
  by (simp add: correct_soundspeed_def py_div_def)

theorem correct_soundspeed_errors_witness:
  "correct_soundspeed \<lparr>depths_list = [], speeds_list = [], harmonic_mean_list = []\<rparr> (PFloat 5) (PFloat 1500)
     = Inl UnboundLocalError"
  using correct_soundspeed_errors [where p = "\<lparr>depths_list = [], speeds_list = [], harmonic_mean_list = []\<rparr>"
      and d = 5 and s = 1500] by simp

section \<open>Properties of the sounding correction\<close>

lemma correct_row_appends:
  "correct_row p row = Inr row' \<Longrightarrow> \<exists>a b c. row' = row @ [a, b, c]"
  by (auto simp: correct_row_def rbind_eq_Inr Let_def split: prod.splits)

lemma correct_soundings_Inr:
  "correct_soundings p rows = Inr rows' \<Longrightarrow>
   list_all2 (\<lambda>r r'. \<exists>a b c. r' = r @ [a, b, c]) rows rows'"
proof (induction rows arbitrary: rows')
  case Nil then show ?case by simp
next
  case (Cons row rows)
  then obtain r' rs' where "correct_row p row = Inr r'" "correct_soundings p rows = Inr rs'"
    "rows' = r' # rs'" by (auto simp: rbind_eq_Inr)
  with Cons.IH correct_row_appends show ?case by auto
qed

text \<open>
  C9. Correction keeps every sounding and never overwrites a field: each corrected row is
  the raw row with exactly three fields appended (corrected depth, corrected bottom
  height, corrected sound speed), so the raw depth and sound speed stay auditable.
\<close>

theorem correct_soundings_appends:
  assumes "correct_soundings p rows = Inr rows'"
  shows "length rows' = length rows \<and>
         (\<forall>i < length rows. \<exists>a b c. rows' ! i = rows ! i @ [a, b, c])"
  using correct_soundings_Inr [OF assms] by (auto simp: list_all2_conv_all_nth)

theorem correct_soundings_appends_witness:
  "\<exists>rows'. correct_soundings \<lparr>depths_list = [10], speeds_list = [1500], harmonic_mean_list = [1500]\<rparr>
      [[PFloat (-5), PFloat 3, PFloat 1500]] = Inr rows' \<and>
    length rows' = 1 \<and> (\<exists>a b c. rows' ! 0 = [PFloat (-5), PFloat 3, PFloat 1500, a, b, c])"
proof -
  let ?p = "\<lparr>depths_list = [10], speeds_list = [1500], harmonic_mean_list = [1500 :: real]\<rparr>"
  have c: "correct_soundings ?p [[PFloat (-5), PFloat 3, PFloat 1500]] =
      Inr [[PFloat (-5), PFloat 3, PFloat 1500, PFloat (-5), PFloat 3, PFloat 1500]]"
    by (simp add: correct_row_def correct_soundspeed_def py_div_def np_interp2_def Let_def
        py_get_def round_nd_def round_even_def)
  from correct_soundings_appends [OF c] c show ?thesis by auto
qed

text \<open>
  C10. Correcting against a flat harmonic-mean profile whose speed is the one the
  sounding was recorded with returns the raw depth unchanged, whatever branch of the
  lookup the depth takes: the correction step is idempotent under a flat profile.
\<close>

theorem correct_soundspeed_flat:
  assumes ds: "depths_list p \<noteq> []"
    and hl: "length (harmonic_mean_list p) = length (depths_list p)"
    and flat: "\<forall>h \<in> set (harmonic_mean_list p). h = c" and c: "c \<noteq> 0"
  shows "correct_soundspeed p (PFloat d) (PFloat c) = Inr (d, c)"
proof (cases "find (\<lambda>item. d < item) (depths_list p)")
  case None
  have hne: "harmonic_mean_list p \<noteq> []" using ds hl by auto
  have l: "last (harmonic_mean_list p) = c" using bspec [OF flat last_in_set [OF hne]] .
  have "correct_soundspeed p (PFloat d) (PFloat c) =
          Inr (last (harmonic_mean_list p) * (d / c), last (harmonic_mean_list p))"
    using None ds c py_get_minus_one [OF hne] by (simp add: correct_soundspeed_def py_div_def)
  also have "\<dots> = Inr (d, c)" using l c by simp
  finally show ?thesis .
next
  case (Some item)
  let ?ds = "depths_list p" and ?hs = "harmonic_mean_list p"
  have "item \<in> set ?ds" using Some by (auto simp: find_Some_iff)
  then have "\<exists>i. py_index ?ds item = Inr i" by (rule py_index_in_set)
  then obtain i where idx: "py_index ?ds item = Inr i" ..
  have ib: "0 \<le> i" "i < int (length ?ds)" using py_index_Inr [OF idx] by auto
  have r0: "- int (length ?ds) \<le> i - 1" "i - 1 < int (length ?ds)" using ib by simp_all
  have r1: "- int (length ?ds) \<le> i" "i < int (length ?ds)" using ib by simp_all
  obtain x0 where x0: "py_get ?ds (i - 1) = Inr x0" using py_get_ok [OF r0] by blast
  obtain x1 where x1: "py_get ?ds i = Inr x1" using py_get_ok [OF r1] by blast
  obtain y0 where y0: "py_get ?hs (i - 1) = Inr y0" "y0 \<in> set ?hs"
    using py_get_ok [of ?hs "i - 1"] r0 hl by auto
  obtain y1 where y1: "py_get ?hs i = Inr y1" "y1 \<in> set ?hs"
    using py_get_ok [of ?hs i] r1 hl by auto
  have "y0 = c" using bspec [OF flat y0(2)] .
  moreover have "y1 = c" using bspec [OF flat y1(2)] .
  ultimately
  show ?thesis using Some idx x0 x1 y0(1) y1(1) c
    by (simp add: correct_soundspeed_def py_div_def Let_def)
qed

theorem correct_soundspeed_flat_witness:
  "correct_soundspeed \<lparr>depths_list = [10, 20], speeds_list = [1500, 1500],
      harmonic_mean_list = [1500, 1500]\<rparr> (PFloat (-5.5)) (PFloat 1500) = Inr (-5.5, 1500)"
  by (rule correct_soundspeed_flat) simp_all

end
