(* ===== verification/Processor.thy ===== *)
theory Processor
  imports Editor Extractor Sound_Speed_Profile
begin

text \<open>
  The post-processing driver \<^verbatim>\<open>processor.py\<close>: the choice of the raw log, its reading, the
  menu loop over profile, soundings, correct, dops and clean, and the hand-over to the
  sounding editor. Files are a map from names to the CSV rows they hold (a missing name
  makes \<^verbatim>\<open>open\<close> raise \<open>FileNotFoundError\<close>), the console is the list of lines still to
  be typed, and the files written are recorded in the state. The module-level variables
  of the script are the fields of a record; a variable that is not yet bound is \<open>None\<close>.
\<close>

type_synonym files = "string \<Rightarrow> string list list option"

definition open_csv :: "files \<Rightarrow> string \<Rightarrow> string list list res" where
  "open_csv fs name = (case fs name of None \<Rightarrow> Inl FileNotFoundError | Some rows \<Rightarrow> Inr rows)"

text \<open>\<^verbatim>\<open>plot_hmss\<close>: the axis limits take \<^verbatim>\<open>min\<close> and \<^verbatim>\<open>max\<close> of the speeds and depths.\<close>

definition plot_hmss :: "profile \<Rightarrow> unit res" where
  "plot_hmss p =
     rbind (py_min (map PFloat (speeds_list p))) (\<lambda>_. rbind (py_max (map PFloat (speeds_list p))) (\<lambda>_.
     rbind (py_max (map PFloat (depths_list p))) (\<lambda>_. rbind (py_min (map PFloat (depths_list p))) (\<lambda>_.
       Inr ()))))"

section \<open>Choosing the raw log\<close>

text \<open>The first loop: names are read until \<^verbatim>\<open>file_check\<close> accepts one.\<close>

fun choose_file :: "string list \<Rightarrow> (string \<times> string list) res" where
  "choose_file [] = Inl EOFError"
| "choose_file (raw_file # rest) =
     (if file_check raw_file ''.csv'' then Inr (raw_file, rest) else choose_file rest)"

section \<open>State of the script\<close>

text \<open>
  \<^verbatim>\<open>raw_soundings\<close>, \<^verbatim>\<open>profile\<close> and \<^verbatim>\<open>dops\<close> start as \<^verbatim>\<open>False\<close> (\<open>None\<close>) and become
  lists; \<^verbatim>\<open>raw_profile\<close> and \<^verbatim>\<open>soundings\<close> are unbound until the branches that assign them.
\<close>

record proc =
  p_metadata :: "metadata option"
  p_read_log :: "pyval list list"
  p_raw_soundings :: "pyval list list option"
  p_profile :: "real list option"
  p_raw_soundings_exists :: bool
  p_profile_exists :: bool
  p_correct :: bool
  p_dops :: "pyval list list option"
  p_raw_profile :: "profile option"
  p_soundings :: "pyval list list option"
  p_saved :: "(string \<times> pyval list list) list"

text \<open>\<^verbatim>\<open>not v\<close> of a variable that is \<^verbatim>\<open>False\<close> or a list (an empty list is false too).\<close>

definition falsy :: "'a list option \<Rightarrow> bool" where
  "falsy v = (case v of None \<Rightarrow> True | Some xs \<Rightarrow> xs = [])"

definition proc_init :: "metadata option \<Rightarrow> pyval list list \<Rightarrow> proc" where
  "proc_init metadata read_log =
     \<lparr>p_metadata = metadata, p_read_log = read_log, p_raw_soundings = None, p_profile = None,
      p_raw_soundings_exists = False, p_profile_exists = False, p_correct = False, p_dops = None,
      p_raw_profile = None, p_soundings = None, p_saved = []\<rparr>"

section \<open>The menu\<close>

text \<open>
  The options printed, in order. Printing the \<^verbatim>\<open>correct\<close> option sets \<^verbatim>\<open>correct = True\<close>,
  so it is offered once only.
\<close>

definition menu_options :: "proc \<Rightarrow> string list \<times> proc" where
  "menu_options st =
     (let o1 = (if falsy (p_profile st) then [''profile''] else []);
          o2 = (if falsy (p_raw_soundings st) then [''soundings''] else []);
          show_correct = (p_profile_exists st \<and> p_raw_soundings_exists st \<and> \<not> p_correct st);
          o3 = (if show_correct then [''correct''] else []);
          o4 = (if p_raw_soundings_exists st
                then (if falsy (p_dops st) then [''dops''] else []) @ [''clean''] else [])
      in (o1 @ o2 @ o3 @ o4, if show_correct then st\<lparr>p_correct := True\<rparr> else st))"

text \<open>
  \<^verbatim>\<open>profile\<close>: the profile name, \<^verbatim>\<open>read_simple_svp\<close>, \<^verbatim>\<open>calculate_harmonic_mean\<close>, the plot,
  and \<^verbatim>\<open>save_data\<close> of the means as one-element rows.
\<close>

definition profile_branch :: "files \<Rightarrow> proc \<Rightarrow> string list \<Rightarrow> (proc \<times> string list) res" where
  "profile_branch fs st inp =
     rbind (py_input inp) (\<lambda>(profile_name, inp1).
     rbind (open_csv fs profile_name) (\<lambda>lines.
     rbind (read_simple_svp lines) (\<lambda>(depths, speeds).
     rbind (calculate_harmonic_mean
              \<lparr>depths_list = depths, speeds_list = speeds, harmonic_mean_list = []\<rparr>) (\<lambda>raw_profile.
     rbind (plot_hmss raw_profile) (\<lambda>_.
     rbind (save_data (map (\<lambda>x. [PFloat x]) (harmonic_mean_list raw_profile)) inp1) (\<lambda>(saved, inp2).
       Inr (st\<lparr>p_raw_profile := Some raw_profile, p_profile := Some (harmonic_mean_list raw_profile),
               p_profile_exists := True, p_saved := p_saved st @ saved\<rparr>, inp2)))))))"

text \<open>\<^verbatim>\<open>soundings\<close>: \<^verbatim>\<open>extract_soundings(metadata)\<close> on the rows read, then \<^verbatim>\<open>save_data\<close>.\<close>

definition soundings_branch :: "proc \<Rightarrow> string list \<Rightarrow> (proc \<times> string list) res" where
  "soundings_branch st inp =
     rbind (extract_soundings (p_metadata st) (p_read_log st)) (\<lambda>raw_soundings.
     rbind (save_data raw_soundings inp) (\<lambda>(saved, inp1).
       Inr (st\<lparr>p_raw_soundings := Some raw_soundings, p_raw_soundings_exists := True,
               p_saved := p_saved st @ saved\<rparr>, inp1)))"

text \<open>
  \<^verbatim>\<open>correct\<close>: \<^verbatim>\<open>raw_profile\<close> must be bound (else \<open>NameError\<close>) and \<^verbatim>\<open>raw_soundings\<close>
  a list (iterating \<^verbatim>\<open>False\<close> raises \<open>TypeError\<close>). \<^verbatim>\<open>correct_soundings\<close> appends to the
  rows in place and returns the same list, so \<^verbatim>\<open>raw_soundings\<close> and \<^verbatim>\<open>soundings\<close> are
  both the corrected rows afterwards.
\<close>

definition correct_branch :: "proc \<Rightarrow> string list \<Rightarrow> (proc \<times> string list) res" where
  "correct_branch st inp =
     (case p_raw_profile st of
        None \<Rightarrow> Inl NameError
      | Some raw_profile \<Rightarrow>
          (case p_raw_soundings st of
             None \<Rightarrow> Inl TypeError
           | Some raw_soundings \<Rightarrow>
               rbind (correct_soundings raw_profile raw_soundings) (\<lambda>soundings.
               rbind (save_data soundings inp) (\<lambda>(saved, inp1).
                 Inr (st\<lparr>p_soundings := Some soundings, p_raw_soundings := Some soundings,
                         p_saved := p_saved st @ saved\<rparr>, inp1)))))"

text \<open>\<^verbatim>\<open>dops\<close>: \<^verbatim>\<open>extract_dop()\<close> on the rows read, then \<^verbatim>\<open>save_data\<close>.\<close>

definition dops_branch :: "proc \<Rightarrow> string list \<Rightarrow> (proc \<times> string list) res" where
  "dops_branch st inp =
     rbind (extract_dop (p_read_log st)) (\<lambda>dops.
     rbind (save_data dops inp) (\<lambda>(saved, inp1).
       Inr (st\<lparr>p_dops := Some dops, p_saved := p_saved st @ saved\<rparr>, inp1)))"

text \<open>The selection: the new state, \<^verbatim>\<open>proceed\<close>, and the rest of the console.\<close>

definition proc_select :: "files \<Rightarrow> proc \<Rightarrow> string \<Rightarrow> string list \<Rightarrow> (proc \<times> bool \<times> string list) res" where
  "proc_select fs st selection inp =
     (let go = (\<lambda>r. rbind r (\<lambda>(st', inp'). Inr (st', False, inp'))) in
      if selection = ''profile'' then go (profile_branch fs st inp)
      else if selection = ''soundings'' then go (soundings_branch st inp)
      else if selection = ''correct'' then go (correct_branch st inp)
      else if selection = ''dops'' then go (dops_branch st inp)
      else if selection = ''clean'' then Inr (st, True, inp)
      else Inr (st, False, inp))"

definition proc_step :: "files \<Rightarrow> proc \<Rightarrow> string list \<Rightarrow> (proc \<times> bool \<times> string list) res" where
  "proc_step fs st inp =
     (case menu_options st of (_, st1) \<Rightarrow>
        rbind (py_input inp) (\<lambda>(selection, inp1). proc_select fs st1 selection inp1))"

lemma profile_branch_shorter:
  "profile_branch fs st inp = Inr (st', rest) \<Longrightarrow> length rest < length inp"
  unfolding profile_branch_def
  by (auto simp: rbind_eq_Inr dest!: py_input_shorter save_data_shorter)

lemma save_branch_shorter:
  "soundings_branch st inp = Inr (st', rest) \<Longrightarrow> length rest < length inp"
  "correct_branch st inp = Inr (st', rest) \<Longrightarrow> length rest < length inp"
  "dops_branch st inp = Inr (st', rest) \<Longrightarrow> length rest < length inp"
  by (auto simp: soundings_branch_def correct_branch_def dops_branch_def rbind_eq_Inr
           split: option.splits dest!: save_data_shorter)

lemma rbind_proceed:
  "rbind r (\<lambda>(st', inp'). Inr (st', False, inp')) = Inr (s, g, rest) \<Longrightarrow> r = Inr (s, rest)"
  by (cases r) auto

lemma proc_select_shorter:
  "proc_select fs st sel inp = Inr (st', go, rest) \<Longrightarrow> length rest \<le> length inp"
  unfolding proc_select_def Let_def
  by (auto split: if_splits dest!: rbind_proceed profile_branch_shorter save_branch_shorter)

lemma proc_step_shorter:
  "proc_step fs st inp = Inr (st', go, rest) \<Longrightarrow> length rest < length inp"
  unfolding proc_step_def
  by (auto simp: rbind_eq_Inr split: prod.splits dest!: py_input_shorter proc_select_shorter)

text \<open>
  The menu loop runs until \<^verbatim>\<open>proceed\<close> (result \<open>None\<close>) or an exception; the state is
  the one the loop had reached.
\<close>

function proc_loop :: "files \<Rightarrow> proc \<Rightarrow> string list \<Rightarrow> proc \<times> py_error option \<times> string list" where
  "proc_loop fs st inp =
     (case proc_step fs st inp of
        Inl e \<Rightarrow> (st, Some e, [])
      | Inr (st', proceed, rest) \<Rightarrow> if proceed then (st', None, rest) else proc_loop fs st' rest)"
  by pat_completeness auto
termination
  by (relation "measure (\<lambda>(fs, st, inp). length inp)") (auto dest: proc_step_shorter)

declare proc_loop.simps [simp del]

text \<open>
  The whole script: the raw log chosen and read, the menu, then
  \<^verbatim>\<open>osplib.Clean_Soundings(soundings)\<close>, a \<open>NameError\<close> when no correction was made.
  The result lists the files written and how the run ended.
\<close>

definition processor :: "files \<Rightarrow> string list \<Rightarrow> (string \<times> pyval list list) list \<times> py_error option" where
  "processor fs inp =
     (case rbind (choose_file inp) (\<lambda>(raw_file, inp1).
             rbind (open_csv fs raw_file) (\<lambda>file.
             rbind (read_raw_log raw_file file) (\<lambda>(metadata, read_log).
               Inr (proc_init metadata read_log, inp1)))) of
        Inl e \<Rightarrow> ([], Some e)
      | Inr (st, inp1) \<Rightarrow>
          (case proc_loop fs st inp1 of
             (st', Some e, _) \<Rightarrow> (p_saved st', Some e)
           | (st', None, inp2) \<Rightarrow>
               (case p_soundings st' of
                  None \<Rightarrow> (p_saved st', Some NameError)
                | Some soundings \<Rightarrow>
                    (case clean_soundings soundings inp2 of
                       (saved, outcome) \<Rightarrow> (p_saved st' @ saved, outcome)))))"


lemma proc_init_fields [simp]:
  "p_soundings (proc_init md rlog) = None" "p_saved (proc_init md rlog) = []"
  by (simp_all add: proc_init_def)

lemma soundings_then_clean:
  assumes "extract_soundings md rlog = Inr rs"
  shows "proc_loop fs (proc_init md rlog) (''soundings'' # ''no'' # ''clean'' # rest) =
           ((proc_init md rlog)\<lparr>p_raw_soundings := Some rs, p_raw_soundings_exists := True\<rparr>, None, rest)"
proof -
  have s1: "proc_step fs (proc_init md rlog) (''soundings'' # ''no'' # ''clean'' # rest) =
            Inr ((proc_init md rlog)\<lparr>p_raw_soundings := Some rs, p_raw_soundings_exists := True\<rparr>, False, ''clean'' # rest)"
    using assms by (simp add: proc_step_def menu_options_def proc_select_def soundings_branch_def
                              save_data_def py_input_def proc_init_def Let_def falsy_def)
  have s2: "proc_step fs ((proc_init md rlog)\<lparr>p_raw_soundings := Some rs, p_raw_soundings_exists := True\<rparr>) (''clean'' # rest) =
            Inr ((proc_init md rlog)\<lparr>p_raw_soundings := Some rs, p_raw_soundings_exists := True\<rparr>, True, rest)"
    by (simp add: proc_step_def menu_options_def proc_select_def py_input_def proc_init_def Let_def falsy_def)
  show ?thesis by (simp add: proc_loop.simps [of fs] s1 s2)
qed

section \<open>Properties of the script\<close>

text \<open>C37: Once soundings are extracted the menu offers clean, but choosing it before a
  correction leaves the module variable soundings unbound, so the hand-over
  osplib.Clean_Soundings(soundings) raises NameError and the run ends without the editor.\<close>

theorem processor_clean_uncorrected:
  assumes "file_check f ''.csv''" "fs f = Some file" "read_raw_log f file = Inr (md, rlog)"
    and "extract_soundings md rlog = Inr rs"
  shows "''clean'' \<in> set (fst (menu_options
            ((proc_init md rlog)\<lparr>p_raw_soundings := Some rs, p_raw_soundings_exists := True\<rparr>))) \<and>
         processor fs (f # ''soundings'' # ''no'' # ''clean'' # rest) = ([], Some NameError)"
proof
  show "''clean'' \<in> set (fst (menu_options
            ((proc_init md rlog)\<lparr>p_raw_soundings := Some rs, p_raw_soundings_exists := True\<rparr>)))"
    by (simp add: menu_options_def Let_def proc_init_def)
  show "processor fs (f # ''soundings'' # ''no'' # ''clean'' # rest) = ([], Some NameError)"
    using assms by (simp add: processor_def open_csv_def soundings_then_clean)
qed


theorem processor_clean_uncorrected_witness:
  "''clean'' \<in> set (fst (menu_options
      ((proc_init (Some \<lparr>meta_filetype = [], meta_survey = [PStr ''S'', PStr ''H'', PStr ''d''],
          meta_geodetics = [PFloat 1, PFloat 2], meta_vessel = [PStr ''V''],
          meta_gnss = [PStr ''G'', PStr ''R'', PFloat 1, PFloat 0, PFloat 0, PFloat 0],
          meta_sonar = [PStr ''P'', PStr ''E'', PFloat 0, PFloat 0, PFloat 0, PFloat 0],
          meta_svp = [PStr ''Q'', PStr ''P'', PFloat 1], meta_gnss_com = [PStr ''G'', PStr ''C'', PInt 9],
          meta_sonar_com = [PStr ''P'', PStr ''C'', PInt 9],
          meta_svp_com = [PStr ''Q'', PStr ''C'', PInt 9]\<rparr>) [])
        \<lparr>p_raw_soundings := Some [], p_raw_soundings_exists := True\<rparr>))) \<and>
   processor [''s.csv'' \<mapsto> [[''OSP_RAW_LOG''], [''Header_Start''], [''S'', ''H'', ''d''], [''1'', ''2''],
       [''V''], [''G'', ''R'', ''1'', ''0'', ''0'', ''0''], [''P'', ''E'', ''0'', ''0'', ''0'', ''0''],
       [''Q'', ''P'', ''1''], [''G'', ''C'', ''9''], [''P'', ''C'', ''9''], [''Q'', ''C'', ''9''],
       [''Header_End'']]]
     [''s.csv'', ''soundings'', ''no'', ''clean''] = ([], Some NameError)"
proof -
  have r: "read_raw_log ''s.csv'' [[''OSP_RAW_LOG''], [''Header_Start''], [''S'', ''H'', ''d''], [''1'', ''2''],
       [''V''], [''G'', ''R'', ''1'', ''0'', ''0'', ''0''], [''P'', ''E'', ''0'', ''0'', ''0'', ''0''],
       [''Q'', ''P'', ''1''], [''G'', ''C'', ''9''], [''P'', ''C'', ''9''], [''Q'', ''C'', ''9''],
       [''Header_End'']] =
     Inr (Some \<lparr>meta_filetype = [], meta_survey = [PStr ''S'', PStr ''H'', PStr ''d''],
          meta_geodetics = [PFloat 1, PFloat 2], meta_vessel = [PStr ''V''],
          meta_gnss = [PStr ''G'', PStr ''R'', PFloat 1, PFloat 0, PFloat 0, PFloat 0],
          meta_sonar = [PStr ''P'', PStr ''E'', PFloat 0, PFloat 0, PFloat 0, PFloat 0],
          meta_svp = [PStr ''Q'', PStr ''P'', PFloat 1], meta_gnss_com = [PStr ''G'', PStr ''C'', PInt 9],
          meta_sonar_com = [PStr ''P'', PStr ''C'', PInt 9],
          meta_svp_com = [PStr ''Q'', PStr ''C'', PInt 9]\<rparr>, [])"
    by (simp add: read_raw_log_def read_config_file_def file_check_def generic_reader_def
                  str_cell_def float_cell_def int_cell_def cell_def parse_float_def parse_int_def
                  strip_space_def is_space_def split_sign_def parse_unsigned_def is_digit_def
                  parse_exponent_def digit_val_def)
  have e: "extract_soundings (Some \<lparr>meta_filetype = [], meta_survey = [PStr ''S'', PStr ''H'', PStr ''d''],
          meta_geodetics = [PFloat 1, PFloat 2], meta_vessel = [PStr ''V''],
          meta_gnss = [PStr ''G'', PStr ''R'', PFloat 1, PFloat 0, PFloat 0, PFloat 0],
          meta_sonar = [PStr ''P'', PStr ''E'', PFloat 0, PFloat 0, PFloat 0, PFloat 0],
          meta_svp = [PStr ''Q'', PStr ''P'', PFloat 1], meta_gnss_com = [PStr ''G'', PStr ''C'', PInt 9],
          meta_sonar_com = [PStr ''P'', PStr ''C'', PInt 9],
          meta_svp_com = [PStr ''Q'', PStr ''C'', PInt 9]\<rparr>) [] = Inr []"
    by (simp add: extract_soundings_def ext_init_def)
  have f: "file_check ''s.csv'' ''.csv''" by (simp add: file_check_def)
  show ?thesis using processor_clean_uncorrected [OF f _ r e, of _ "[]"] by simp
qed

end
