(* ===== verification/Configurator.thy ===== *)
theory Configurator
  imports Acquisition Editor
begin

text \<open>
  The survey configurator \<^verbatim>\<open>configurator.py\<close>: either the values written at the top of the
  script or the answers to its prompts, each prompt with the validation loop the script
  runs, assembled into the metadata dictionary and written by \<^verbatim>\<open>osplib.write_meta_header\<close>.
  The console is the list of lines still to be typed (\<open>EOFError\<close> when it runs out); a
  validation loop that rejects an answer prints a message and reads the next line. The
  \<^verbatim>\<open>datetime\<close> of the survey is only ever written, so it is held as the text \<^verbatim>\<open>str\<close>
  gives it.
\<close>

section \<open>Validation loops\<close>

text \<open>\<^verbatim>\<open>len(s.split(' ')) == 1\<close>: the answer holds no space.\<close>

definition no_space :: "string \<Rightarrow> bool" where
  "no_space s \<longleftrightarrow> length (split_on CHR '' '' s) = 1"

text \<open>The survey name: read until an answer without a space.\<close>

fun ask_name :: "string list \<Rightarrow> (string \<times> string list) res" where
  "ask_name [] = Inl EOFError"
| "ask_name (s # rest) = (if no_space s then Inr (s, rest) else ask_name rest)"

text \<open>The configuration file name: without a space and ending with \<^verbatim>\<open>.csv\<close>.\<close>

fun ask_filename :: "string list \<Rightarrow> (string \<times> string list) res" where
  "ask_filename [] = Inl EOFError"
| "ask_filename (s # rest) =
     (if no_space s \<and> file_check s ''.csv'' then Inr (s, rest) else ask_filename rest)"

text \<open>
  The date: three answers per round, converted by \<^verbatim>\<open>int()\<close> inside a \<^verbatim>\<open>try\<close>, then the
  nested range tests of the script (the day test compares \<^verbatim>\<open>survey_month > 0\<close>).
\<close>

fun ask_date :: "string list \<Rightarrow> ((int \<times> int \<times> int) \<times> string list) res" where
  "ask_date (ys # ms # ds # rest) =
     (case (parse_int ys, parse_int ms, parse_int ds) of
        (Some y, Some m, Some d) \<Rightarrow>
          if 2000 < y \<and> y < 2100 then
            if m \<le> 12 \<and> 0 < m then
              if d \<le> 31 \<and> 0 < m then Inr ((y, m, d), rest) else ask_date rest
            else ask_date rest
          else ask_date rest
      | _ \<Rightarrow> ask_date rest)"
| "ask_date _ = Inl EOFError"

text \<open>A waterline offset: \<^verbatim>\<open>float()\<close> inside a \<^verbatim>\<open>try\<close>, then the sign test \<open>ok\<close>.\<close>

fun ask_offset :: "(real \<Rightarrow> bool) \<Rightarrow> string list \<Rightarrow> (real \<times> string list) res" where
  "ask_offset ok [] = Inl EOFError"
| "ask_offset ok (s # rest) =
     (case parse_float s of
        Some x \<Rightarrow> if ok x then Inr (x, rest) else ask_offset ok rest
      | None \<Rightarrow> ask_offset ok rest)"

section \<open>The survey date\<close>

definition leap_year :: "int \<Rightarrow> bool" where
  "leap_year y \<longleftrightarrow> 4 dvd y \<and> (\<not> 100 dvd y \<or> 400 dvd y)"

definition days_in_month :: "int \<Rightarrow> int \<Rightarrow> int" where
  "days_in_month y m =
     (if m = 2 then (if leap_year y then 29 else 28)
      else if m \<in> {4, 6, 9, 11} then 30 else 31)"

text \<open>
  \<^verbatim>\<open>dt.datetime(y, m, d)\<close>: \<open>ValueError\<close> outside the calendar, else the value, held as
  its \<^verbatim>\<open>str\<close> \<^verbatim>\<open>YYYY-MM-DD 00:00:00\<close>.
\<close>

definition py_datetime :: "int \<Rightarrow> int \<Rightarrow> int \<Rightarrow> pyval res" where
  "py_datetime y m d =
     (if 1 \<le> y \<and> y \<le> 9999 \<and> 1 \<le> m \<and> m \<le> 12 \<and> 1 \<le> d \<and> d \<le> days_in_month y m
      then Inr (PStr (pad_digits 4 (nat y) @ ''-'' @ pad_digits 2 (nat m) @ ''-'' @
                      pad_digits 2 (nat d) @ '' 00:00:00''))
      else Inl ValueError)"

section \<open>The answers\<close>

text \<open>The variables the script fills, each with its Python value.\<close>

record config =
  c_survey_name :: string
  c_survey_location :: string
  c_survey_filename :: string
  c_survey_date :: "int \<times> int \<times> int"
  c_vessel_name :: string
  c_gnss_name :: string
  c_gnss_type :: string
  c_gnss_offset :: real
  c_sonar_name :: string
  c_sonar_type :: string
  c_sonar_offset :: real
  c_svp_name :: string
  c_svp_type :: string
  c_default_sndspd :: pyval
  c_gnss_port :: string
  c_gnss_baud :: pyval
  c_sonar_port :: string
  c_sonar_baud :: pyval
  c_svp_port :: string
  c_svp_baud :: pyval

text \<open>The values entered at the top of the script.\<close>

definition config_defaults :: config where
  "config_defaults =
     \<lparr>c_survey_name = ''Example_Survey_Name'', c_survey_location = ''Example_Survey_Location'',
      c_survey_filename = ''Output/example_survey_name_config.csv'', c_survey_date = (2022, 1, 1),
      c_vessel_name = ''Example_Vessel_Name'', c_gnss_name = ''Example_GNSS_Name'',
      c_gnss_type = ''Generic_NMEA'', c_gnss_offset = 1 / 2, c_sonar_name = ''Example_Sonar_Name'',
      c_sonar_type = ''BR_Ping'', c_sonar_offset = - 1 / 2, c_svp_name = ''Example_SVP_Name'',
      c_svp_type = ''Valeport_SVS'', c_default_sndspd = PInt 1480, c_gnss_port = ''COM7'',
      c_gnss_baud = PInt 460800, c_sonar_port = ''COM3'', c_sonar_baud = PInt 115200,
      c_svp_port = ''COM9'', c_svp_baud = PInt 9600\<rparr>"

text \<open>
  The prompts of the \<^verbatim>\<open>yes\<close> branch in order. The default sound speed, ports and baud
  rates are taken as typed, without a check.
\<close>

definition ask_config :: "string list \<Rightarrow> (config \<times> string list) res" where
  "ask_config inp =
     rbind (ask_name inp) (\<lambda>(survey_name, i1).
     rbind (py_input i1) (\<lambda>(survey_location, i2).
     rbind (ask_filename i2) (\<lambda>(survey_filename, i3).
     rbind (ask_date i3) (\<lambda>(survey_date, i4).
     rbind (py_input i4) (\<lambda>(vessel_name, i5).
     rbind (py_input i5) (\<lambda>(gnss_name, i6).
     rbind (py_input i6) (\<lambda>(gnss_type, i7).
     rbind (ask_offset (\<lambda>x. 0 \<le> x) i7) (\<lambda>(gnss_offset, i8).
     rbind (py_input i8) (\<lambda>(sonar_name, i9).
     rbind (py_input i9) (\<lambda>(sonar_type, i10).
     rbind (ask_offset (\<lambda>x. x \<le> 0) i10) (\<lambda>(sonar_offset, i11).
     rbind (py_input i11) (\<lambda>(svp_name, i12).
     rbind (py_input i12) (\<lambda>(svp_type, i13).
     rbind (py_input i13) (\<lambda>(default_sndspd, i14).
     rbind (py_input i14) (\<lambda>(gnss_port, i15).
     rbind (py_input i15) (\<lambda>(gnss_baud, i16).
     rbind (py_input i16) (\<lambda>(sonar_port, i17).
     rbind (py_input i17) (\<lambda>(sonar_baud, i18).
     rbind (py_input i18) (\<lambda>(svp_port, i19).
     rbind (py_input i19) (\<lambda>(svp_baud, i20).
       Inr (\<lparr>c_survey_name = survey_name, c_survey_location = survey_location,
              c_survey_filename = survey_filename, c_survey_date = survey_date,
              c_vessel_name = vessel_name, c_gnss_name = gnss_name, c_gnss_type = gnss_type,
              c_gnss_offset = gnss_offset, c_sonar_name = sonar_name, c_sonar_type = sonar_type,
              c_sonar_offset = sonar_offset, c_svp_name = svp_name, c_svp_type = svp_type,
              c_default_sndspd = PStr default_sndspd, c_gnss_port = gnss_port,
              c_gnss_baud = PStr gnss_baud, c_sonar_port = sonar_port, c_sonar_baud = PStr sonar_baud,
              c_svp_port = svp_port, c_svp_baud = PStr svp_baud\<rparr>, i20)))))))))))))))))))))"

text \<open>The dictionary \<^verbatim>\<open>survey_metadata\<close> built from the variables.\<close>

definition config_metadata :: "config \<Rightarrow> metadata res" where
  "config_metadata c =
     (case c_survey_date c of (y, m, d) \<Rightarrow>
        rbind (py_datetime y m d) (\<lambda>date.
          Inr \<lparr>meta_filetype = [''OSPLIB_CONFIG''],
               meta_survey = [PStr (c_survey_name c), PStr (c_survey_location c), date],
               meta_geodetics = [PInt 6378137, PFloat 298.257223563],
               meta_vessel = [PStr (c_vessel_name c)],
               meta_gnss = [PStr (c_gnss_name c), PStr (c_gnss_type c), PFloat (c_gnss_offset c),
                            PInt 0, PInt 0, PInt 0],
               meta_sonar = [PStr (c_sonar_name c), PStr (c_sonar_type c), PFloat (c_sonar_offset c),
                             PInt 0, PInt 0, PInt 0],
               meta_svp = [PStr (c_svp_name c), PStr (c_svp_type c), c_default_sndspd c],
               meta_gnss_com = [PStr (c_gnss_name c), PStr (c_gnss_port c), c_gnss_baud c],
               meta_sonar_com = [PStr (c_sonar_name c), PStr (c_sonar_port c), c_sonar_baud c],
               meta_svp_com = [PStr (c_svp_name c), PStr (c_svp_port c), c_svp_baud c]\<rparr>))"

text \<open>
  The script: the \<^verbatim>\<open>yes\<close>/\<^verbatim>\<open>no\<close> question (any answer but \<^verbatim>\<open>yes\<close> keeps the values at
  the top), the metadata, and the header written to the configuration file. The result is
  the file name and the rows written to it.
\<close>

definition configurator :: "string list \<Rightarrow> (string \<times> string list list) res" where
  "configurator inp =
     rbind (py_input inp) (\<lambda>(new_survey, i1).
     rbind (if new_survey = ''yes'' then rbind (ask_config i1) (\<lambda>(c, _). Inr c)
            else Inr config_defaults) (\<lambda>c.
     rbind (config_metadata c) (\<lambda>m.
     rbind (write_meta_header m) (\<lambda>rows. Inr (c_survey_filename c, rows)))))"

section \<open>Properties of the configurator\<close>

lemma py_datetime_bad_day:
  "d < 1 \<or> days_in_month y m < d \<Longrightarrow> py_datetime y m d = Inl ValueError"
  by (auto simp: py_datetime_def)

lemma ask_date_accepts:
  "2000 < y \<Longrightarrow> y < 2100 \<Longrightarrow> 0 < m \<Longrightarrow> m \<le> 12 \<Longrightarrow> d \<le> 31 \<Longrightarrow>
   ask_date (int_str y # int_str m # int_str d # rest) = Inr ((y, m, d), rest)"
  by (simp add: int_str_parse)

text \<open>C34: The date prompt tests survey_month > 0 where it means the day, and checks the day
  only against 31: a day 0, a negative day or a day past the end of its month (30 February)
  passes the prompt, and dt.datetime then raises ValueError, so the configurator ends without
  writing the configuration file.\<close>

theorem configurator_bad_day:
  assumes "2000 < y" "y < 2100" "0 < m" "m \<le> 12" "d \<le> 31" "d < 1 \<or> days_in_month y m < d"
    and "ask_config i = Inr (c, r)" "c_survey_date c = (y, m, d)"
  shows "ask_date (int_str y # int_str m # int_str d # rest) = Inr ((y, m, d), rest) \<and>
         configurator (''yes'' # i) = Inl ValueError"
proof
  show "ask_date (int_str y # int_str m # int_str d # rest) = Inr ((y, m, d), rest)"
    using assms(1-5) by (rule ask_date_accepts)
  have "py_datetime y m d = Inl ValueError" using assms(6) by (rule py_datetime_bad_day)
  then show "configurator (''yes'' # i) = Inl ValueError"
    using assms(7,8) by (simp add: configurator_def config_metadata_def py_input_def)
qed

theorem configurator_bad_day_witness:
  "ask_date (int_str 2022 # int_str 2 # int_str 30 # []) = Inr ((2022, 2, 30), []) \<and>
   configurator (''yes'' # ([''S'', ''L'', ''c.csv'', ''2022'', ''2'', ''30'', ''V'', ''G'', ''T'', ''0'', ''P'', ''T'', ''0'', ''Q'', ''T'', ''1500'', ''C1'', ''9600'', ''C2'', ''9600'', ''C3'', ''9600''])) = Inl ValueError"
proof -
  have c: "ask_config ([''S'', ''L'', ''c.csv'', ''2022'', ''2'', ''30'', ''V'', ''G'', ''T'', ''0'', ''P'', ''T'', ''0'', ''Q'', ''T'', ''1500'', ''C1'', ''9600'', ''C2'', ''9600'', ''C3'', ''9600'']) = Inr (fst (projr (ask_config ([''S'', ''L'', ''c.csv'', ''2022'', ''2'', ''30'', ''V'', ''G'', ''T'', ''0'', ''P'', ''T'', ''0'', ''Q'', ''T'', ''1500'', ''C1'', ''9600'', ''C2'', ''9600'', ''C3'', ''9600'']))), snd (projr (ask_config ([''S'', ''L'', ''c.csv'', ''2022'', ''2'', ''30'', ''V'', ''G'', ''T'', ''0'', ''P'', ''T'', ''0'', ''Q'', ''T'', ''1500'', ''C1'', ''9600'', ''C2'', ''9600'', ''C3'', ''9600'']))))"
    and d: "c_survey_date (fst (projr (ask_config ([''S'', ''L'', ''c.csv'', ''2022'', ''2'', ''30'', ''V'', ''G'', ''T'', ''0'', ''P'', ''T'', ''0'', ''Q'', ''T'', ''1500'', ''C1'', ''9600'', ''C2'', ''9600'', ''C3'', ''9600''])))) = (2022, 2, 30)"
    by (simp_all add: ask_config_def py_input_def no_space_def file_check_def parse_int_def
                      parse_float_def strip_space_def is_space_def split_sign_def parse_unsigned_def
                      is_digit_def parse_exponent_def digit_val_def)
  have "days_in_month 2022 2 < 30" by (simp add: days_in_month_def leap_year_def)
  then show ?thesis using configurator_bad_day [OF _ _ _ _ _ _ c d, of "[]"] by simp
qed

end
