(* ===== verification/Spec2Isabelle.thy ===== *)
theory Spec2Isabelle
  imports Acquisition Processor Configurator
begin

text \<open>
  \<^bold>\<open>Open Sonar: a verification development of \<^verbatim>\<open>src/OpenSonarSoftware\<close>.\<close>

  \<^bold>\<open>The program.\<close> Open Sonar is a single-beam hydrographic survey chain in four Python
  files. \<^verbatim>\<open>configurator.py\<close> asks for the survey, vessel and sensor metadata and writes it
  as a configuration header. \<^verbatim>\<open>online.py\<close> reads that header, connects the GNSS receiver,
  the sonar and the sound-speed probe, and runs \<^verbatim>\<open>osplib.take_observation\<close> forever,
  appending one fix line and one ping line per cycle to a raw log. \<^verbatim>\<open>processor.py\<close> reads
  the raw log back, extracts soundings and DOP values, computes the harmonic-mean
  sound-speed profile, corrects the soundings, and hands them to the sounding editor. The
  library \<^verbatim>\<open>osplib.py\<close> holds every operation. The raw log file is the only hand-over
  between acquisition and processing.

  \<^bold>\<open>How the theories model it.\<close> Python values are \<open>pyval\<close> and exceptions are values of
  \<open>py_error\<close>. An operation that may raise returns \<open>'a res = py_error + 'a\<close>. Floats are
  exact reals and ints are \<open>int\<close>. A CSV file is the list of rows of text cells. A console
  is the list of lines still to be typed, and an exhausted console raises \<open>EOFError\<close>. A
  serial link is the stream of what it will deliver. Objects are records, and their methods
  are functions on them.
  \<^item> \<open>OSP_Prelude\<close>: \<open>py_error\<close>, \<open>res\<close> and \<open>rbind\<close>, \<open>pyval\<close>, list indexing \<open>py_get\<close>, and
    the operators on row fields.
  \<^item> \<open>Py_Text\<close>: the text layer. It holds \<^verbatim>\<open>float()\<close> and \<^verbatim>\<open>int()\<close> of strings
    (\<open>parse_float\<close>, \<open>parse_int\<close>), \<^verbatim>\<open>str()\<close> of floats, ints and times (\<open>float_repr\<close>,
    \<open>int_str\<close>, \<open>time_str\<close>), and \<^verbatim>\<open>datetime.strptime\<close> as a first-match search over the
    digit counts each directive accepts (\<open>py_strptime\<close>). Its lemmas are the round trips
    (\<open>float_repr_parse\<close>, \<open>int_str_parse\<close>, \<open>time_str_parse\<close>) the readers rely on.
  \<^item> \<open>Sound_Speed_Profile\<close>: class \<^verbatim>\<open>Profile\<close>, namely \<open>calculate_harmonic_mean\<close>
    (loop \<open>harmonic_mean_loop\<close>), \<open>correct_soundspeed\<close>, \<open>correct_row\<close> and
    \<open>correct_soundings\<close>. Claims C1 to C10 cover this theory: the closed form of the means
    against the layer travel times, their totality and bounds, the interpolation cases,
    the error paths, and the append-only rows.
  \<^item> \<open>Raw_Log\<close>: \<^verbatim>\<open>generic_reader\<close>, \<^verbatim>\<open>file_check\<close>, \<^verbatim>\<open>read_config_file\<close>,
    \<^verbatim>\<open>write_meta_header\<close>, \<^verbatim>\<open>Raw_Log.read_raw_log\<close> (\<open>read_row\<close>, \<open>coerce_field\<close>) and
    \<^verbatim>\<open>Profile.read_simple_svp\<close>. The metadata dictionary is the record \<open>metadata\<close>. Claims
    C11 to C15: the write/read round trips, the dropped whole-second rows, the unguarded
    header floats, and the short SVP line.
  \<^item> \<open>Extractor\<close>: \<^verbatim>\<open>get_time_lat_long\<close>, and the reducers \<^verbatim>\<open>extract_soundings\<close> (record
    \<open>ext_state\<close>, one row \<open>ext_row\<close>) and \<^verbatim>\<open>extract_dop\<close> (\<open>dop_loop\<close>). Inside the
    reducer's \<^verbatim>\<open>try\<close>, assignments before an exception stay made, and \<^verbatim>\<open>prev_row\<close> moves
    only on completion. Claims C16 to C22: the GGA adjacency, the numbering, the
    steps after GLL and GGA fixes, the coordinate decoding and its unsigned-latitude fault,
    and DOP extraction against the rising-edge reference \<open>dop_ref\<close>.
  \<^item> \<open>Acquisition\<close>: the \<^verbatim>\<open>GNSS\<close>, \<^verbatim>\<open>Sonar\<close> and \<^verbatim>\<open>Speed\<close> methods and
    \<^verbatim>\<open>take_observation\<close>, on the cycle state \<open>acq\<close>. It also holds \<^verbatim>\<open>online.py\<close>:
    \<open>speed_menu\<close>, \<open>online_menu\<close>, \<open>run_cycles\<close> and \<open>online_session\<close>, with the
    inductive \<open>reachable\<close> for the loop states. Claims C23 to C30: \<^verbatim>\<open>get_nmea\<close> returns,
    the 101-cycle resynchronisation, the written lines, and the unit and crash faults.
  \<^item> \<open>Editor\<close>: class \<^verbatim>\<open>Clean_Soundings\<close> and \<^verbatim>\<open>save_data\<close>. The object and the local
    \<^verbatim>\<open>new_soundings\<close> are the record \<open>editor\<close>. One iteration of \<^verbatim>\<open>while True\<close> is
    \<open>editor_step\<close> (\<open>zoom\<close>, \<open>editor_select\<close>, \<open>delete_step\<close>), and the loop is
    \<open>editor_loop\<close>. Claims C31 to C33, C35 and C36: deletion refines the spec's filter
    (\<open>spec_delete\<close>) up to the dropped last row, the deletion and zoom faults, and the
    invariant \<open>ed_inv\<close>.
  \<^item> \<open>Processor\<close>: \<^verbatim>\<open>processor.py\<close>. Its module variables are the record \<open>proc\<close>, the
    menu is \<open>menu_options\<close>, each selection is a \<open>*_branch\<close> composed from the operations
    above, the loop is \<open>proc_loop\<close>, and the whole script is \<open>processor\<close>. Files are a map
    from names to rows. Claim C37: choosing \<^verbatim>\<open>clean\<close> before \<^verbatim>\<open>correct\<close> ends the run
    with \<open>NameError\<close>.
  \<^item> \<open>Configurator\<close>: \<^verbatim>\<open>configurator.py\<close>. Its validation loops are \<open>ask_name\<close>,
    \<open>ask_filename\<close>, \<open>ask_date\<close> and \<open>ask_offset\<close>. The answers are the record
    \<open>config\<close>, the dictionary is \<open>config_metadata\<close>, and the run is \<open>configurator\<close>,
    which ends in \<open>write_meta_header\<close>. Claim C34: an impossible day passes the date
    prompt, so \<^verbatim>\<open>datetime\<close> raises.

  \<^bold>\<open>Loops, fuel and bounds.\<close>
  \<^item> Every loop over a list is structural recursion.
  \<^item> The interactive loops (\<open>editor_loop\<close>, \<open>proc_loop\<close>) are \<open>function\<close>s. Their
    termination measure is the length of the console, since each iteration reads a line.
  \<^item> \<^verbatim>\<open>get_nmea\<close> retries forever on a silent receiver. It is \<open>nmea_loop\<close> over a
    stream that may run out, and a stream that runs out gives \<open>None\<close>. C23 proves that it
    returns once a parsable sentence arrives.
  \<^item> The endless observation loop of \<^verbatim>\<open>online.py\<close> is observed over its first \<open>n\<close>
    cycles (\<open>run_cycles n\<close>). Its reachable states are given inductively, with no bound on
    their number.
  \<^item> \<open>float_repr\<close> is exact for reals with at most 17 fractional digits
    (\<open>short_decimal\<close>). These are the values the round-trip lemmas quantify over; they
    cover the decimal values the sensors report.

  \<^bold>\<open>Not modelled.\<close>
  \<^item> Output only: the console art \<^verbatim>\<open>osp_logo\<close> and \<^verbatim>\<open>smile\<close>, \<^verbatim>\<open>print\<close> and
    \<^verbatim>\<open>time.sleep\<close>. The matplotlib drawing is also output only, though \<^verbatim>\<open>plot_data\<close>
    and \<^verbatim>\<open>plot_hmss\<close> are modelled by the arithmetic on their axis limits.
  \<^item> The serial ports are opened and closed by \<^verbatim>\<open>connect_*\<close> and \<^verbatim>\<open>disconnect_*\<close>.
    The model represents them only by the connection flags and the streams.
  \<^item> The libraries: \<^verbatim>\<open>pynmea2\<close> (a line is a parsed sentence or rejected), \<^verbatim>\<open>brping\<close>
    (a reply record), \<^verbatim>\<open>csv\<close> quoting (the logger writes no quotes), and numpy's
    \<^verbatim>\<open>nan\<close>/\<^verbatim>\<open>inf\<close>. Where numpy would produce such a value and Python carries on
    (\<^verbatim>\<open>np.log\<close> of a non-positive ratio, or a zero \<^verbatim>\<open>time_sum\<close> in the harmonic-mean
    loop), the model stops with \<open>NonFinite\<close>. No claim depends on this.
  \<^item> Binary floating-point rounding: floats are exact reals.
  \<^item> \<^verbatim>\<open>float()\<close> of the strings \<^verbatim>\<open>inf\<close>, \<^verbatim>\<open>nan\<close> and \<^verbatim>\<open>Infinity\<close>, and digit separators
    such as \<^verbatim>\<open>1_0\<close>. \<open>parse_float\<close> rejects them, but Python accepts them. So C11 and C14
    hold for cells that use none of these spellings.
  \<^item> The partial results an exception leaves behind (an object's half-filled list, or
    rows \<^verbatim>\<open>correct_soundings\<close> has already extended in place) are not kept, because
    every such exception ends the program.
  \<^item> The file names \<^verbatim>\<open>online.py\<close> builds from the wall clock.
\<close>

end
